theory Spec2Isabelle
  imports Complex_Main "HOL-Library.Multiset"
begin

section \<open>Synthetic structural-causal-model generator and trial runner\<close>

text \<open>
  A shallow embedding of \<^verbatim>\<open>syn-entner.py\<close> and \<^verbatim>\<open>synthetic_high_dimension.py\<close>.

  Conventions of the embedding.
  \<^item> A two-dimensional numpy array is a record of its shape and its entries. Entries are
    real numbers: arithmetic is exact, the rounding of IEEE doubles is not modelled, and
    neither are overflow, \<^verbatim>\<open>inf\<close> and \<^verbatim>\<open>nan\<close>. Shapes, ranges, failures and the
    order of the draws do not depend on the rounding; an identity between computed numbers
    does, and one proved here is a fact of exact arithmetic that the float64 program
    satisfies up to its rounding error only.
  \<^item> The global numpy random stream is an explicit state, threaded through every function
    that draws. The state holds the outcomes of the draws (one per stream position) and
    the current position; a theorem that holds for every state holds for every outcome of
    the draws.
  \<^item> Every exception a call of the source can raise is a value of type \<open>error\<close>; a
    function that can raise returns \<open>error + result\<close>.
  \<^item> Array sizes are natural numbers (a negative size makes numpy raise at the first
    draw); the flags \<open>use_t_in_e\<close> and \<open>number_environments\<close> are Python integers.
\<close>

subsection \<open>Errors\<close>

text \<open>
  Each constructor is one place where numpy, pandas or scikit-learn raise (all of them
  \<^verbatim>\<open>ValueError\<close>, but \<open>IndexOutOfRange\<close> and \<open>KeyNotFound\<close>), or where an
  external collaborator fails.
\<close>

datatype error =
    ConcatenateNoArrays
  | ConcatenateShapeMismatch
  | DotShapeMismatch
  | BroadcastMismatch
  | BinomialProbabilityOutOfRange
  | ChoiceEmptyPopulation
  | ChoiceSizeMismatch
  | ChoiceNegativeProbability
  | ChoiceProbabilitiesSum
  | IndexOutOfRange
  | InconsistentSampleCount
  | SplitEmptyTrainSet
  | ColumnsLengthMismatch
  | KeyNotFound
  | ReshapeMismatch
  | CollaboratorFailure

definition and_then :: "error + 'a \<Rightarrow> ('a \<Rightarrow> error + 'b) \<Rightarrow> error + 'b" where
  "and_then m f = (case m of Inl err \<Rightarrow> Inl err | Inr v \<Rightarrow> f v)"

subsection \<open>Arrays\<close>

record 'a ndarray =
  nrows :: nat
  ncols :: nat
  entry :: "nat \<Rightarrow> nat \<Rightarrow> 'a"

text \<open>The entries of row \<open>i\<close>, and all entries in row-major order.\<close>

definition row_of :: "'a ndarray \<Rightarrow> nat \<Rightarrow> 'a list" where
  "row_of A i = map (entry A i) [0..<ncols A]"

definition entries :: "'a ndarray \<Rightarrow> 'a list" where
  "entries A = concat (map (row_of A) [0..<nrows A])"

definition np_zeros :: "nat \<Rightarrow> nat \<Rightarrow> real ndarray" where
  "np_zeros r c = \<lparr>nrows = r, ncols = c, entry = (\<lambda>i j. 0)\<rparr>"

definition np_zeros_int :: "nat \<Rightarrow> nat \<Rightarrow> int ndarray" where
  "np_zeros_int r c = \<lparr>nrows = r, ncols = c, entry = (\<lambda>i j. 0)\<rparr>"

definition np_ones :: "nat \<Rightarrow> nat \<Rightarrow> real ndarray" where
  "np_ones r c = \<lparr>nrows = r, ncols = c, entry = (\<lambda>i j. 1)\<rparr>"

text \<open>An integer array used where numpy needs floats is promoted to float.\<close>

definition as_float :: "int ndarray \<Rightarrow> real ndarray" where
  "as_float A = \<lparr>nrows = nrows A, ncols = ncols A, entry = (\<lambda>i j. real_of_int (entry A i j))\<rparr>"

definition hstack :: "'a ndarray \<Rightarrow> 'a ndarray \<Rightarrow> 'a ndarray" where
  "hstack A B = \<lparr>nrows = nrows A, ncols = ncols A + ncols B,
     entry = (\<lambda>i j. if j < ncols A then entry A i j else entry B i (j - ncols A))\<rparr>"

text \<open>\<^verbatim>\<open>np.concatenate(arrays, axis=1)\<close>: all arrays must have the same number of rows.\<close>

fun np_concatenate :: "'a ndarray list \<Rightarrow> error + 'a ndarray" where
  "np_concatenate [] = Inl ConcatenateNoArrays"
| "np_concatenate [A] = Inr A"
| "np_concatenate (A # B # rest) =
     (if nrows A = nrows B then np_concatenate (hstack A B # rest)
      else Inl ConcatenateShapeMismatch)"

definition matmul :: "real ndarray \<Rightarrow> real ndarray \<Rightarrow> real ndarray" where
  "matmul A B = \<lparr>nrows = nrows A, ncols = ncols B,
     entry = (\<lambda>i j. \<Sum>k<ncols A. entry A i k * entry B k j)\<rparr>"

text \<open>\<^verbatim>\<open>np.dot\<close> of two 2-D arrays: the inner dimensions must agree.\<close>

definition np_dot :: "real ndarray \<Rightarrow> real ndarray \<Rightarrow> error + real ndarray" where
  "np_dot A B = (if ncols A = nrows B then Inr (matmul A B) else Inl DotShapeMismatch)"

text \<open>
  Elementwise binary operations broadcast: along each axis the two sizes are equal, or
  one of them is 1 and that operand is repeated.
\<close>

definition broadcastable :: "nat \<Rightarrow> nat \<Rightarrow> bool" where
  "broadcastable a b \<longleftrightarrow> a = b \<or> a = 1 \<or> b = 1"

definition broadcast_dim :: "nat \<Rightarrow> nat \<Rightarrow> nat" where
  "broadcast_dim a b = (if a = 1 then b else a)"

definition broadcast_at :: "'a ndarray \<Rightarrow> nat \<Rightarrow> nat \<Rightarrow> 'a" where
  "broadcast_at A i j = entry A (if nrows A = 1 then 0 else i) (if ncols A = 1 then 0 else j)"

definition elementwise :: "(real \<Rightarrow> real \<Rightarrow> real) \<Rightarrow> real ndarray \<Rightarrow> real ndarray \<Rightarrow> real ndarray" where
  "elementwise f A B = \<lparr>nrows = broadcast_dim (nrows A) (nrows B),
     ncols = broadcast_dim (ncols A) (ncols B),
     entry = (\<lambda>i j. f (broadcast_at A i j) (broadcast_at B i j))\<rparr>"

definition broadcast :: "(real \<Rightarrow> real \<Rightarrow> real) \<Rightarrow> real ndarray \<Rightarrow> real ndarray \<Rightarrow> error + real ndarray" where
  "broadcast f A B =
     (if broadcastable (nrows A) (nrows B) \<and> broadcastable (ncols A) (ncols B)
      then Inr (elementwise f A B) else Inl BroadcastMismatch)"

definition np_add :: "real ndarray \<Rightarrow> real ndarray \<Rightarrow> error + real ndarray" where
  "np_add A B = broadcast (\<lambda>a b. a + b) A B"

definition np_sub :: "real ndarray \<Rightarrow> real ndarray \<Rightarrow> error + real ndarray" where
  "np_sub A B = broadcast (\<lambda>a b. a - b) A B"

definition np_scale :: "real \<Rightarrow> real ndarray \<Rightarrow> real ndarray" where
  "np_scale c A = \<lparr>nrows = nrows A, ncols = ncols A, entry = (\<lambda>i j. c * entry A i j)\<rparr>"

definition np_sub_scalar :: "real ndarray \<Rightarrow> real \<Rightarrow> real ndarray" where
  "np_sub_scalar A c = \<lparr>nrows = nrows A, ncols = ncols A, entry = (\<lambda>i j. entry A i j - c)\<rparr>"

text \<open>
  \<^verbatim>\<open>np.mean(A)\<close> over all entries. On an empty array numpy returns \<^verbatim>\<open>nan\<close> (with a
  warning, no exception); here the quotient by zero is 0.
\<close>

definition np_mean :: "real ndarray \<Rightarrow> real" where
  "np_mean A = (\<Sum>i<nrows A. \<Sum>j<ncols A. entry A i j) / real (nrows A * ncols A)"

text \<open>
  \<^verbatim>\<open>np.mean(A, axis=0)\<close>: the column means, an array of shape \<open>(ncols A,)\<close>, which
  broadcasting treats as one row.
\<close>

definition np_mean_axis0 :: "real ndarray \<Rightarrow> real ndarray" where
  "np_mean_axis0 A = \<lparr>nrows = 1, ncols = ncols A,
     entry = (\<lambda>i j. (\<Sum>k<nrows A. entry A k j) / real (nrows A))\<rparr>"

definition expit :: "real ndarray \<Rightarrow> real ndarray" where
  "expit A = \<lparr>nrows = nrows A, ncols = ncols A, entry = (\<lambda>i j. 1 / (1 + exp (- entry A i j)))\<rparr>"

text \<open>\<^verbatim>\<open>scipy.special.softmax(A, axis=1)\<close>: each row is normalised on its own.\<close>

definition softmax :: "real ndarray \<Rightarrow> real ndarray" where
  "softmax A = \<lparr>nrows = nrows A, ncols = ncols A,
     entry = (\<lambda>i j. exp (entry A i j) / (\<Sum>k<ncols A. exp (entry A i k)))\<rparr>"

text \<open>\<^verbatim>\<open>e[i,:] = v\<close>: every entry of row \<open>i\<close> becomes \<open>v\<close>; the row must exist.\<close>

definition set_row :: "'a ndarray \<Rightarrow> nat \<Rightarrow> 'a \<Rightarrow> error + 'a ndarray" where
  "set_row A i v =
     (if i < nrows A then Inr (A\<lparr>entry := (\<lambda>r c. if r = i then v else entry A r c)\<rparr>)
      else Inl IndexOutOfRange)"

text \<open>\<^verbatim>\<open>np.arange(k)\<close> for a Python integer \<open>k\<close>: empty when \<open>k \<le> 0\<close>.\<close>

definition np_arange :: "int \<Rightarrow> int list" where
  "np_arange k = map int [0..<nat k]"

subsection \<open>The random stream\<close>

text \<open>
  \<open>doubles rs p\<close> is the uniform sample of the unit interval that a draw at position
  \<open>p\<close> uses, \<open>normals rs p\<close> the standard normal sample, \<open>permutations rs p n\<close> the
  permutation of \<open>[0..<n]\<close> a shuffle at position \<open>p\<close> returns. \<open>stream_ok\<close> is
  the contract of the generator.
\<close>

record random_state =
  doubles :: "nat \<Rightarrow> real"
  normals :: "nat \<Rightarrow> real"
  permutations :: "nat \<Rightarrow> nat \<Rightarrow> nat list"
  pos :: nat

definition stream_ok :: "random_state \<Rightarrow> bool" where
  "stream_ok rs \<longleftrightarrow>
     (\<forall>p. 0 \<le> doubles rs p \<and> doubles rs p < 1) \<and>
     (\<forall>p n. mset (permutations rs p n) = mset [0..<n])"

text \<open>
  \<^verbatim>\<open>np.random.uniform(low, high, (r, c))\<close>: \<open>low + (high - low) * u\<close> for a fresh
  unit sample \<open>u\<close> per entry, in row-major order. Nothing checks \<open>low \<le> high\<close>.
  numpy rounds the sum to a double, so that the bound \<open>high\<close>, which the exact value
  never reaches, can be returned; both bounds are to be read as attainable.
\<close>

definition random_uniform :: "real \<Rightarrow> real \<Rightarrow> nat \<Rightarrow> nat \<Rightarrow> random_state \<Rightarrow> real ndarray \<times> random_state" where
  "random_uniform low high r c rs =
     (\<lparr>nrows = r, ncols = c,
       entry = (\<lambda>i j. low + (high - low) * doubles rs (pos rs + i * c + j))\<rparr>,
      rs\<lparr>pos := pos rs + r * c\<rparr>)"

text \<open>\<^verbatim>\<open>np.random.normal(loc, scale, (r, c))\<close>.\<close>

definition random_normal :: "real \<Rightarrow> real \<Rightarrow> nat \<Rightarrow> nat \<Rightarrow> random_state \<Rightarrow> real ndarray \<times> random_state" where
  "random_normal loc scale r c rs =
     (\<lparr>nrows = r, ncols = c,
       entry = (\<lambda>i j. loc + scale * normals rs (pos rs + i * c + j))\<rparr>,
      rs\<lparr>pos := pos rs + r * c\<rparr>)"

text \<open>
  \<^verbatim>\<open>np.random.binomial(n, p)\<close> for an array \<open>p\<close> of probabilities: each entry counts
  the successes among \<open>n\<close> fresh unit samples; a probability outside \<open>[0, 1]\<close> raises.
  Which unit samples numpy's sampler counts as successes is its own business: the range
  of an entry and the number of samples it uses are those of numpy, the value drawn from
  a given unit sample need not be.
\<close>

definition binomial_sample :: "nat \<Rightarrow> real ndarray \<Rightarrow> random_state \<Rightarrow> int ndarray" where
  "binomial_sample n p rs = \<lparr>nrows = nrows p, ncols = ncols p,
     entry = (\<lambda>i j. int (length (filter
                (\<lambda>k. doubles rs (pos rs + (i * ncols p + j) * n + k) < entry p i j) [0..<n])))\<rparr>"

definition random_binomial :: "nat \<Rightarrow> real ndarray \<Rightarrow> random_state \<Rightarrow> error + int ndarray \<times> random_state" where
  "random_binomial n p rs =
     (if list_all (\<lambda>q. 0 \<le> q \<and> q \<le> 1) (entries p)
      then Inr (binomial_sample n p rs, rs\<lparr>pos := pos rs + nrows p * ncols p * n\<rparr>)
      else Inl BinomialProbabilityOutOfRange)"

definition cumsum :: "real list \<Rightarrow> real list" where
  "cumsum xs = map (\<lambda>i. sum_list (take (Suc i) xs)) [0..<length xs]"

text \<open>The tolerance of \<^verbatim>\<open>np.random.choice\<close> on the sum of \<open>p\<close>: the square root of the
  double-precision machine epsilon \<open>2 ^ -52\<close>.\<close>

definition choice_atol :: real where
  "choice_atol = 1 / 2 ^ 26"

text \<open>
  \<^verbatim>\<open>np.random.choice(a, p=p)\<close>, one sample with replacement: the checks on \<open>a\<close> and
  \<open>p\<close> in numpy's order, then the index found by searching the unit sample in the
  normalised cumulative sums (\<^verbatim>\<open>searchsorted(..., side='right')\<close>).
\<close>

definition random_choice :: "int list \<Rightarrow> real list \<Rightarrow> random_state \<Rightarrow> error + int \<times> random_state" where
  "random_choice a p rs =
     (if a = [] then Inl ChoiceEmptyPopulation
      else if length p \<noteq> length a then Inl ChoiceSizeMismatch
      else if \<not> list_all (\<lambda>q. 0 \<le> q) p then Inl ChoiceNegativeProbability
      else if \<bar>sum_list p - 1\<bar> > choice_atol then Inl ChoiceProbabilitiesSum
      else
        let cdf = map (\<lambda>c. c / last (cumsum p)) (cumsum p);
            idx = length (filter (\<lambda>c. c \<le> doubles rs (pos rs)) cdf)
        in if idx < length a then Inr (a ! idx, rs\<lparr>pos := pos rs + 1\<rparr>)
           else Inl IndexOutOfRange)"

subsection \<open>\<^verbatim>\<open>syn-entner.py\<close>: the parameter sampler\<close>

definition get_u :: "nat \<Rightarrow> nat \<Rightarrow> random_state \<Rightarrow>
    (real ndarray \<times> real ndarray \<times> real ndarray \<times> real ndarray) \<times> random_state" where
  "get_u number_observations number_dimensions rs0 =
     (let (u1, rs1) = random_uniform 1 2 number_observations 1 rs0;
          (u2, rs2) = random_uniform 1 2 number_observations number_dimensions rs1;
          (u3, rs3) = random_uniform 1 2 number_observations number_dimensions rs2;
          (u4, rs4) = random_uniform 1 2 number_observations number_dimensions rs3
      in ((u1, u2, u3, u4), rs4))"

definition get_theta :: "nat \<Rightarrow> int \<Rightarrow> int \<Rightarrow> random_state \<Rightarrow>
    (real ndarray \<times> real ndarray \<times> real ndarray \<times> real ndarray \<times> real ndarray \<times> real ndarray)
    \<times> random_state" where
  "get_theta number_dimensions use_t_in_e number_environments rs0 =
     (let (theta1, rs1) = random_uniform 1 2 (number_dimensions + 1) 1 rs0;
          (theta2, rs2) = random_uniform 1 2 (number_dimensions * 2 + 1) number_dimensions rs1;
          (theta3, rs3) = random_uniform 1 2 (number_dimensions * 2) number_dimensions rs2;
          (theta4, rs4) = random_uniform 1 2 (number_dimensions * 2 + 1) 1 rs3;
          (theta5, rs5) = random_uniform 1 2 2 1 rs4
      in if use_t_in_e = 0 then
           let (a, rs6) = random_uniform 1 2 1 1 rs5;
               (b, rs7) = random_uniform (- 1) (- 2) 1 1 rs6;
               theta6 = hstack (hstack a (np_zeros 1 1)) b
           in ((theta1, theta2, theta3, theta4, theta5, theta6), rs7)
         else
           let (a, rs6) = random_uniform 1 2 2 1 rs5;
               (b, rs7) = random_uniform (- 1) (- 2) 2 1 rs6;
               theta6 = hstack (hstack a (np_zeros 2 1)) b
           in ((theta1, theta2, theta3, theta4, theta5, theta6), rs7))"

subsection \<open>\<^verbatim>\<open>syn-entner.py\<close>: the simulator\<close>

text \<open>
  The loop \<^verbatim>\<open>for i, probability in enumerate(probabilites)\<close>: one categorical draw
  per row, written into row \<open>i\<close> of \<open>e\<close>. The first draw that raises ends the loop.
\<close>

fun draw_environments :: "real ndarray \<Rightarrow> int \<Rightarrow> nat list \<Rightarrow> int ndarray \<Rightarrow> random_state \<Rightarrow>
    error + int ndarray \<times> random_state" where
  "draw_environments probabilites number_environments [] e rs = Inr (e, rs)"
| "draw_environments probabilites number_environments (i # is) e rs =
     and_then (random_choice (np_arange number_environments) (row_of probabilites i) rs)
       (\<lambda>(label, rs').
     and_then (set_row e i label)
       (\<lambda>e'. draw_environments probabilites number_environments is e' rs'))"

definition get_data :: "real ndarray \<Rightarrow> real ndarray \<Rightarrow> real ndarray \<Rightarrow> real ndarray \<Rightarrow>
    real ndarray \<Rightarrow> real ndarray \<Rightarrow> real ndarray \<Rightarrow> real ndarray \<Rightarrow> real ndarray \<Rightarrow> real ndarray \<Rightarrow>
    nat \<Rightarrow> nat \<Rightarrow> int \<Rightarrow> int \<Rightarrow> random_state \<Rightarrow>
    error + (real ndarray \<times> real ndarray \<times> real ndarray \<times> int ndarray \<times> int ndarray \<times>
             real ndarray \<times> real ndarray \<times> real ndarray) \<times> random_state" where
  "get_data u1 u2 u3 u4 theta1 theta2 theta3 theta4 theta5 theta6
       number_observations number_dimensions use_t_in_e number_environments rs0 =
     and_then (np_concatenate [u1, u2]) (\<lambda>u1u2.
     and_then (np_dot u1u2 theta1) (\<lambda>dot1.
     let (noise1, rs1) = random_normal 0 1 number_observations 1 rs0 in
     and_then (np_add dot1 (np_scale (1 / 10) noise1)) (\<lambda>x1.
     and_then (np_concatenate [x1, u2, u3]) (\<lambda>x1u2u3.
     and_then (np_dot x1u2u3 theta2) (\<lambda>dot2.
     let (noise2, rs2) = random_normal 0 1 number_observations number_dimensions rs1 in
     and_then (np_add dot2 (np_scale (1 / 10) noise2)) (\<lambda>x2.
     and_then (np_concatenate [u3, u4]) (\<lambda>u3u4.
     and_then (np_dot u3u4 theta3) (\<lambda>dot3.
     let (noise3, rs3) = random_normal 0 1 number_observations number_dimensions rs2 in
     and_then (np_add dot3 (np_scale (1 / 10) noise3)) (\<lambda>x3.
     and_then (np_concatenate [u1, x1]) (\<lambda>u1x1.
     and_then (np_dot u1x1 theta5) (\<lambda>dot5.
     and_then (random_binomial 1 (expit (np_sub_scalar dot5 (np_mean dot5))) rs3) (\<lambda>(t, rs4).
     and_then
       (if use_t_in_e = 0 then
          and_then (np_dot x1 theta6) (\<lambda>dot6.
          and_then (np_sub dot6 (np_mean_axis0 dot6)) (\<lambda>centred. Inr (softmax centred)))
        else
          and_then (np_concatenate [x1, as_float t]) (\<lambda>x1t.
          and_then (np_dot x1t theta6) (\<lambda>dot6.
          and_then (np_sub dot6 (np_mean_axis0 dot6)) (\<lambda>centred. Inr (softmax centred)))))
       (\<lambda>probabilites.
     and_then (draw_environments probabilites number_environments [0..<nrows probabilites]
                 (np_zeros_int number_observations 1) rs4) (\<lambda>(e, rs5).
     let zeros = np_zeros number_observations 1;
         ones = np_ones number_observations 1;
         (noise0, rs6) = random_normal 0 1 number_observations 1 rs5;
         noise = np_scale (1 / 10) noise0
     in
     and_then (np_concatenate [x2, u4, as_float t]) (\<lambda>x2u4t.
     and_then (np_dot x2u4t theta4) (\<lambda>dot4t.
     and_then (np_add dot4t noise) (\<lambda>y.
     and_then (np_concatenate [x2, u4, zeros]) (\<lambda>x2u4zeros.
     and_then (np_dot x2u4zeros theta4) (\<lambda>dot4zeros.
     and_then (np_add dot4zeros noise) (\<lambda>y_0.
     and_then (np_concatenate [x2, u4, ones]) (\<lambda>x2u4ones.
     and_then (np_dot x2u4ones theta4) (\<lambda>dot4ones.
     and_then (np_add dot4ones noise) (\<lambda>y_1.
     Inr ((x1, x2, x3, t, e, y, y_0, y_1), rs6))))))))))))))))))))))))"

subsection \<open>Rounding, splitting and labelled tables\<close>

text \<open>\<^verbatim>\<open>np.rint\<close>: the nearest integer, a tie going to the even neighbour.\<close>

definition rint :: "real \<Rightarrow> int" where
  "rint x =
     (let f = \<lfloor>x\<rfloor>; r = x - of_int f
      in if r < 1 / 2 then f else if 1 / 2 < r then f + 1 else if even f then f else f + 1)"

text \<open>\<^verbatim>\<open>np.round(x, decimals)\<close> scales by a power of ten, rounds to an integer, scales back.\<close>

definition np_round :: "real \<Rightarrow> nat \<Rightarrow> real" where
  "np_round x decimals = of_int (rint (x * 10 ^ decimals)) / 10 ^ decimals"

definition take_rows :: "'a ndarray \<Rightarrow> nat list \<Rightarrow> 'a ndarray" where
  "take_rows A idx = \<lparr>nrows = length idx, ncols = ncols A, entry = (\<lambda>i j. entry A (idx ! i) j)\<rparr>"

text \<open>
  The sizes \<^verbatim>\<open>train_test_split(..., test_size=0.2)\<close> uses: the test set gets
  \<open>\<lceil>0.2 * n\<rceil>\<close> rows, the training set the rest, and an empty training set raises.
\<close>

definition split_sizes :: "nat \<Rightarrow> error + nat \<times> nat" where
  "split_sizes n_samples =
     (let n_test = nat \<lceil>(2 / 10) * real n_samples\<rceil>;
          n_train = n_samples - n_test
      in if n_train = 0 then Inl SplitEmptyTrainSet else Inr (n_train, n_test))"

text \<open>
  \<^verbatim>\<open>train_test_split\<close> of scikit-learn on the six arrays of the source: the arrays
  must have the same number of rows; one permutation of the row indices is drawn, its
  first \<open>n_test\<close> entries index the test rows and the next \<open>n_train\<close> the training
  rows, and every array is indexed with the same two index lists.
\<close>

definition train_test_split :: "real ndarray \<Rightarrow> int ndarray \<Rightarrow> real ndarray \<Rightarrow> int ndarray \<Rightarrow>
    real ndarray \<Rightarrow> real ndarray \<Rightarrow> random_state \<Rightarrow>
    error + (real ndarray \<times> real ndarray \<times> int ndarray \<times> int ndarray \<times> real ndarray \<times> real ndarray \<times>
             int ndarray \<times> int ndarray \<times> real ndarray \<times> real ndarray \<times> real ndarray \<times> real ndarray)
            \<times> random_state" where
  "train_test_split features t y e y_0 y_1 rs =
     (let n_samples = nrows features in
      if \<not> (nrows t = n_samples \<and> nrows y = n_samples \<and> nrows e = n_samples \<and>
             nrows y_0 = n_samples \<and> nrows y_1 = n_samples)
      then Inl InconsistentSampleCount
      else
        and_then (split_sizes n_samples) (\<lambda>(n_train, n_test).
        let permutation = permutations rs (pos rs) n_samples;
            ind_test = take n_test permutation;
            ind_train = take n_train (drop n_test permutation)
        in Inr ((take_rows features ind_train, take_rows features ind_test,
                 take_rows t ind_train, take_rows t ind_test,
                 take_rows y ind_train, take_rows y ind_test,
                 take_rows e ind_train, take_rows e ind_test,
                 take_rows y_0 ind_train, take_rows y_0 ind_test,
                 take_rows y_1 ind_train, take_rows y_1 ind_test),
                rs\<lparr>pos := pos rs + 1\<rparr>)))"

text \<open>
  The two index lists of the split, as functions of the stream state at the call and of
  the number of samples (lemma \<open>train_test_split_Inr_iff\<close>).
\<close>

definition test_indices :: "random_state \<Rightarrow> nat \<Rightarrow> nat list" where
  "test_indices rs n = take (nat \<lceil>(2 / 10) * real n\<rceil>) (permutations rs (pos rs) n)"

definition train_indices :: "random_state \<Rightarrow> nat \<Rightarrow> nat list" where
  "train_indices rs n =
     take (n - nat \<lceil>(2 / 10) * real n\<rceil>)
       (drop (nat \<lceil>(2 / 10) * real n\<rceil>) (permutations rs (pos rs) n))"

text \<open>A pandas table: the column labels and the values.\<close>

record 'l data_frame =
  frame_columns :: "'l list"
  frame_values :: "real ndarray"

text \<open>\<^verbatim>\<open>str(n)\<close> for a natural number: its decimal digits.\<close>

fun str :: "nat \<Rightarrow> string" where
  "str n = (if n < 10 then [char_of (48 + n)] else str (n div 10) @ [char_of (48 + n mod 10)])"

declare str.simps [simp del]

text \<open>
  The three statements that build \<^verbatim>\<open>x_train\<close> (and again \<^verbatim>\<open>x_test\<close>): the table
  of the features, the column names \<open>'0', '1', ...\<close> (pandas raises when their number is
  not the number of columns), and the two-level labels (group, name).
\<close>

definition labelled_frame :: "nat \<Rightarrow> real ndarray \<Rightarrow> error + (string \<times> string) data_frame" where
  "labelled_frame number_dimensions features =
     (let names = map str [0..<2 * number_dimensions + 1] in
      if length names \<noteq> ncols features then Inl ColumnsLengthMismatch
      else Inr \<lparr>frame_columns =
                 zip (replicate 1 ''x1'' @ replicate number_dimensions ''x2'' @
                      replicate number_dimensions ''x3'') names,
               frame_values = features\<rparr>)"

text \<open>\<^verbatim>\<open>A[:,0]\<close>, as the list a \<^verbatim>\<open>pd.Series\<close> holds: the array needs a first column.\<close>

definition first_column :: "'a ndarray \<Rightarrow> error + 'a list" where
  "first_column A =
     (if 0 < ncols A then Inr (map (\<lambda>i. entry A i 0) [0..<nrows A]) else Inl IndexOutOfRange)"

subsection \<open>\<^verbatim>\<open>syn-entner.py\<close>: the dataset builder\<close>

definition get_train_test_data :: "nat \<Rightarrow> nat \<Rightarrow> int \<Rightarrow> int \<Rightarrow> random_state \<Rightarrow>
    error + ((string \<times> string) data_frame \<times> int list \<times> real list \<times> int list \<times> real list \<times> real list \<times>
             (string \<times> string) data_frame \<times> int list \<times> real list \<times> int list \<times> real list \<times> real list \<times>
             real) \<times> random_state" where
  "get_train_test_data number_observations number_dimensions use_t_in_e number_environments rs0 =
     (let ((u1, u2, u3, u4), rs1) = get_u number_observations number_dimensions rs0;
          ((theta1, theta2, theta3, theta4, theta5, theta6), rs2) =
             get_theta number_dimensions use_t_in_e number_environments rs1
      in
      and_then (get_data u1 u2 u3 u4 theta1 theta2 theta3 theta4 theta5 theta6
                  number_observations number_dimensions use_t_in_e number_environments rs2)
        (\<lambda>((x1, x2, x3, t, e, y, y_0, y_1), rs3).
      and_then (np_sub y_1 y_0) (\<lambda>difference.
      let true_ate = np_round (np_mean difference) 6 in
      and_then (np_concatenate [x1, x2, x3]) (\<lambda>features.
      and_then (train_test_split features t y e y_0 y_1 rs3)
        (\<lambda>((features_train, features_test, t_train, t_test, y_train, y_test, e_train, e_test,
            y_0_train, y_0_test, y_1_train, y_1_test), rs4).
      and_then (labelled_frame number_dimensions features_train) (\<lambda>x_train.
      and_then (first_column t_train) (\<lambda>t_train.
      and_then (first_column y_train) (\<lambda>y_train.
      and_then (first_column e_train) (\<lambda>e_train.
      and_then (first_column y_0_train) (\<lambda>y_0_train.
      and_then (first_column y_1_train) (\<lambda>y_1_train.
      and_then (labelled_frame number_dimensions features_test) (\<lambda>x_test.
      and_then (first_column t_test) (\<lambda>t_test.
      and_then (first_column y_test) (\<lambda>y_test.
      and_then (first_column e_test) (\<lambda>e_test.
      and_then (first_column y_0_test) (\<lambda>y_0_test.
      and_then (first_column y_1_test) (\<lambda>y_1_test.
      Inr ((x_train, t_train, y_train, e_train, y_0_train, y_1_train,
            x_test, t_test, y_test, e_test, y_0_test, y_1_test, true_ate), rs4))))))))))))))))))"

subsection \<open>The trial loops\<close>

text \<open>
  Both scripts run the same two nested loops,
  \<^verbatim>\<open>for r in range(number_repetitions): for i, number_dimensions in enumerate(number_dimensions_list)\<close>,
  around a body that builds a fresh dataset, calls the external collaborators and writes
  their outputs into cell \<open>(r, i)\<close> of the result matrices. The loops are the same
  functions for both scripts; the body is their parameter. An exception in a cell ends
  the run.
\<close>

fun inner_loop :: "(nat \<Rightarrow> nat \<Rightarrow> nat \<Rightarrow> 's \<Rightarrow> random_state \<Rightarrow> error + 's \<times> random_state) \<Rightarrow>
    nat \<Rightarrow> (nat \<times> nat) list \<Rightarrow> 's \<Rightarrow> random_state \<Rightarrow> error + 's \<times> random_state" where
  "inner_loop body r [] results rs = Inr (results, rs)"
| "inner_loop body r ((i, number_dimensions) # rest) results rs =
     and_then (body r i number_dimensions results rs)
       (\<lambda>(results', rs'). inner_loop body r rest results' rs')"

fun outer_loop :: "(nat \<Rightarrow> nat \<Rightarrow> nat \<Rightarrow> 's \<Rightarrow> random_state \<Rightarrow> error + 's \<times> random_state) \<Rightarrow>
    nat list \<Rightarrow> nat list \<Rightarrow> 's \<Rightarrow> random_state \<Rightarrow> error + 's \<times> random_state" where
  "outer_loop body [] number_dimensions_list results rs = Inr (results, rs)"
| "outer_loop body (r # rest) number_dimensions_list results rs =
     and_then (inner_loop body r (enumerate 0 number_dimensions_list) results rs)
       (\<lambda>(results', rs'). outer_loop body rest number_dimensions_list results' rs')"

text \<open>
  \<^verbatim>\<open>M[r,i] = v\<close>. The loops take \<open>r\<close> and \<open>i\<close> from the ranges the matrices were
  allocated with, so the index is always inside the matrix.
\<close>

definition set_cell :: "real ndarray \<Rightarrow> nat \<Rightarrow> nat \<Rightarrow> real \<Rightarrow> real ndarray" where
  "set_cell M r i v = M\<lparr>entry := (\<lambda>a b. if a = r \<and> b = i then v else entry M a b)\<rparr>"

text \<open>
  \<^verbatim>\<open>np.std(M, axis=0)\<close>, with numpy's default \<^verbatim>\<open>ddof=0\<close>: the square root of the
  mean of the squared absolute deviations from the column mean.
\<close>

definition np_std_axis0 :: "real ndarray \<Rightarrow> real ndarray" where
  "np_std_axis0 M = \<lparr>nrows = 1, ncols = ncols M,
     entry = (\<lambda>i j. sqrt ((\<Sum>k<nrows M. \<bar>entry M k j - entry (np_mean_axis0 M) 0 j\<bar> ^ 2)
                           / real (nrows M)))\<rparr>"

text \<open>\<^verbatim>\<open>v.reshape(1, c)\<close> of a vector of column statistics: the sizes must agree.\<close>

definition reshape_row :: "real ndarray \<Rightarrow> nat \<Rightarrow> error + real ndarray" where
  "reshape_row v c = (if nrows v * ncols v = 1 * c then Inr v else Inl ReshapeMismatch)"

definition np_div_scalar :: "real ndarray \<Rightarrow> real \<Rightarrow> real ndarray" where
  "np_div_scalar A c = \<lparr>nrows = nrows A, ncols = ncols A, entry = (\<lambda>i j. entry A i j / c)\<rparr>"

definition np_abs :: "real ndarray \<Rightarrow> real ndarray" where
  "np_abs A = \<lparr>nrows = nrows A, ncols = ncols A, entry = (\<lambda>i j. \<bar>entry A i j\<bar>)\<rparr>"

text \<open>
  A file \<^verbatim>\<open>np.savetxt(fname, M, delimiter=d)\<close> writes: no header line (the default
  header is empty), then one line per row of \<open>M\<close>, the numbers separated by \<open>d\<close>. The
  text of a number is not modelled; a file is its header, delimiter and rows of numbers.
  The folder of the file is taken to exist (\<^verbatim>\<open>np.savetxt\<close> raises when it does not).
\<close>

record csv_file =
  csv_header :: string
  csv_delimiter :: string
  csv_rows :: "real list list"

definition np_savetxt :: "real ndarray \<Rightarrow> string \<Rightarrow> csv_file" where
  "np_savetxt M delimiter =
     \<lparr>csv_header = [], csv_delimiter = delimiter, csv_rows = map (row_of M) [0..<nrows M]\<rparr>"

text \<open>Column selection in a table, and a list as a one-column array (\<^verbatim>\<open>reshape(-1, 1)\<close>).\<close>

definition select_columns :: "real ndarray \<Rightarrow> nat list \<Rightarrow> real ndarray" where
  "select_columns A idx =
     \<lparr>nrows = nrows A, ncols = length idx, entry = (\<lambda>i j. entry A i (idx ! j))\<rparr>"

definition positions :: "('l \<Rightarrow> bool) \<Rightarrow> 'l list \<Rightarrow> nat list" where
  "positions P labels = filter (\<lambda>j. P (labels ! j)) [0..<length labels]"

text \<open>\<^verbatim>\<open>x[['g1', 'g2', ...]]\<close> on two-level columns: the columns of each group, in the
  order of the groups asked for; a group with no column raises \<^verbatim>\<open>KeyError\<close>.\<close>

definition select_groups :: "(string \<times> string) data_frame \<Rightarrow> string list \<Rightarrow>
    error + (string \<times> string) data_frame" where
  "select_groups x groups =
     (if list_all (\<lambda>g. g \<in> set (map fst (frame_columns x))) groups then
        let idx = concat (map (\<lambda>g. positions (\<lambda>l. fst l = g) (frame_columns x)) groups)
        in Inr \<lparr>frame_columns = map (\<lambda>j. frame_columns x ! j) idx,
                 frame_values = select_columns (frame_values x) idx\<rparr>
      else Inl KeyNotFound)"

definition column_array :: "'a list \<Rightarrow> 'a ndarray" where
  "column_array xs = \<lparr>nrows = length xs, ncols = 1, entry = (\<lambda>i j. xs ! i)\<rparr>"

subsection \<open>\<^verbatim>\<open>syn-entner.py\<close>: the trial runner\<close>

text \<open>
  The external collaborators of \<^verbatim>\<open>syn-entner.py\<close>:
  \<^verbatim>\<open>StandardScaler().fit_transform\<close> and the first component of the result of the
  conditional independence test \<^verbatim>\<open>RCoT(e, y, z)\<close>, which may fail.
\<close>

record collaborators =
  fit_transform :: "real ndarray \<Rightarrow> real ndarray"
  RCoT :: "int ndarray \<Rightarrow> real ndarray \<Rightarrow> real ndarray \<Rightarrow> error + real"

definition trial_cell :: "collaborators \<Rightarrow> nat \<Rightarrow> int \<Rightarrow> int \<Rightarrow> nat \<Rightarrow> nat \<Rightarrow> nat \<Rightarrow>
    real ndarray \<times> real ndarray \<times> real ndarray \<Rightarrow> random_state \<Rightarrow>
    error + (real ndarray \<times> real ndarray \<times> real ndarray) \<times> random_state" where
  "trial_cell c number_observations use_t_in_e number_environments r i number_dimensions results rs =
     (case results of (pvalue_empty, pvalue_x3, pvalue_x2x3) \<Rightarrow>
      and_then (get_train_test_data number_observations number_dimensions use_t_in_e
                  number_environments rs)
        (\<lambda>((x_train, t_train, y_train, e_train, y_0_train, y_1_train,
            x_test, t_test, y_test, e_test, y_0_test, y_1_test, true_ate), rs').
      and_then (select_groups x_train [''x2'']) (\<lambda>x_train_x2.
      let x2_n = fit_transform c (frame_values x_train_x2) in
      and_then (select_groups x_train [''x3'']) (\<lambda>x_train_x3.
      let x3_n = fit_transform c (frame_values x_train_x3);
          y_n = fit_transform c (column_array y_train);
          t = column_array t_train;
          e = column_array e_train
      in
      and_then (RCoT c e y_n (as_float t)) (\<lambda>p_empty.
      let pvalue_empty = set_cell pvalue_empty r i p_empty in
      and_then (np_concatenate [x3_n, as_float t]) (\<lambda>x3_t.
      and_then (RCoT c e y_n x3_t) (\<lambda>p_x3.
      let pvalue_x3 = set_cell pvalue_x3 r i p_x3 in
      and_then (np_concatenate [x2_n, x3_n, as_float t]) (\<lambda>x2_x3_t.
      and_then (RCoT c e y_n x2_x3_t) (\<lambda>p_x2x3.
      let pvalue_x2x3 = set_cell pvalue_x2x3 r i p_x2x3 in
      Inr ((pvalue_empty, pvalue_x3, pvalue_x2x3), rs'))))))))))"

text \<open>
  \<open>main\<close> returns what the run leaves behind: the files written, in the order of the
  \<^verbatim>\<open>np.savetxt\<close> calls, and the arrays printed at the end, in the order of the
  \<^verbatim>\<open>print\<close> calls (the progress lines are left out).
\<close>

definition main :: "collaborators \<Rightarrow> nat \<Rightarrow> nat \<Rightarrow> int \<Rightarrow> int \<Rightarrow> random_state \<Rightarrow>
    error + ((string \<times> csv_file) list \<times> real ndarray list) \<times> random_state" where
  "main c number_repetitions number_observations use_t_in_e number_environments rs =
     (let number_dimensions_list = [2, 7, 12];
          pvalue_empty = np_zeros number_repetitions (length number_dimensions_list);
          pvalue_x3 = np_zeros number_repetitions (length number_dimensions_list);
          pvalue_x2x3 = np_zeros number_repetitions (length number_dimensions_list)
      in
      and_then (outer_loop (trial_cell c number_observations use_t_in_e number_environments)
                  [0..<number_repetitions] number_dimensions_list
                  (pvalue_empty, pvalue_x3, pvalue_x2x3) rs)
        (\<lambda>((pvalue_empty, pvalue_x3, pvalue_x2x3), rs').
      let files = [(''syn-entner/pvalue_empty.csv'', np_savetxt pvalue_empty '',''),
                   (''syn-entner/pvalue_x3.csv'', np_savetxt pvalue_x3 '',''),
                   (''syn-entner/pvalue_x2x3.csv'', np_savetxt pvalue_x2x3 '','')]
      in
      and_then (reshape_row (np_mean_axis0 pvalue_empty) (length number_dimensions_list))
        (\<lambda>avg_pvalue_empty.
      and_then (reshape_row (np_mean_axis0 pvalue_x3) (length number_dimensions_list))
        (\<lambda>avg_pvalue_x3.
      and_then (reshape_row (np_mean_axis0 pvalue_x2x3) (length number_dimensions_list))
        (\<lambda>avg_pvalue_x2x3.
      and_then (reshape_row (np_std_axis0 pvalue_empty) (length number_dimensions_list))
        (\<lambda>std_empty.
      let std_pvalue_empty = np_div_scalar std_empty (sqrt (real number_repetitions)) in
      and_then (reshape_row (np_std_axis0 pvalue_x3) (length number_dimensions_list))
        (\<lambda>std_x3.
      let std_pvalue_x3 = np_div_scalar std_x3 (sqrt (real number_repetitions)) in
      and_then (reshape_row (np_std_axis0 pvalue_x2x3) (length number_dimensions_list))
        (\<lambda>std_x2x3.
      let std_pvalue_x2x3 = np_div_scalar std_x2x3 (sqrt (real number_repetitions)) in
      Inr ((files, [avg_pvalue_empty, avg_pvalue_x3, avg_pvalue_x2x3,
                    std_pvalue_empty, std_pvalue_x3, std_pvalue_x2x3]), rs')))))))))"

subsection \<open>\<^verbatim>\<open>synthetic_high_dimension.py\<close>: sampler, simulator and dataset builder\<close>

text \<open>
  The second script defines \<^verbatim>\<open>get_u\<close>, \<^verbatim>\<open>get_theta\<close>, \<^verbatim>\<open>get_data\<close> and
  \<^verbatim>\<open>get_train_test_data\<close> again; its definitions are embedded on their own, with the
  suffix \<open>_hd\<close>.
\<close>

definition get_u_hd :: "nat \<Rightarrow> nat \<Rightarrow> random_state \<Rightarrow>
    (real ndarray \<times> real ndarray \<times> real ndarray \<times> real ndarray) \<times> random_state" where
  "get_u_hd number_observations number_dimensions rs0 =
     (let (u1, rs1) = random_uniform 1 2 number_observations 1 rs0;
          (u2, rs2) = random_uniform 1 2 number_observations number_dimensions rs1;
          (u3, rs3) = random_uniform 1 2 number_observations number_dimensions rs2;
          (u4, rs4) = random_uniform 1 2 number_observations number_dimensions rs3
      in ((u1, u2, u3, u4), rs4))"

definition get_theta_hd :: "nat \<Rightarrow> int \<Rightarrow> int \<Rightarrow> random_state \<Rightarrow>
    (real ndarray \<times> real ndarray \<times> real ndarray \<times> real ndarray \<times> real ndarray \<times> real ndarray)
    \<times> random_state" where
  "get_theta_hd number_dimensions use_t_in_e number_environments rs0 =
     (let (theta1, rs1) = random_uniform 1 2 (number_dimensions + 1) 1 rs0;
          (theta2, rs2) = random_uniform 1 2 (number_dimensions * 2 + 1) number_dimensions rs1;
          (theta3, rs3) = random_uniform 1 2 (number_dimensions * 2) number_dimensions rs2;
          (theta4, rs4) = random_uniform 1 2 (number_dimensions * 2 + 1) 1 rs3;
          (theta5, rs5) = random_uniform 1 2 2 1 rs4
      in if use_t_in_e = 0 then
           let (a, rs6) = random_uniform 1 2 1 1 rs5;
               (b, rs7) = random_uniform (- 1) (- 2) 1 1 rs6;
               theta6 = hstack (hstack a (np_zeros 1 1)) b
           in ((theta1, theta2, theta3, theta4, theta5, theta6), rs7)
         else
           let (a, rs6) = random_uniform 1 2 2 1 rs5;
               (b, rs7) = random_uniform (- 1) (- 2) 2 1 rs6;
               theta6 = hstack (hstack a (np_zeros 2 1)) b
           in ((theta1, theta2, theta3, theta4, theta5, theta6), rs7))"

fun draw_environments_hd :: "real ndarray \<Rightarrow> int \<Rightarrow> nat list \<Rightarrow> int ndarray \<Rightarrow> random_state \<Rightarrow>
    error + int ndarray \<times> random_state" where
  "draw_environments_hd probabilites number_environments [] e rs = Inr (e, rs)"
| "draw_environments_hd probabilites number_environments (i # is) e rs =
     and_then (random_choice (np_arange number_environments) (row_of probabilites i) rs)
       (\<lambda>(label, rs').
     and_then (set_row e i label)
       (\<lambda>e'. draw_environments_hd probabilites number_environments is e' rs'))"

definition get_data_hd :: "real ndarray \<Rightarrow> real ndarray \<Rightarrow> real ndarray \<Rightarrow> real ndarray \<Rightarrow>
    real ndarray \<Rightarrow> real ndarray \<Rightarrow> real ndarray \<Rightarrow> real ndarray \<Rightarrow> real ndarray \<Rightarrow> real ndarray \<Rightarrow>
    nat \<Rightarrow> nat \<Rightarrow> int \<Rightarrow> int \<Rightarrow> random_state \<Rightarrow>
    error + (real ndarray \<times> real ndarray \<times> real ndarray \<times> int ndarray \<times> int ndarray \<times>
             real ndarray \<times> real ndarray \<times> real ndarray) \<times> random_state" where
  "get_data_hd u1 u2 u3 u4 theta1 theta2 theta3 theta4 theta5 theta6
       number_observations number_dimensions use_t_in_e number_environments rs0 =
     and_then (np_concatenate [u1, u2]) (\<lambda>u1u2.
     and_then (np_dot u1u2 theta1) (\<lambda>dot1.
     let (noise1, rs1) = random_normal 0 1 number_observations 1 rs0 in
     and_then (np_add dot1 (np_scale (1 / 10) noise1)) (\<lambda>x1.
     and_then (np_concatenate [x1, u2, u3]) (\<lambda>x1u2u3.
     and_then (np_dot x1u2u3 theta2) (\<lambda>dot2.
     let (noise2, rs2) = random_normal 0 1 number_observations number_dimensions rs1 in
     and_then (np_add dot2 (np_scale (1 / 10) noise2)) (\<lambda>x2.
     and_then (np_concatenate [u3, u4]) (\<lambda>u3u4.
     and_then (np_dot u3u4 theta3) (\<lambda>dot3.
     let (noise3, rs3) = random_normal 0 1 number_observations number_dimensions rs2 in
     and_then (np_add dot3 (np_scale (1 / 10) noise3)) (\<lambda>x3.
     and_then (np_concatenate [u1, x1]) (\<lambda>u1x1.
     and_then (np_dot u1x1 theta5) (\<lambda>dot5.
     and_then (random_binomial 1 (expit (np_sub_scalar dot5 (np_mean dot5))) rs3) (\<lambda>(t, rs4).
     and_then
       (if use_t_in_e = 0 then
          and_then (np_dot x1 theta6) (\<lambda>dot6.
          and_then (np_sub dot6 (np_mean_axis0 dot6)) (\<lambda>centred. Inr (softmax centred)))
        else
          and_then (np_concatenate [x1, as_float t]) (\<lambda>x1t.
          and_then (np_dot x1t theta6) (\<lambda>dot6.
          and_then (np_sub dot6 (np_mean_axis0 dot6)) (\<lambda>centred. Inr (softmax centred)))))
       (\<lambda>probabilites.
     and_then (draw_environments_hd probabilites number_environments [0..<nrows probabilites]
                 (np_zeros_int number_observations 1) rs4) (\<lambda>(e, rs5).
     let zeros = np_zeros number_observations 1;
         ones = np_ones number_observations 1;
         (noise0, rs6) = random_normal 0 1 number_observations 1 rs5;
         noise = np_scale (1 / 10) noise0
     in
     and_then (np_concatenate [x2, u4, as_float t]) (\<lambda>x2u4t.
     and_then (np_dot x2u4t theta4) (\<lambda>dot4t.
     and_then (np_add dot4t noise) (\<lambda>y.
     and_then (np_concatenate [x2, u4, zeros]) (\<lambda>x2u4zeros.
     and_then (np_dot x2u4zeros theta4) (\<lambda>dot4zeros.
     and_then (np_add dot4zeros noise) (\<lambda>y_0.
     and_then (np_concatenate [x2, u4, ones]) (\<lambda>x2u4ones.
     and_then (np_dot x2u4ones theta4) (\<lambda>dot4ones.
     and_then (np_add dot4ones noise) (\<lambda>y_1.
     Inr ((x1, x2, x3, t, e, y, y_0, y_1), rs6))))))))))))))))))))))))"

definition get_train_test_data_hd :: "nat \<Rightarrow> nat \<Rightarrow> int \<Rightarrow> int \<Rightarrow> random_state \<Rightarrow>
    error + ((string \<times> string) data_frame \<times> int list \<times> real list \<times> int list \<times> real list \<times> real list \<times>
             (string \<times> string) data_frame \<times> int list \<times> real list \<times> int list \<times> real list \<times> real list \<times>
             real) \<times> random_state" where
  "get_train_test_data_hd number_observations number_dimensions use_t_in_e number_environments rs0 =
     (let ((u1, u2, u3, u4), rs1) = get_u_hd number_observations number_dimensions rs0;
          ((theta1, theta2, theta3, theta4, theta5, theta6), rs2) =
             get_theta_hd number_dimensions use_t_in_e number_environments rs1
      in
      and_then (get_data_hd u1 u2 u3 u4 theta1 theta2 theta3 theta4 theta5 theta6
                  number_observations number_dimensions use_t_in_e number_environments rs2)
        (\<lambda>((x1, x2, x3, t, e, y, y_0, y_1), rs3).
      and_then (np_sub y_1 y_0) (\<lambda>difference.
      let true_ate = np_round (np_mean difference) 6 in
      and_then (np_concatenate [x1, x2, x3]) (\<lambda>features.
      and_then (train_test_split features t y e y_0 y_1 rs3)
        (\<lambda>((features_train, features_test, t_train, t_test, y_train, y_test, e_train, e_test,
            y_0_train, y_0_test, y_1_train, y_1_test), rs4).
      and_then (labelled_frame number_dimensions features_train) (\<lambda>x_train.
      and_then (first_column t_train) (\<lambda>t_train.
      and_then (first_column y_train) (\<lambda>y_train.
      and_then (first_column e_train) (\<lambda>e_train.
      and_then (first_column y_0_train) (\<lambda>y_0_train.
      and_then (first_column y_1_train) (\<lambda>y_1_train.
      and_then (labelled_frame number_dimensions features_test) (\<lambda>x_test.
      and_then (first_column t_test) (\<lambda>t_test.
      and_then (first_column y_test) (\<lambda>y_test.
      and_then (first_column e_test) (\<lambda>e_test.
      and_then (first_column y_0_test) (\<lambda>y_0_test.
      and_then (first_column y_1_test) (\<lambda>y_1_test.
      Inr ((x_train, t_train, y_train, e_train, y_0_train, y_1_train,
            x_test, t_test, y_test, e_test, y_0_test, y_1_test, true_ate), rs4))))))))))))))))))"

subsection \<open>\<^verbatim>\<open>synthetic_high_dimension.py\<close>: the trial runner\<close>

text \<open>
  The external collaborators of \<^verbatim>\<open>synthetic_high_dimension.py\<close>: the three calls on
  the \<^verbatim>\<open>Standardization(RidgeCV(...))\<close> estimator of causallib (\<open>'m\<close> is the fitted
  estimator), and the feature names \<^verbatim>\<open>get_irm_features\<close> returns (the first component
  of its result; the command-line namespace it also receives is part of the collaborator).
  Each of them may fail.
\<close>

record 'm estimators =
  std_fit :: "real ndarray \<Rightarrow> int list \<Rightarrow> real list \<Rightarrow> error + 'm"
  std_estimate_population_outcome :: "'m \<Rightarrow> real ndarray \<Rightarrow> int list \<Rightarrow> error + real \<times> real"
  std_estimate_effect :: "'m \<Rightarrow> real \<Rightarrow> real \<Rightarrow> error + real"
  get_irm_features :: "real ndarray \<Rightarrow> int list \<Rightarrow> real list \<Rightarrow> int list \<Rightarrow> int \<Rightarrow> nat \<Rightarrow>
    string list \<Rightarrow> error + string list"

definition get_effect :: "'m estimators \<Rightarrow> 'l data_frame \<Rightarrow> int list \<Rightarrow> real list \<Rightarrow>
    'l data_frame \<Rightarrow> int list \<Rightarrow> error + real" where
  "get_effect c x_train t_train y_train x_test t_test =
     and_then (std_fit c (frame_values x_train) t_train y_train) (\<lambda>std.
     and_then (std_estimate_population_outcome c std (frame_values x_test) t_test) (\<lambda>pop_outcome.
     std_estimate_effect c std (snd pop_outcome) (fst pop_outcome)))"

text \<open>\<^verbatim>\<open>x.columns.droplevel()\<close> keeps the names; \<^verbatim>\<open>x[names]\<close> selects columns by
  name, and a name that is no column raises \<^verbatim>\<open>KeyError\<close>.\<close>

definition droplevel :: "(string \<times> string) data_frame \<Rightarrow> string data_frame" where
  "droplevel x = \<lparr>frame_columns = map snd (frame_columns x), frame_values = frame_values x\<rparr>"

definition select_names :: "string data_frame \<Rightarrow> string list \<Rightarrow> error + string data_frame" where
  "select_names x names =
     (if list_all (\<lambda>name. name \<in> set (frame_columns x)) names then
        let idx = concat (map (\<lambda>name. positions (\<lambda>l. l = name) (frame_columns x)) names)
        in Inr \<lparr>frame_columns = map (\<lambda>j. frame_columns x ! j) idx,
                 frame_values = select_columns (frame_values x) idx\<rparr>
      else Inl KeyNotFound)"

definition trial_cell_hd :: "'m estimators \<Rightarrow> nat \<Rightarrow> int \<Rightarrow> int \<Rightarrow> nat \<Rightarrow> nat \<Rightarrow> nat \<Rightarrow>
    real ndarray \<times> real ndarray \<times> real ndarray \<times> real ndarray \<times> real ndarray \<Rightarrow> random_state \<Rightarrow>
    error + (real ndarray \<times> real ndarray \<times> real ndarray \<times> real ndarray \<times> real ndarray) \<times> random_state" where
  "trial_cell_hd c number_observations use_t_in_e number_environments r i number_dimensions results rs =
     (case results of
        (effect_true, effect_oracle, effect_baseline, effect_irm_control, effect_irm_treatment) \<Rightarrow>
      and_then (get_train_test_data_hd number_observations number_dimensions use_t_in_e
                  number_environments rs)
        (\<lambda>((x_train, t_train, y_train, e_train, y_0_train, y_1_train,
            x_test, t_test, y_test, e_test, y_0_test, y_1_test, true_ate), rs').
      let effect_true = set_cell effect_true r i true_ate in
      and_then (select_groups x_train [''x2'']) (\<lambda>x_train_x2.
      and_then (select_groups x_test [''x2'']) (\<lambda>x_test_x2.
      and_then (get_effect c x_train_x2 t_train y_train x_test_x2 t_test) (\<lambda>oracle.
      let effect_oracle = set_cell effect_oracle r i oracle in
      and_then (select_groups x_train [''x1'', ''x2'', ''x3'']) (\<lambda>x_train_all.
      and_then (select_groups x_test [''x1'', ''x2'', ''x3'']) (\<lambda>x_test_all.
      and_then (get_effect c x_train_all t_train y_train x_test_all t_test) (\<lambda>baseline.
      let effect_baseline = set_cell effect_baseline r i baseline in
      and_then (select_groups x_train [''x2'', ''x3'']) (\<lambda>x_train_x2x3.
      and_then (get_irm_features c (frame_values x_train_x2x3) t_train y_train e_train
                  number_environments 0 (tl (frame_columns (droplevel x_train))))
        (\<lambda>irm_features_control.
      and_then (select_groups x_train [''x2'', ''x3'']) (\<lambda>x_train_x2x3'.
      and_then (get_irm_features c (frame_values x_train_x2x3') t_train y_train e_train
                  number_environments 1 (tl (frame_columns (droplevel x_train))))
        (\<lambda>irm_features_treatment.
      let x_train = droplevel x_train;
          x_test = droplevel x_test
      in
      and_then (select_names x_train irm_features_control) (\<lambda>x_train_control.
      and_then (select_names x_test irm_features_control) (\<lambda>x_test_control.
      and_then (get_effect c x_train_control t_train y_train x_test_control t_test) (\<lambda>irm_control.
      let effect_irm_control = set_cell effect_irm_control r i irm_control in
      and_then (select_names x_train irm_features_treatment) (\<lambda>x_train_treatment.
      and_then (select_names x_test irm_features_treatment) (\<lambda>x_test_treatment.
      and_then (get_effect c x_train_treatment t_train y_train x_test_treatment t_test)
        (\<lambda>irm_treatment.
      let effect_irm_treatment = set_cell effect_irm_treatment r i irm_treatment in
      Inr ((effect_true, effect_oracle, effect_baseline, effect_irm_control,
            effect_irm_treatment), rs')))))))))))))))))))"

text \<open>
  \<open>main_hd\<close> returns the files written and the rows of the two tables printed at the
  end (mean and standard error of the absolute error of the baseline, the oracle, and the
  two IRM estimates, in this order); the labels of the printed tables are left out.
\<close>

definition main_hd :: "'m estimators \<Rightarrow> nat \<Rightarrow> nat \<Rightarrow> int \<Rightarrow> int \<Rightarrow> random_state \<Rightarrow>
    error + ((string \<times> csv_file) list \<times> real ndarray list \<times> real ndarray list) \<times> random_state" where
  "main_hd c number_repetitions number_observations use_t_in_e number_environments rs =
     (let number_dimensions_list = [12, 22, 32];
          effect_true = np_zeros number_repetitions (length number_dimensions_list);
          effect_oracle = np_zeros number_repetitions (length number_dimensions_list);
          effect_baseline = np_zeros number_repetitions (length number_dimensions_list);
          effect_irm_control = np_zeros number_repetitions (length number_dimensions_list);
          effect_irm_treatment = np_zeros number_repetitions (length number_dimensions_list)
      in
      and_then (outer_loop (trial_cell_hd c number_observations use_t_in_e number_environments)
                  [0..<number_repetitions] number_dimensions_list
                  (effect_true, effect_oracle, effect_baseline, effect_irm_control,
                   effect_irm_treatment) rs)
        (\<lambda>((effect_true, effect_oracle, effect_baseline, effect_irm_control,
            effect_irm_treatment), rs').
      let files =
            [(''synthetic_high_dimension/effect_true.csv'', np_savetxt effect_true '',''),
             (''synthetic_high_dimension/effect_baseline.csv'', np_savetxt effect_baseline '',''),
             (''synthetic_high_dimension/effect_irm_control.csv'',
                np_savetxt effect_irm_control '',''),
             (''synthetic_high_dimension/effect_irm_treatment.csv'',
                np_savetxt effect_irm_treatment '','')]
      in
      and_then (np_sub effect_baseline effect_true) (\<lambda>error_baseline.
      and_then (np_sub effect_irm_control effect_true) (\<lambda>error_irm_c.
      and_then (np_sub effect_irm_treatment effect_true) (\<lambda>error_irm_t.
      and_then (np_sub effect_oracle effect_true) (\<lambda>error_oracle.
      and_then (reshape_row (np_mean_axis0 (np_abs error_baseline)) (length number_dimensions_list))
        (\<lambda>avg_ate_error_baseline.
      and_then (reshape_row (np_mean_axis0 (np_abs error_irm_c)) (length number_dimensions_list))
        (\<lambda>avg_ate_error_irm_c.
      and_then (reshape_row (np_mean_axis0 (np_abs error_irm_t)) (length number_dimensions_list))
        (\<lambda>avg_ate_error_irm_t.
      and_then (reshape_row (np_mean_axis0 (np_abs error_oracle)) (length number_dimensions_list))
        (\<lambda>avg_ate_error_oracle.
      and_then (reshape_row (np_std_axis0 (np_abs error_baseline)) (length number_dimensions_list))
        (\<lambda>std_baseline.
      and_then (reshape_row (np_std_axis0 (np_abs error_irm_c)) (length number_dimensions_list))
        (\<lambda>std_irm_c.
      and_then (reshape_row (np_std_axis0 (np_abs error_irm_t)) (length number_dimensions_list))
        (\<lambda>std_irm_t.
      and_then (reshape_row (np_std_axis0 (np_abs error_oracle)) (length number_dimensions_list))
        (\<lambda>std_oracle.
      let std_ate_error_baseline = np_div_scalar std_baseline (sqrt (real number_repetitions));
          std_ate_error_irm_c = np_div_scalar std_irm_c (sqrt (real number_repetitions));
          std_ate_error_irm_t = np_div_scalar std_irm_t (sqrt (real number_repetitions));
          std_ate_error_oracle = np_div_scalar std_oracle (sqrt (real number_repetitions))
      in
      Inr ((files,
            [avg_ate_error_baseline, avg_ate_error_oracle, avg_ate_error_irm_c,
             avg_ate_error_irm_t],
            [std_ate_error_baseline, std_ate_error_oracle, std_ate_error_irm_c,
             std_ate_error_irm_t]), rs')))))))))))))))"

subsection \<open>The trial runner, in the words of the specification\<close>

text \<open>
  The scalar outputs of one cell, for each script: the calls of the cell body, in the same
  order, without the writes into the result matrices (lemmas \<open>trial_cell_writes\<close> and
  \<open>trial_cell_hd_writes\<close>).
\<close>

definition trial_pvalues :: "collaborators \<Rightarrow> nat \<Rightarrow> int \<Rightarrow> int \<Rightarrow> nat \<Rightarrow> random_state \<Rightarrow>
    error + (real \<times> real \<times> real) \<times> random_state" where
  "trial_pvalues c number_observations use_t_in_e number_environments number_dimensions rs =
      and_then (get_train_test_data number_observations number_dimensions use_t_in_e
                  number_environments rs)
        (\<lambda>((x_train, t_train, y_train, e_train, y_0_train, y_1_train,
            x_test, t_test, y_test, e_test, y_0_test, y_1_test, true_ate), rs').
      and_then (select_groups x_train [''x2'']) (\<lambda>x_train_x2.
      let x2_n = fit_transform c (frame_values x_train_x2) in
      and_then (select_groups x_train [''x3'']) (\<lambda>x_train_x3.
      let x3_n = fit_transform c (frame_values x_train_x3);
          y_n = fit_transform c (column_array y_train);
          t = column_array t_train;
          e = column_array e_train
      in
      and_then (RCoT c e y_n (as_float t)) (\<lambda>p_empty.
      and_then (np_concatenate [x3_n, as_float t]) (\<lambda>x3_t.
      and_then (RCoT c e y_n x3_t) (\<lambda>p_x3.
      and_then (np_concatenate [x2_n, x3_n, as_float t]) (\<lambda>x2_x3_t.
      and_then (RCoT c e y_n x2_x3_t) (\<lambda>p_x2x3.
      Inr ((p_empty, p_x3, p_x2x3), rs')))))))))"

definition trial_effects :: "'m estimators \<Rightarrow> nat \<Rightarrow> int \<Rightarrow> int \<Rightarrow> nat \<Rightarrow> random_state \<Rightarrow>
    error + (real \<times> real \<times> real \<times> real \<times> real) \<times> random_state" where
  "trial_effects c number_observations use_t_in_e number_environments number_dimensions rs =
      and_then (get_train_test_data_hd number_observations number_dimensions use_t_in_e
                  number_environments rs)
        (\<lambda>((x_train, t_train, y_train, e_train, y_0_train, y_1_train,
            x_test, t_test, y_test, e_test, y_0_test, y_1_test, true_ate), rs').
      and_then (select_groups x_train [''x2'']) (\<lambda>x_train_x2.
      and_then (select_groups x_test [''x2'']) (\<lambda>x_test_x2.
      and_then (get_effect c x_train_x2 t_train y_train x_test_x2 t_test) (\<lambda>oracle.
      and_then (select_groups x_train [''x1'', ''x2'', ''x3'']) (\<lambda>x_train_all.
      and_then (select_groups x_test [''x1'', ''x2'', ''x3'']) (\<lambda>x_test_all.
      and_then (get_effect c x_train_all t_train y_train x_test_all t_test) (\<lambda>baseline.
      and_then (select_groups x_train [''x2'', ''x3'']) (\<lambda>x_train_x2x3.
      and_then (get_irm_features c (frame_values x_train_x2x3) t_train y_train e_train
                  number_environments 0 (tl (frame_columns (droplevel x_train))))
        (\<lambda>irm_features_control.
      and_then (select_groups x_train [''x2'', ''x3'']) (\<lambda>x_train_x2x3'.
      and_then (get_irm_features c (frame_values x_train_x2x3') t_train y_train e_train
                  number_environments 1 (tl (frame_columns (droplevel x_train))))
        (\<lambda>irm_features_treatment.
      let x_train = droplevel x_train;
          x_test = droplevel x_test
      in
      and_then (select_names x_train irm_features_control) (\<lambda>x_train_control.
      and_then (select_names x_test irm_features_control) (\<lambda>x_test_control.
      and_then (get_effect c x_train_control t_train y_train x_test_control t_test) (\<lambda>irm_control.
      and_then (select_names x_train irm_features_treatment) (\<lambda>x_train_treatment.
      and_then (select_names x_test irm_features_treatment) (\<lambda>x_test_treatment.
      and_then (get_effect c x_train_treatment t_train y_train x_test_treatment t_test)
        (\<lambda>irm_treatment.
      Inr ((true_ate, oracle, baseline, irm_control, irm_treatment), rs'))))))))))))))))))"

text \<open>
  The trials of a run one after the other, each on the stream the one before left: the
  list of their outputs, or the first failure.
\<close>

fun run_trials :: "(nat \<Rightarrow> random_state \<Rightarrow> error + 'v \<times> random_state) \<Rightarrow> nat list \<Rightarrow>
    random_state \<Rightarrow> error + 'v list \<times> random_state" where
  "run_trials trial [] rs = Inr ([], rs)"
| "run_trials trial (number_dimensions # rest) rs =
     and_then (trial number_dimensions rs) (\<lambda>(v, rs').
     and_then (run_trials trial rest rs') (\<lambda>(vs, rs''). Inr (v # vs, rs'')))"

text \<open>
  The population standard deviation of a sample (denominator: the sample size), and a
  column of a matrix as a sample.
\<close>

definition population_std :: "real list \<Rightarrow> real" where
  "population_std xs =
     sqrt ((\<Sum>x\<leftarrow>xs. (x - sum_list xs / real (length xs)) ^ 2) / real (length xs))"

definition column_of :: "real ndarray \<Rightarrow> nat \<Rightarrow> real list" where
  "column_of M j = map (\<lambda>i. entry M i j) [0..<nrows M]"

subsection \<open>Shapes\<close>

text \<open>
  The shapes of the arrays \<open>get_u\<close> and \<open>get_theta\<close> return, as predicates on the
  arguments of \<open>get_data\<close>.
\<close>

definition has_shape :: "'a ndarray \<Rightarrow> nat \<Rightarrow> nat \<Rightarrow> bool" where
  "has_shape A r c \<longleftrightarrow> nrows A = r \<and> ncols A = c"

definition latent_shapes :: "nat \<Rightarrow> nat \<Rightarrow>
    real ndarray \<Rightarrow> real ndarray \<Rightarrow> real ndarray \<Rightarrow> real ndarray \<Rightarrow> bool" where
  "latent_shapes n d u1 u2 u3 u4 \<longleftrightarrow>
     has_shape u1 n 1 \<and> has_shape u2 n d \<and> has_shape u3 n d \<and> has_shape u4 n d"

definition coefficient_shapes :: "nat \<Rightarrow> int \<Rightarrow>
    real ndarray \<Rightarrow> real ndarray \<Rightarrow> real ndarray \<Rightarrow> real ndarray \<Rightarrow> real ndarray \<Rightarrow> real ndarray \<Rightarrow> bool" where
  "coefficient_shapes d use_t_in_e theta1 theta2 theta3 theta4 theta5 theta6 \<longleftrightarrow>
     has_shape theta1 (d + 1) 1 \<and> has_shape theta2 (d * 2 + 1) d \<and>
     has_shape theta3 (d * 2) d \<and> has_shape theta4 (d * 2 + 1) 1 \<and>
     has_shape theta5 2 1 \<and> has_shape theta6 (if use_t_in_e = 0 then 1 else 2) 3"

text \<open>
  A stream for worked examples: every unit sample is \<open>u\<close>, every normal sample is
  \<open>z\<close>, every shuffle returns the identity permutation.
\<close>

definition constant_stream :: "real \<Rightarrow> real \<Rightarrow> random_state" where
  "constant_stream u z =
     \<lparr>doubles = (\<lambda>p. u), normals = (\<lambda>p. z), permutations = (\<lambda>p n. [0..<n]), pos = 0\<rparr>"

text \<open>
  A stream whose unit sample at position \<open>q\<close> is \<open>a\<close> and every other unit sample
  \<open>b\<close>; the normal samples are 0 and every shuffle returns the identity permutation.
\<close>

definition spiked_stream :: "nat \<Rightarrow> real \<Rightarrow> real \<Rightarrow> random_state" where
  "spiked_stream q a b =
     \<lparr>doubles = (\<lambda>p. if p = q then a else b), normals = (\<lambda>p. 0),
      permutations = (\<lambda>p n. [0..<n]), pos = 0\<rparr>"

text \<open>
  Collaborators for worked examples: a scaler that leaves its input as it is and a test
  that always returns the p-value 1; an estimator that fits, reports the
  population outcomes 0 and 1 and their difference, and a feature selector that keeps
  every feature.
\<close>

definition example_collaborators :: collaborators where
  "example_collaborators = \<lparr>fit_transform = (\<lambda>X. X), RCoT = (\<lambda>e y z. Inr 1)\<rparr>"

definition example_estimators :: "unit estimators" where
  "example_estimators =
     \<lparr>std_fit = (\<lambda>X t y. Inr ()),
      std_estimate_population_outcome = (\<lambda>m X t. Inr (0, 1)),
      std_estimate_effect = (\<lambda>m a b. Inr (a - b)),
      get_irm_features = (\<lambda>X t y e k arm names. Inr names)\<rparr>"

section \<open>Facts about the primitives and the simulator\<close>

subsection \<open>Basic facts about the primitives\<close>

lemma and_then_Inr: "and_then m f = Inr r \<longleftrightarrow> (\<exists>v. m = Inr v \<and> f v = Inr r)"
  by (cases m) (simp_all add: and_then_def)

lemma and_then_simps [simp]: "and_then (Inr v) f = f v" "and_then (Inl err) f = Inl err"
  by (simp_all add: and_then_def)

lemma hstack_simps [simp]:
  "nrows (hstack A B) = nrows A"
  "ncols (hstack A B) = ncols A + ncols B"
  "entry (hstack A B) i j = (if j < ncols A then entry A i j else entry B i (j - ncols A))"
  by (simp_all add: hstack_def)

lemma matmul_simps [simp]:
  "nrows (matmul A B) = nrows A"
  "ncols (matmul A B) = ncols B"
  "entry (matmul A B) i j = (\<Sum>k<ncols A. entry A i k * entry B k j)"
  by (simp_all add: matmul_def)

lemma np_zeros_simps [simp]:
  "nrows (np_zeros r c) = r" "ncols (np_zeros r c) = c" "entry (np_zeros r c) i j = 0"
  by (simp_all add: np_zeros_def)

lemma np_zeros_int_simps [simp]:
  "nrows (np_zeros_int r c) = r" "ncols (np_zeros_int r c) = c" "entry (np_zeros_int r c) i j = 0"
  by (simp_all add: np_zeros_int_def)

lemma np_ones_simps [simp]:
  "nrows (np_ones r c) = r" "ncols (np_ones r c) = c" "entry (np_ones r c) i j = 1"
  by (simp_all add: np_ones_def)

lemma as_float_simps [simp]:
  "nrows (as_float A) = nrows A" "ncols (as_float A) = ncols A"
  "entry (as_float A) i j = real_of_int (entry A i j)"
  by (simp_all add: as_float_def)

lemma np_scale_simps [simp]:
  "nrows (np_scale c A) = nrows A" "ncols (np_scale c A) = ncols A"
  "entry (np_scale c A) i j = c * entry A i j"
  by (simp_all add: np_scale_def)

lemma np_sub_scalar_simps [simp]:
  "nrows (np_sub_scalar A c) = nrows A" "ncols (np_sub_scalar A c) = ncols A"
  "entry (np_sub_scalar A c) i j = entry A i j - c"
  by (simp_all add: np_sub_scalar_def)

lemma np_mean_axis0_simps [simp]:
  "nrows (np_mean_axis0 A) = 1" "ncols (np_mean_axis0 A) = ncols A"
  by (simp_all add: np_mean_axis0_def)

lemma expit_simps [simp]:
  "nrows (expit A) = nrows A" "ncols (expit A) = ncols A"
  "entry (expit A) i j = 1 / (1 + exp (- entry A i j))"
  by (simp_all add: expit_def)

lemma softmax_simps [simp]:
  "nrows (softmax A) = nrows A" "ncols (softmax A) = ncols A"
  "entry (softmax A) i j = exp (entry A i j) / (\<Sum>k<ncols A. exp (entry A i k))"
  by (simp_all add: softmax_def)

lemma elementwise_simps [simp]:
  "nrows (elementwise f A B) = broadcast_dim (nrows A) (nrows B)"
  "ncols (elementwise f A B) = broadcast_dim (ncols A) (ncols B)"
  "entry (elementwise f A B) i j = f (broadcast_at A i j) (broadcast_at B i j)"
  by (simp_all add: elementwise_def)

lemma binomial_sample_simps [simp]:
  "nrows (binomial_sample n p rs) = nrows p" "ncols (binomial_sample n p rs) = ncols p"
  by (simp_all add: binomial_sample_def)

lemma broadcast_dim_simps [simp]:
  "broadcast_dim a a = a" "broadcast_dim a 1 = a" "broadcast_dim 1 b = b"
  "broadcast_dim a (Suc 0) = a" "broadcast_dim (Suc 0) b = b"
  by (simp_all add: broadcast_dim_def)

lemma broadcastable_simps [simp]:
  "broadcastable a a" "broadcastable a 1" "broadcastable 1 b"
  "broadcastable a (Suc 0)" "broadcastable (Suc 0) b"
  by (simp_all add: broadcastable_def)

lemma random_normal_simps [simp]:
  "nrows (fst (random_normal loc scale r c rs)) = r"
  "ncols (fst (random_normal loc scale r c rs)) = c"
  "doubles (snd (random_normal loc scale r c rs)) = doubles rs"
  "permutations (snd (random_normal loc scale r c rs)) = permutations rs"
  by (simp_all add: random_normal_def)

lemma random_uniform_simps [simp]:
  "nrows (fst (random_uniform low high r c rs)) = r"
  "ncols (fst (random_uniform low high r c rs)) = c"
  "doubles (snd (random_uniform low high r c rs)) = doubles rs"
  "permutations (snd (random_uniform low high r c rs)) = permutations rs"
  by (simp_all add: random_uniform_def)

lemma stream_ok_cong: "doubles rs' = doubles rs \<Longrightarrow> permutations rs' = permutations rs \<Longrightarrow>
    stream_ok rs' = stream_ok rs"
  by (simp add: stream_ok_def)

lemma np_dot_Inr: "np_dot A B = Inr C \<longleftrightarrow> ncols A = nrows B \<and> C = matmul A B"
  by (auto simp: np_dot_def)

lemma np_dot_ok [simp]: "ncols A = nrows B \<Longrightarrow> np_dot A B = Inr (matmul A B)"
  by (simp add: np_dot_def)

lemma np_add_ok [simp]:
  "broadcastable (nrows A) (nrows B) \<Longrightarrow> broadcastable (ncols A) (ncols B) \<Longrightarrow>
     np_add A B = Inr (elementwise (\<lambda>a b. a + b) A B)"
  by (simp add: np_add_def broadcast_def)

lemma np_sub_ok [simp]:
  "broadcastable (nrows A) (nrows B) \<Longrightarrow> broadcastable (ncols A) (ncols B) \<Longrightarrow>
     np_sub A B = Inr (elementwise (\<lambda>a b. a - b) A B)"
  by (simp add: np_sub_def broadcast_def)

lemma np_add_Inr:
  "np_add A B = Inr C \<longleftrightarrow> broadcastable (nrows A) (nrows B) \<and>
     broadcastable (ncols A) (ncols B) \<and> C = elementwise (\<lambda>a b. a + b) A B"
  by (auto simp: np_add_def broadcast_def)

lemma np_concatenate2_Inr:
  "np_concatenate [A, B] = Inr D \<longleftrightarrow> nrows A = nrows B \<and> D = hstack A B"
  by auto

lemma np_concatenate3_Inr:
  "np_concatenate [A, B, C] = Inr D \<longleftrightarrow>
     nrows A = nrows B \<and> nrows A = nrows C \<and> D = hstack (hstack A B) C"
  by auto

subsection \<open>Potential outcomes\<close>

lemma potential_outcome_difference:
  assumes c0: "np_concatenate [x2, u4, np_zeros n (Suc 0)] = Inr c0"
    and d0: "np_dot c0 theta4 = Inr d0"
    and y0: "np_add d0 noise = Inr y_0"
    and c1: "np_concatenate [x2, u4, np_ones n (Suc 0)] = Inr c1"
    and d1: "np_dot c1 theta4 = Inr d1"
    and y1: "np_add d1 noise = Inr y_1"
    and noise: "ncols noise = Suc 0"
    and j: "j < ncols y_1"
  shows "entry y_1 i j - entry y_0 i j = entry theta4 (nrows theta4 - Suc 0) j"
proof -
  let ?m = "ncols x2 + ncols u4"
  from c0 [unfolded np_concatenate3_Inr] have c0': "c0 = hstack (hstack x2 u4) (np_zeros n (Suc 0))"
    by blast
  from c1 [unfolded np_concatenate3_Inr] have c1': "c1 = hstack (hstack x2 u4) (np_ones n (Suc 0))"
    by blast
  from d0 [unfolded np_dot_Inr] have d0': "d0 = matmul c0 theta4" and rows: "nrows theta4 = Suc ?m"
    by (simp_all add: c0')
  from d1 [unfolded np_dot_Inr] have d1': "d1 = matmul c1 theta4"
    by simp
  have diff: "entry d1 a b - entry d0 a b = entry theta4 ?m b" for a b
    by (simp add: d0' d1' c0' c1')
  have shape: "nrows d1 = nrows d0" "ncols d1 = ncols d0"
    by (simp_all add: d0' d1' c0' c1')
  from y0 [unfolded np_add_Inr] y1 [unfolded np_add_Inr]
  have e0: "entry y_0 i j = broadcast_at d0 i j + broadcast_at noise i j"
    and e1: "entry y_1 i j = broadcast_at d1 i j + broadcast_at noise i j"
    and cols: "ncols y_1 = ncols d1"
    by (simp_all add: noise)
  have "entry y_1 i j - entry y_0 i j = broadcast_at d1 i j - broadcast_at d0 i j"
    by (simp add: e0 e1)
  also have "\<dots> = entry theta4 ?m (if ncols d0 = 1 then 0 else j)"
    by (simp add: broadcast_at_def shape diff)
  also have "(if ncols d0 = 1 then 0 else j) = j"
    using cols j shape by auto
  finally show ?thesis by (simp add: rows)
qed

subsection \<open>Categorical draws\<close>

lemma length_cumsum [simp]: "length (cumsum p) = length p"
  by (simp add: cumsum_def)

lemma last_cumsum: "p \<noteq> [] \<Longrightarrow> last (cumsum p) = sum_list p"
  by (simp add: cumsum_def last_map last_upt)

lemma random_choice_Inr:
  "random_choice a p rs = Inr (v, rs') \<Longrightarrow> v \<in> set a \<and> rs' = rs\<lparr>pos := pos rs + 1\<rparr>"
  by (auto simp: random_choice_def Let_def split: if_splits)

lemma random_choice_ok:
  assumes u: "doubles rs (pos rs) < 1"
    and a: "a \<noteq> []" and len: "length p = length a"
    and nonneg: "list_all (\<lambda>q. 0 \<le> q) p" and total: "sum_list p = 1"
  shows "\<exists>v. random_choice a p rs = Inr (v, rs\<lparr>pos := pos rs + 1\<rparr>)"
proof -
  from a len have p: "p \<noteq> []" by auto
  then have c: "cumsum p \<noteq> []" by (metis length_cumsum length_0_conv)
  have last1: "last (cumsum p) = 1" using p total by (simp add: last_cumsum)
  then have "1 \<in> set (cumsum p)" using c last_in_set by metis
  then have "length (filter (\<lambda>c. c \<le> doubles rs (pos rs)) (cumsum p)) < length (cumsum p)"
    using u by (intro length_filter_less [of 1]) auto
  then show ?thesis
    using a len nonneg total by (simp add: random_choice_def Let_def last1 choice_atol_def)
qed

lemma random_choice_mismatch:
  "length p \<noteq> length a \<Longrightarrow>
     random_choice a p rs = Inl (if a = [] then ChoiceEmptyPopulation else ChoiceSizeMismatch)"
  by (simp add: random_choice_def)

lemma length_np_arange [simp]: "length (np_arange k) = nat k"
  by (simp add: np_arange_def)

lemma set_np_arange: "v \<in> set (np_arange k) \<Longrightarrow> 0 \<le> v \<and> v < k"
  by (auto simp: np_arange_def)

lemma length_row_of [simp]: "length (row_of A i) = ncols A"
  by (simp add: row_of_def)

lemma sum_list_row_of: "sum_list (row_of A i) = (\<Sum>j<ncols A. entry A i j)"
  by (simp add: row_of_def interv_sum_list_conv_sum_set_nat lessThan_atLeast0)

lemma softmax_row_sum: "0 < ncols A \<Longrightarrow> sum_list (row_of (softmax A) i) = 1"
proof -
  assume "0 < ncols A"
  then have "0 < (\<Sum>k<ncols A. exp (entry A i k))"
    by (intro sum_pos) auto
  then show ?thesis
    by (simp add: sum_list_row_of flip: sum_divide_distrib)
qed

lemma softmax_row_nonneg: "list_all (\<lambda>q. 0 \<le> q) (row_of (softmax A) i)"
  by (auto simp: row_of_def list_all_iff intro!: divide_nonneg_nonneg sum_nonneg)

lemma expit_range: "0 \<le> 1 / (1 + exp x) \<and> 1 / (1 + exp x) \<le> (1::real)"
proof -
  have "0 < 1 + exp x" by (simp add: add_pos_pos)
  then show ?thesis by (simp add: pos_divide_le_eq)
qed

lemma expit_entries: "list_all (\<lambda>q. 0 \<le> q \<and> q \<le> 1) (entries (expit A))"
  using expit_range by (auto simp: entries_def row_of_def list_all_iff)


lemma draw_environments_Inr:
  "draw_environments P k is e rs = Inr (e', rs') \<Longrightarrow>
     nrows e' = nrows e \<and> ncols e' = ncols e \<and>
     doubles rs' = doubles rs \<and> permutations rs' = permutations rs \<and>
     (\<forall>r c. if r \<in> set is then 0 \<le> entry e' r c \<and> entry e' r c < k
            else entry e' r c = entry e r c)"
proof (induction "is" arbitrary: e rs)
  case Nil
  then show ?case by simp
next
  case (Cons i "is")
  from Cons.prems obtain v rs1 e1 where
    v: "random_choice (np_arange k) (row_of P i) rs = Inr (v, rs1)"
    and e1: "set_row e i v = Inr e1"
    and rest: "draw_environments P k is e1 rs1 = Inr (e', rs')"
    by (auto simp: and_then_Inr)
  from random_choice_Inr [OF v] have vk: "0 \<le> v" "v < k" and rs1: "rs1 = rs\<lparr>pos := pos rs + 1\<rparr>"
    by (auto dest: set_np_arange)
  from e1 have e1': "e1 = e\<lparr>entry := (\<lambda>r c. if r = i then v else entry e r c)\<rparr>"
    by (simp add: set_row_def split: if_splits)
  from Cons.IH [OF rest] have sh: "nrows e' = nrows e1" "ncols e' = ncols e1"
      "doubles rs' = doubles rs1" "permutations rs' = permutations rs1"
    and ent: "\<And>r c. if r \<in> set is then 0 \<le> entry e' r c \<and> entry e' r c < k
                      else entry e' r c = entry e1 r c"
    by blast+
  have "if r \<in> set (i # is) then 0 \<le> entry e' r c \<and> entry e' r c < k
        else entry e' r c = entry e r c" for r c
    using ent [of r c] by (auto simp: e1' vk split: if_splits)
  then show ?case using sh by (simp add: e1' rs1)
qed

lemma draw_environments_ok:
  assumes "\<forall>q. doubles rs q < 1" and "0 < k" and "ncols P = nat k"
    and "\<forall>i. list_all (\<lambda>q. 0 \<le> q) (row_of P i) \<and> sum_list (row_of P i) = 1"
    and "\<forall>i\<in>set is. i < nrows e"
  shows "\<exists>r. draw_environments P k is e rs = Inr r"
  using assms
proof (induction "is" arbitrary: e rs)
  case Nil
  then show ?case by simp
next
  case (Cons i "is")
  have "np_arange k \<noteq> []" using \<open>0 < k\<close> by (simp add: np_arange_def)
  with Cons.prems obtain v where
    v: "random_choice (np_arange k) (row_of P i) rs = Inr (v, rs\<lparr>pos := pos rs + 1\<rparr>)"
    using random_choice_ok [of rs "np_arange k" "row_of P i"] by auto
  from Cons.prems have i: "i < nrows e" by simp
  let ?e = "e\<lparr>entry := (\<lambda>r c. if r = i then v else entry e r c)\<rparr>"
  have "\<exists>r. draw_environments P k is ?e (rs\<lparr>pos := pos rs + 1\<rparr>) = Inr r"
    using Cons.prems by (intro Cons.IH) auto
  then show ?case
    using v i by (simp add: set_row_def)
qed

lemma draw_environments_mismatch:
  "ncols P \<noteq> nat k \<Longrightarrow>
     draw_environments P k (i # is) e rs =
       Inl (if k \<le> 0 then ChoiceEmptyPopulation else ChoiceSizeMismatch)"
  by (simp add: random_choice_mismatch np_arange_def)


subsection \<open>The simulator on well-shaped inputs\<close>

lemma random_binomial_expit [simp]:
  "random_binomial n (expit A) rs =
     Inr (binomial_sample n (expit A) rs, rs\<lparr>pos := pos rs + nrows A * ncols A * n\<rparr>)"
  by (simp add: random_binomial_def expit_entries)

lemma and_then_total:
  "\<exists>v. m = Inr v \<Longrightarrow> (\<And>v. \<exists>r. f v = Inr r) \<Longrightarrow> \<exists>r. and_then m f = Inr r"
  by auto

lemma draw_softmax_total:
  assumes "n = 0 \<or> k = 3 \<and> (\<forall>q. doubles rs q < 1)" and "ncols X = 3" and "nrows e = n"
  shows "\<exists>r. draw_environments (softmax X) k [0..<n] e rs = Inr r"
proof (cases "n = 0")
  case True
  then show ?thesis by simp
next
  case False
  with assms show ?thesis
    by (intro draw_environments_ok) (simp_all add: softmax_row_nonneg softmax_row_sum)
qed

lemma get_data_total:
  assumes "latent_shapes n d u1 u2 u3 u4"
    and "coefficient_shapes d use_t_in_e theta1 theta2 theta3 theta4 theta5 theta6"
    and "n = 0 \<or> number_environments = 3 \<and> (\<forall>q. doubles rs q < 1)"
  shows "\<exists>r. get_data u1 u2 u3 u4 theta1 theta2 theta3 theta4 theta5 theta6
                n d use_t_in_e number_environments rs = Inr r"
  using assms unfolding get_data_def latent_shapes_def coefficient_shapes_def has_shape_def
  by (simp add: Let_def split_beta del: split_paired_Ex split: if_splits;
      intro conjI impI and_then_total draw_softmax_total;
      simp add: split_beta del: split_paired_Ex)


lemma draw_softmax_mismatch:
  assumes "0 < n" and "ncols X = 3" and "k \<noteq> 3"
  shows "draw_environments (softmax X) k [0..<n] e rs =
           Inl (if k \<le> 0 then ChoiceEmptyPopulation else ChoiceSizeMismatch)"
proof -
  from \<open>0 < n\<close> have "[0..<n] = 0 # [1..<n]" by (simp add: upt_conv_Cons)
  moreover have "ncols (softmax X) \<noteq> nat k" using assms by auto
  ultimately show ?thesis
    using draw_environments_mismatch [of "softmax X" k 0 "[1..<n]" e rs] by simp
qed

lemma get_data_fails:
  assumes "latent_shapes n d u1 u2 u3 u4"
    and "coefficient_shapes d use_t_in_e theta1 theta2 theta3 theta4 theta5 theta6"
    and "0 < n" and "number_environments \<noteq> 3"
  shows "get_data u1 u2 u3 u4 theta1 theta2 theta3 theta4 theta5 theta6
           n d use_t_in_e number_environments rs =
         Inl (if number_environments \<le> 0 then ChoiceEmptyPopulation else ChoiceSizeMismatch)"
  using assms unfolding get_data_def latent_shapes_def coefficient_shapes_def has_shape_def
  by (simp add: Let_def split_beta draw_softmax_mismatch split: if_splits)

lemma get_data_shapes:
  assumes "latent_shapes n d u1 u2 u3 u4"
    and "coefficient_shapes d use_t_in_e theta1 theta2 theta3 theta4 theta5 theta6"
    and "get_data u1 u2 u3 u4 theta1 theta2 theta3 theta4 theta5 theta6
           n d use_t_in_e number_environments rs = Inr ((x1, x2, x3, t, e, y, y_0, y_1), rs')"
  shows "has_shape x1 n 1 \<and> has_shape x2 n d \<and> has_shape x3 n d \<and> has_shape t n 1 \<and>
         has_shape e n 1 \<and> has_shape y n 1 \<and> has_shape y_0 n 1 \<and> has_shape y_1 n 1"
  using assms unfolding get_data_def latent_shapes_def coefficient_shapes_def has_shape_def
  by (auto simp: Let_def split_beta and_then_Inr split: if_splits dest!: draw_environments_Inr)

lemma binomial_sample_range:
  "0 \<le> entry (binomial_sample n p rs) i j \<and> entry (binomial_sample n p rs) i j \<le> int n"
proof -
  have "length (filter P [0..<n]) \<le> n" for P :: "nat \<Rightarrow> bool"
    using length_filter_le [of P "[0..<n]"] by simp
  then show ?thesis by (simp add: binomial_sample_def)
qed

lemma random_binomial_Inr:
  "random_binomial n p rs = Inr (t, rs') \<Longrightarrow> t = binomial_sample n p rs"
  by (simp add: random_binomial_def split: if_splits)

lemma binomial_sample_01:
  "entry (binomial_sample (Suc 0) p rs) i j = 0 \<or> entry (binomial_sample (Suc 0) p rs) i j = 1"
  using binomial_sample_range [of "Suc 0" p rs i j] by auto

lemma get_data_treatment:
  assumes "get_data u1 u2 u3 u4 theta1 theta2 theta3 theta4 theta5 theta6
           n d use_t_in_e number_environments rs = Inr ((x1, x2, x3, t, e, y, y_0, y_1), rs')"
  shows "entry t i j = 0 \<or> entry t i j = 1"
proof -
  from assms obtain p rs4 where "t = binomial_sample (Suc 0) p rs4"
    unfolding get_data_def
    by (clarsimp simp: and_then_Inr Let_def split_beta
      simp del: np_concatenate.simps np_dot_ok np_add_ok np_sub_ok draw_environments.simps)
  then show ?thesis by (simp add: binomial_sample_01)
qed

lemma get_data_environment:
  assumes "get_data u1 u2 u3 u4 theta1 theta2 theta3 theta4 theta5 theta6
           n d use_t_in_e number_environments rs = Inr ((x1, x2, x3, t, e, y, y_0, y_1), rs')"
    and "1 \<le> number_environments"
  shows "has_shape e n 1 \<and> 0 \<le> entry e i j \<and> entry e i j < number_environments"
proof -
  from assms(1) obtain P rs5 b where
    e: "draw_environments P number_environments [0..<nrows P] (np_zeros_int n (Suc 0)) rs5 =
              Inr (e, b)"
    unfolding get_data_def
    by (clarsimp simp: and_then_Inr Let_def split_beta
      simp del: np_concatenate.simps np_dot_ok np_add_ok np_sub_ok draw_environments.simps)
  from draw_environments_Inr [OF e]
  have shape: "nrows e = n" "ncols e = 1"
    and ent: "\<And>r c. if r \<in> set [0..<nrows P] then 0 \<le> entry e r c \<and> entry e r c < number_environments
                 else entry e r c = entry (np_zeros_int n (Suc 0)) r c"
    by simp_all
  have "0 \<le> entry e i j \<and> entry e i j < number_environments"
    using ent [of i j] assms(2) by (simp split: if_splits)
  then show ?thesis using shape by (simp add: has_shape_def)
qed

subsection \<open>The sampler\<close>

lemma get_u_shapes:
  "get_u n d rs = ((u1, u2, u3, u4), rs') \<Longrightarrow> latent_shapes n d u1 u2 u3 u4"
  by (auto simp: get_u_def latent_shapes_def has_shape_def Let_def split_beta)

lemma get_theta_shapes:
  "get_theta d use_t_in_e k rs = ((theta1, theta2, theta3, theta4, theta5, theta6), rs') \<Longrightarrow>
     coefficient_shapes d use_t_in_e theta1 theta2 theta3 theta4 theta5 theta6"
  by (auto simp: get_theta_def coefficient_shapes_def has_shape_def Let_def split_beta
      split: if_splits)

lemma get_u_stream [simp]:
  "doubles (snd (get_u n d rs)) = doubles rs"
  "permutations (snd (get_u n d rs)) = permutations rs"
  by (simp_all add: get_u_def Let_def split_beta)

lemma get_theta_stream [simp]:
  "doubles (snd (get_theta d use_t_in_e k rs)) = doubles rs"
  "permutations (snd (get_theta d use_t_in_e k rs)) = permutations rs"
  by (simp_all add: get_theta_def Let_def split_beta)

lemma random_uniform_entry:
  "\<exists>p. entry (fst (random_uniform low high r c rs)) i j = low + (high - low) * doubles rs p"
  by (auto simp: random_uniform_def)




text \<open>
  In exact arithmetic the noise shared by \<open>y_0\<close> and \<open>y_1\<close> cancels in their
  difference, which is the coefficient of the treatment column. The float64 program has
  this up to the rounding error of its sums only.
\<close>

lemma get_data_outcome_difference:
  assumes "get_data u1 u2 u3 u4 theta1 theta2 theta3 theta4 theta5 theta6
             number_observations number_dimensions use_t_in_e number_environments rs
           = Inr ((x1, x2, x3, t, e, y, y_0, y_1), rs')"
    and "j < ncols y_1"
  shows "entry y_1 i j - entry y_0 i j = entry theta4 (nrows theta4 - 1) j"
  using assms unfolding get_data_def
  apply (clarsimp simp: and_then_Inr Let_def split_beta
      simp del: np_concatenate.simps np_dot_ok np_add_ok)
  apply (erule (5) potential_outcome_difference)
   apply simp_all
  done

subsection \<open>The dataset builder\<close>

lemma take_rows_simps [simp]:
  "nrows (take_rows A idx) = length idx" "ncols (take_rows A idx) = ncols A"
  "entry (take_rows A idx) i j = entry A (idx ! i) j"
  by (simp_all add: take_rows_def)

lemma first_column_Inr:
  "first_column A = Inr xs \<longleftrightarrow> 0 < ncols A \<and> xs = map (\<lambda>i. entry A i 0) [0..<nrows A]"
  by (auto simp: first_column_def)

lemma map_nth_upt: "map (\<lambda>i. f (xs ! i)) [0..<length xs] = map f xs"
  by (rule nth_equalityI) simp_all

lemma first_column_take_rows:
  "0 < ncols A \<Longrightarrow> first_column (take_rows A idx) = Inr (map (\<lambda>r. entry A r 0) idx)"
  using map_nth_upt [of "\<lambda>r. entry A r 0" idx] by (simp add: first_column_def)

lemma labelled_frame_Inr:
  "labelled_frame d F = Inr x \<longleftrightarrow>
     ncols F = 2 * d + 1 \<and>
     x = \<lparr>frame_columns = zip (replicate 1 ''x1'' @ replicate d ''x2'' @ replicate d ''x3'')
                             (map str [0..<2 * d + 1]),
          frame_values = F\<rparr>"
  by (auto simp: labelled_frame_def Let_def)

lemma split_sizes_Inr:
  "split_sizes n = Inr (n_train, n_test) \<longleftrightarrow>
     n_test = nat \<lceil>real n / 5\<rceil> \<and> n_train = n - n_test \<and> 0 < n_train"
  by (auto simp: split_sizes_def Let_def)

lemma split_sizes_sum:
  assumes "split_sizes n = Inr (n_train, n_test)"
  shows "n_train + n_test = n"
proof -
  have "\<lceil>real n / 5\<rceil> \<le> int n" by (simp add: ceiling_le_iff)
  then have "nat \<lceil>real n / 5\<rceil> \<le> n" by simp
  with assms show ?thesis by (simp add: split_sizes_Inr)
qed

lemma split_sizes_ok: "2 \<le> n \<Longrightarrow> \<exists>r. split_sizes n = Inr r"
proof -
  assume n: "2 \<le> n"
  have "\<lceil>real n / 5\<rceil> < int n" using n by (simp add: ceiling_less_iff)
  then have "nat \<lceil>real n / 5\<rceil> < n" using n by simp
  then show ?thesis by (simp add: split_sizes_def Let_def)
qed


lemma train_test_split_Inr_iff:
  "train_test_split F t y e y_0 y_1 rs =
     Inr ((F_train, F_test, t_train, t_test, y_train, y_test, e_train, e_test,
           y_0_train, y_0_test, y_1_train, y_1_test), rs') \<longleftrightarrow>
   nrows t = nrows F \<and> nrows y = nrows F \<and> nrows e = nrows F \<and>
   nrows y_0 = nrows F \<and> nrows y_1 = nrows F \<and>
   0 < nrows F - nat \<lceil>real (nrows F) / 5\<rceil> \<and>
   F_train = take_rows F (train_indices rs (nrows F)) \<and>
   F_test = take_rows F (test_indices rs (nrows F)) \<and>
   t_train = take_rows t (train_indices rs (nrows F)) \<and>
   t_test = take_rows t (test_indices rs (nrows F)) \<and>
   y_train = take_rows y (train_indices rs (nrows F)) \<and>
   y_test = take_rows y (test_indices rs (nrows F)) \<and>
   e_train = take_rows e (train_indices rs (nrows F)) \<and>
   e_test = take_rows e (test_indices rs (nrows F)) \<and>
   y_0_train = take_rows y_0 (train_indices rs (nrows F)) \<and>
   y_0_test = take_rows y_0 (test_indices rs (nrows F)) \<and>
   y_1_train = take_rows y_1 (train_indices rs (nrows F)) \<and>
   y_1_test = take_rows y_1 (test_indices rs (nrows F)) \<and>
   rs' = rs\<lparr>pos := pos rs + 1\<rparr>"
  unfolding train_test_split_def train_indices_def test_indices_def
  by (auto simp: Let_def and_then_Inr split_sizes_Inr split: if_splits)

lemma first_column_take_rows_Inr:
  "first_column (take_rows A idx) = Inr xs \<longleftrightarrow> 0 < ncols A \<and> xs = map (\<lambda>r. entry A r 0) idx"
  by (cases "0 < ncols A") (auto simp: first_column_take_rows, simp add: first_column_def)

lemma np_sub_Inr:
  "np_sub A B = Inr C \<longleftrightarrow> broadcastable (nrows A) (nrows B) \<and>
     broadcastable (ncols A) (ncols B) \<and> C = elementwise (\<lambda>a b. a - b) A B"
  by (auto simp: np_sub_def broadcast_def)

lemma get_train_test_data_Inr:
  assumes run: "get_train_test_data n d use_t_in_e k rs0 =
      Inr ((x_train, t_train, y_train, e_train, y_0_train, y_1_train,
            x_test, t_test, y_test, e_test, y_0_test, y_1_test, true_ate), rs')"
    and u: "get_u n d rs0 = ((u1, u2, u3, u4), rs1)"
    and theta: "get_theta d use_t_in_e k rs1 = ((theta1, theta2, theta3, theta4, theta5, theta6), rs2)"
  obtains x1 x2 x3 t e y y_0 y_1 rs3 where
    "get_data u1 u2 u3 u4 theta1 theta2 theta3 theta4 theta5 theta6 n d use_t_in_e k rs2
       = Inr ((x1, x2, x3, t, e, y, y_0, y_1), rs3)"
    "true_ate = np_round (np_mean (elementwise (\<lambda>a b. a - b) y_1 y_0)) 6"
    "0 < n - nat \<lceil>real n / 5\<rceil>"
    "frame_values x_train = take_rows (hstack (hstack x1 x2) x3) (train_indices rs3 n)"
    "frame_values x_test = take_rows (hstack (hstack x1 x2) x3) (test_indices rs3 n)"
    "t_train = map (\<lambda>r. entry t r 0) (train_indices rs3 n)"
    "t_test = map (\<lambda>r. entry t r 0) (test_indices rs3 n)"
    "y_train = map (\<lambda>r. entry y r 0) (train_indices rs3 n)"
    "y_test = map (\<lambda>r. entry y r 0) (test_indices rs3 n)"
    "e_train = map (\<lambda>r. entry e r 0) (train_indices rs3 n)"
    "e_test = map (\<lambda>r. entry e r 0) (test_indices rs3 n)"
    "y_0_train = map (\<lambda>r. entry y_0 r 0) (train_indices rs3 n)"
    "y_0_test = map (\<lambda>r. entry y_0 r 0) (test_indices rs3 n)"
    "y_1_train = map (\<lambda>r. entry y_1 r 0) (train_indices rs3 n)"
    "y_1_test = map (\<lambda>r. entry y_1 r 0) (test_indices rs3 n)"
    "rs' = rs3\<lparr>pos := pos rs3 + 1\<rparr>"
    "frame_columns x_train = zip (replicate 1 ''x1'' @ replicate d ''x2'' @ replicate d ''x3'')
                               (map str [0..<2 * d + 1])"
    "frame_columns x_test = zip (replicate 1 ''x1'' @ replicate d ''x2'' @ replicate d ''x3'')
                              (map str [0..<2 * d + 1])"
  using run unfolding get_train_test_data_def u
  apply (clarsimp simp: theta Let_def split_beta and_then_Inr np_sub_Inr np_concatenate3_Inr
      train_test_split_Inr_iff labelled_frame_Inr first_column_take_rows_Inr
      simp del: np_concatenate.simps np_sub_ok)
  apply (frule get_data_shapes [OF get_u_shapes [OF u] get_theta_shapes [OF theta]])
  apply (erule that)
                   apply (simp_all add: has_shape_def)
  done


lemma train_test_split_ok:
  assumes "nrows t = nrows F" "nrows y = nrows F" "nrows e = nrows F"
    "nrows y_0 = nrows F" "nrows y_1 = nrows F" "2 \<le> nrows F"
  shows "train_test_split F t y e y_0 y_1 rs =
     Inr ((take_rows F (train_indices rs (nrows F)), take_rows F (test_indices rs (nrows F)),
           take_rows t (train_indices rs (nrows F)), take_rows t (test_indices rs (nrows F)),
           take_rows y (train_indices rs (nrows F)), take_rows y (test_indices rs (nrows F)),
           take_rows e (train_indices rs (nrows F)), take_rows e (test_indices rs (nrows F)),
           take_rows y_0 (train_indices rs (nrows F)), take_rows y_0 (test_indices rs (nrows F)),
           take_rows y_1 (train_indices rs (nrows F)), take_rows y_1 (test_indices rs (nrows F))),
          rs\<lparr>pos := pos rs + 1\<rparr>)"
proof -
  from split_sizes_ok [OF assms(6)] obtain n_train n_test where
    "split_sizes (nrows F) = Inr (n_train, n_test)" by (metis prod.exhaust)
  then have "0 < nrows F - nat \<lceil>real (nrows F) / 5\<rceil>"
    by (auto simp: split_sizes_Inr)
  with assms show ?thesis
    by (simp add: train_test_split_Inr_iff)
qed

lemma labelled_frame_ok:
  "ncols F = 2 * d + 1 \<Longrightarrow>
     labelled_frame d F =
       Inr \<lparr>frame_columns = zip (replicate 1 ''x1'' @ replicate d ''x2'' @ replicate d ''x3'')
                              (map str [0..<2 * d + 1]),
            frame_values = F\<rparr>"
  by (simp add: labelled_frame_Inr)

lemma get_train_test_data_total:
  assumes n: "2 \<le> n" and k: "k = 3" and unit: "\<forall>p. doubles rs p < 1"
  shows "\<exists>r. get_train_test_data n d use_t_in_e k rs = Inr r"
proof -
  obtain u1 u2 u3 u4 rs1 where u: "get_u n d rs = ((u1, u2, u3, u4), rs1)"
    by (metis prod.exhaust)
  obtain theta1 theta2 theta3 theta4 theta5 theta6 rs2 where
    theta: "get_theta d use_t_in_e k rs1 = ((theta1, theta2, theta3, theta4, theta5, theta6), rs2)"
    by (metis prod.exhaust)
  have "doubles rs2 = doubles rs"
    using get_theta_stream(1) [of d use_t_in_e k rs1] get_u_stream(1) [of n d rs]
    by (simp add: u theta)
  with unit k have "n = 0 \<or> k = 3 \<and> (\<forall>q. doubles rs2 q < 1)" by simp
  from get_data_total [OF get_u_shapes [OF u] get_theta_shapes [OF theta] this]
  obtain x1 x2 x3 t e y y_0 y_1 rs3 where
    data: "get_data u1 u2 u3 u4 theta1 theta2 theta3 theta4 theta5 theta6 n d use_t_in_e k rs2
       = Inr ((x1, x2, x3, t, e, y, y_0, y_1), rs3)"
    by (metis prod.exhaust)
  from get_data_shapes [OF get_u_shapes [OF u] get_theta_shapes [OF theta] data]
  have shapes: "nrows x1 = n" "ncols x1 = 1" "nrows x2 = n" "ncols x2 = d" "nrows x3 = n"
    "ncols x3 = d" "nrows t = n" "ncols t = 1" "nrows e = n" "ncols e = 1" "nrows y = n"
    "ncols y = 1" "nrows y_0 = n" "ncols y_0 = 1" "nrows y_1 = n" "ncols y_1 = 1"
    by (simp_all add: has_shape_def)
  show ?thesis
    unfolding get_train_test_data_def u
    by (simp add: theta data shapes n Let_def train_test_split_ok labelled_frame_ok
        first_column_take_rows del: split_paired_Ex)
qed


lemma get_data_stream:
  assumes "get_data u1 u2 u3 u4 theta1 theta2 theta3 theta4 theta5 theta6
           n d use_t_in_e number_environments rs = Inr ((x1, x2, x3, t, e, y, y_0, y_1), rs')"
  shows "doubles rs' = doubles rs \<and> permutations rs' = permutations rs"
proof -
  from assms obtain P rs5 b where
    e: "draw_environments P number_environments [0..<nrows P] (np_zeros_int n (Suc 0)) rs5 =
              Inr (e, b)"
    and rs5: "doubles rs5 = doubles rs" "permutations rs5 = permutations rs"
    and rs': "rs' = snd (random_normal 0 1 n (Suc 0) b)"
    unfolding get_data_def
    by (clarsimp simp: and_then_Inr Let_def split_beta
      simp del: np_concatenate.simps np_dot_ok np_add_ok np_sub_ok draw_environments.simps)
  from draw_environments_Inr [OF e] rs5 rs' show ?thesis by simp
qed

lemma np_mean_column:
  assumes "has_shape A n 1"
  shows "np_mean A = (\<Sum>i<n. entry A i 0) / real n"
  using assms by (simp add: np_mean_def has_shape_def)

lemma entry_difference_column:
  assumes "has_shape A n 1" "has_shape B n 1" "i < n"
  shows "entry (elementwise (\<lambda>a b. a - b) A B) i 0 = entry A i 0 - entry B i 0"
  using assms by (auto simp: has_shape_def broadcast_at_def)

lemma np_mean_difference:
  assumes "has_shape A n 1" "has_shape B n 1"
  shows "np_mean (elementwise (\<lambda>a b. a - b) A B) = (\<Sum>i<n. entry A i 0 - entry B i 0) / real n"
proof -
  have "has_shape (elementwise (\<lambda>a b. a - b) A B) n 1"
    using assms by (simp add: has_shape_def)
  then have "np_mean (elementwise (\<lambda>a b. a - b) A B) =
      (\<Sum>i<n. entry (elementwise (\<lambda>a b. a - b) A B) i 0) / real n"
    by (rule np_mean_column)
  also have "(\<Sum>i<n. entry (elementwise (\<lambda>a b. a - b) A B) i 0) =
      (\<Sum>i<n. entry A i 0 - entry B i 0)"
    using assms by (intro sum.cong) (auto simp: has_shape_def broadcast_at_def)
  finally show ?thesis .
qed

text \<open>
  Hence, in exact arithmetic, the mean of the differences is that coefficient, whatever
  the latents, the covariates and the noise are.
\<close>

lemma true_ate_is_coefficient:
  assumes run: "get_train_test_data n d use_t_in_e k rs0 =
      Inr ((x_train, t_train, y_train, e_train, y_0_train, y_1_train,
            x_test, t_test, y_test, e_test, y_0_test, y_1_test, true_ate), rs')"
    and u: "get_u n d rs0 = ((u1, u2, u3, u4), rs1)"
    and theta: "get_theta d use_t_in_e k rs1 = ((theta1, theta2, theta3, theta4, theta5, theta6), rs2)"
  shows "true_ate = np_round (entry theta4 (2 * d) 0) 6"
proof (rule get_train_test_data_Inr [OF run u theta])
  fix x1 x2 x3 t e y y_0 y_1 rs3
  assume data: "get_data u1 u2 u3 u4 theta1 theta2 theta3 theta4 theta5 theta6 n d use_t_in_e k rs2
       = Inr ((x1, x2, x3, t, e, y, y_0, y_1), rs3)"
    and ate: "true_ate = np_round (np_mean (elementwise (\<lambda>a b. a - b) y_1 y_0)) 6"
    and n: "0 < n - nat \<lceil>real n / 5\<rceil>"
  from get_data_shapes [OF get_u_shapes [OF u] get_theta_shapes [OF theta] data]
  have shapes: "has_shape y_1 n 1" "has_shape y_0 n 1" by simp_all
  from get_theta_shapes [OF theta] have rows: "nrows theta4 = 2 * d + 1"
    by (simp add: coefficient_shapes_def has_shape_def)
  have "entry y_1 i 0 - entry y_0 i 0 = entry theta4 (2 * d) 0" for i
    using get_data_outcome_difference [OF data, of 0 i] shapes rows by (simp add: has_shape_def)
  then have "np_mean (elementwise (\<lambda>a b. a - b) y_1 y_0) = entry theta4 (2 * d) 0"
    using n by (simp add: np_mean_difference [OF shapes])
  with ate show "true_ate = np_round (entry theta4 (2 * d) 0) 6" by simp
qed





subsection \<open>The two scripts define the same generator\<close>

lemma get_u_hd_eq: "get_u_hd = get_u"
  by (intro ext) (simp add: get_u_hd_def get_u_def)

lemma get_theta_hd_eq: "get_theta_hd = get_theta"
  by (intro ext) (simp add: get_theta_hd_def get_theta_def)

lemma draw_environments_hd_eq:
  "draw_environments_hd P k is e rs = draw_environments P k is e rs"
  by (induction "is" arbitrary: e rs) (simp_all add: and_then_def split: sum.splits)

lemma get_data_hd_eq: "get_data_hd = get_data"
  by (intro ext) (simp only: get_data_hd_def get_data_def draw_environments_hd_eq)

lemma get_train_test_data_hd_eq: "get_train_test_data_hd = get_train_test_data"
  by (intro ext)
    (simp only: get_train_test_data_hd_def get_train_test_data_def get_u_hd_eq get_theta_hd_eq
      get_data_hd_eq)


subsection \<open>The trial loops\<close>

lemma set_cell_simps [simp]:
  "nrows (set_cell M r i v) = nrows M" "ncols (set_cell M r i v) = ncols M"
  "entry (set_cell M r i v) a b = (if a = r \<and> b = i then v else entry M a b)"
  by (simp_all add: set_cell_def)

lemma inner_loop_run:
  assumes body: "\<And>r i d st rs. body r i d st rs =
      and_then (trial d rs) (\<lambda>(v, rs'). Inr (put r i v st, rs'))"
  shows "inner_loop body r (enumerate i0 ds) st rs =
      and_then (run_trials trial ds rs)
        (\<lambda>(vs, rs'). Inr (foldl (\<lambda>s (i, v). put r i v s) st (enumerate i0 vs), rs'))"
proof (induction ds arbitrary: i0 st rs)
  case Nil
  then show ?case by simp
next
  case (Cons d ds)
  have step: "inner_loop body r (enumerate i0 (d # ds)) st rs =
      and_then (and_then (trial d rs) (\<lambda>(v, rs'). Inr (put r i0 v st, rs')))
        (\<lambda>(st', rs'). inner_loop body r (enumerate (Suc i0) ds) st' rs')"
    by (simp only: enumerate_simps inner_loop.simps body [of r i0 d st rs])
  show ?case
  proof (cases "trial d rs")
    case (Inl err)
    then show ?thesis unfolding step by simp
  next
    case (Inr p)
    obtain v rs1 where p: "p = (v, rs1)" by (cases p)
    show ?thesis
      unfolding step
      by (cases "run_trials trial ds rs1") (simp_all add: Inr p Cons.IH split: prod.splits)
  qed
qed

lemma run_trials_length:
  "run_trials trial ds rs = Inr (vs, rs') \<Longrightarrow> length vs = length ds"
proof (induction ds arbitrary: rs vs)
  case Nil
  then show ?case by simp
next
  case (Cons d ds)
  then show ?case by (auto simp: and_then_Inr)
qed

lemma run_trials_append:
  "run_trials trial (ds @ es) rs =
     and_then (run_trials trial ds rs) (\<lambda>(vs, rs').
     and_then (run_trials trial es rs') (\<lambda>(ws, rs''). Inr (vs @ ws, rs'')))"
proof (induction ds arbitrary: rs)
  case Nil
  then show ?case by (cases "run_trials trial es rs") auto
next
  case (Cons d ds)
  show ?case
  proof (cases "trial d rs")
    case (Inl err)
    then show ?thesis by simp
  next
    case (Inr p)
    obtain v rs1 where p: "p = (v, rs1)" by (cases p)
    show ?thesis
    proof (cases "run_trials trial ds rs1")
      case (Inl err)
      then show ?thesis by (simp add: Inr p Cons.IH)
    next
      case inner: (Inr q)
      obtain vs rs2 where q: "q = (vs, rs2)" by (cases q)
      show ?thesis
        by (cases "run_trials trial es rs2") (auto simp: Inr p inner q Cons.IH)
    qed
  qed
qed

text \<open>One matrix of the results, after the writes of one row.\<close>

lemma row_writes:
  assumes proj: "\<And>r i v st. p (put r i v st) = set_cell (p st) r i (q v)"
  shows "nrows (p (foldl (\<lambda>s (i, v). put r i v s) st (enumerate i0 vs))) = nrows (p st) \<and>
         ncols (p (foldl (\<lambda>s (i, v). put r i v s) st (enumerate i0 vs))) = ncols (p st) \<and>
         entry (p (foldl (\<lambda>s (i, v). put r i v s) st (enumerate i0 vs))) a b =
           (if a = r \<and> i0 \<le> b \<and> b < i0 + length vs then q (vs ! (b - i0)) else entry (p st) a b)"
proof (induction vs arbitrary: i0 st)
  case Nil
  then show ?case by simp
next
  case (Cons v vs)
  show ?case
    by (simp add: Cons.IH proj) (auto simp: nth_Cons')
qed


lemma inner_loop_Inr:
  assumes body: "\<And>r i d st rs. body r i d st rs =
      and_then (trial d rs) (\<lambda>(v, rs'). Inr (put r i v st, rs'))"
    and run: "inner_loop body r (enumerate i0 ds) st rs = Inr (st', rs')"
  obtains vs where "run_trials trial ds rs = Inr (vs, rs')"
    and "st' = foldl (\<lambda>s (i, v). put r i v s) st (enumerate i0 vs)"
  using run unfolding inner_loop_run [of body trial put, OF body]
  by (auto simp: and_then_Inr)

lemma outer_loop_run:
  assumes body: "\<And>r i d st rs. body r i d st rs =
      and_then (trial d rs) (\<lambda>(v, rs'). Inr (put r i v st, rs'))"
    and proj: "\<And>r i v st. p (put r i v st) = set_cell (p st) r i (q v)"
    and run: "outer_loop body rows grid st rs = Inr (st', rs')"
    and dist: "distinct rows"
  shows "\<exists>vs. run_trials trial (concat (map (\<lambda>r. grid) rows)) rs = Inr (vs, rs') \<and>
           nrows (p st') = nrows (p st) \<and> ncols (p st') = ncols (p st) \<and>
           (\<forall>k i. k < length rows \<and> i < length grid \<longrightarrow>
              entry (p st') (rows ! k) i = q (vs ! (k * length grid + i))) \<and>
           (\<forall>a b. a \<notin> set rows \<longrightarrow> entry (p st') a b = entry (p st) a b)"
  using run dist
proof (induction rows arbitrary: st rs)
  case Nil
  then show ?case by simp
next
  case (Cons r rest)
  from Cons.prems(1) obtain st1 rs1 where
    inner: "inner_loop body r (enumerate 0 grid) st rs = Inr (st1, rs1)"
    and outer: "outer_loop body rest grid st1 rs1 = Inr (st', rs')"
    by (auto simp: and_then_Inr)
  from inner obtain vs1 where
    vs1: "run_trials trial grid rs = Inr (vs1, rs1)"
    and st1: "st1 = foldl (\<lambda>s (i, v). put r i v s) st (enumerate 0 vs1)"
    by (rule inner_loop_Inr [of body trial put, OF body])
  from run_trials_length [OF vs1] have len1: "length vs1 = length grid" .
  note row = row_writes [of p put q r st 0 vs1, OF proj, folded st1]
  from Cons.prems(2) have r: "r \<notin> set rest" and dist: "distinct rest" by simp_all
  from Cons.IH [OF outer dist] obtain vs2 where
    vs2: "run_trials trial (concat (map (\<lambda>r. grid) rest)) rs1 = Inr (vs2, rs')"
    and shape: "nrows (p st') = nrows (p st1)" "ncols (p st') = ncols (p st1)"
    and ent: "\<And>k i. k < length rest \<Longrightarrow> i < length grid \<Longrightarrow>
        entry (p st') (rest ! k) i = q (vs2 ! (k * length grid + i))"
    and frame: "\<And>a b. a \<notin> set rest \<Longrightarrow> entry (p st') a b = entry (p st1) a b"
    by blast
  have all: "run_trials trial (concat (map (\<lambda>r. grid) (r # rest))) rs = Inr (vs1 @ vs2, rs')"
    by (simp add: run_trials_append vs1 vs2)
  have shape': "nrows (p st') = nrows (p st)" "ncols (p st') = ncols (p st)"
    using shape row by simp_all
  have cells: "entry (p st') ((r # rest) ! k) i = q ((vs1 @ vs2) ! (k * length grid + i))"
    if "k < length (r # rest)" "i < length grid" for k i
  proof (cases k)
    case 0
    then show ?thesis
      using frame [OF r, of i] row that(2) by (simp add: len1 nth_append)
  next
    case (Suc k')
    then show ?thesis
      using ent [of k' i] that by (simp add: len1 nth_append)
  qed
  have others: "entry (p st') a b = entry (p st) a b" if "a \<notin> set (r # rest)" for a b
    using that frame [of a b] row by simp
  show ?case
    by (intro exI [of _ "vs1 @ vs2"] conjI allI impI all shape') (simp_all add: cells others)
qed

lemma run_trials_total:
  assumes trial: "\<And>d rs. d \<in> set grid \<Longrightarrow> good rs \<Longrightarrow> \<exists>v rs'. trial d rs = Inr (v, rs') \<and> good rs'"
    and "good rs" and "set ds \<subseteq> set grid"
  shows "\<exists>vs rs'. run_trials trial ds rs = Inr (vs, rs') \<and> good rs'"
  using assms(2,3)
proof (induction ds arbitrary: rs)
  case Nil
  then show ?case by simp
next
  case (Cons d ds)
  from trial [of d rs] Cons.prems obtain v rs1 where
    v: "trial d rs = Inr (v, rs1)" and good: "good rs1" by auto
  from Cons.IH [OF good] Cons.prems obtain vs rs2 where
    "run_trials trial ds rs1 = Inr (vs, rs2)" "good rs2" by auto
  with v show ?case by simp
qed

lemma outer_loop_total:
  assumes body: "\<And>r i d st rs. body r i d st rs =
      and_then (trial d rs) (\<lambda>(v, rs'). Inr (put r i v st, rs'))"
    and trial: "\<And>d rs. d \<in> set grid \<Longrightarrow> good rs \<Longrightarrow> \<exists>v rs'. trial d rs = Inr (v, rs') \<and> good rs'"
    and "good rs"
  shows "\<exists>st' rs'. outer_loop body rows grid st rs = Inr (st', rs') \<and> good rs'"
  using assms(3)
proof (induction rows arbitrary: st rs)
  case Nil
  then show ?case by simp
next
  case (Cons r rest)
  from run_trials_total [of grid good trial rs grid, OF trial Cons.prems] obtain vs rs1 where
    vs: "run_trials trial grid rs = Inr (vs, rs1)" and good: "good rs1" by auto
  have "inner_loop body r (enumerate 0 grid) st rs =
      Inr (foldl (\<lambda>s (i, v). put r i v s) st (enumerate 0 vs), rs1)"
    by (simp add: inner_loop_run [of body trial put, OF body] vs)
  with Cons.IH [OF good] show ?case by simp
qed

subsection \<open>The cells of \<^verbatim>\<open>syn-entner.py\<close>\<close>

lemma trial_cell_writes:
  "trial_cell c number_observations use_t_in_e number_environments r i d st rs =
     and_then (trial_pvalues c number_observations use_t_in_e number_environments d rs)
       (\<lambda>(v, rs'). Inr ((set_cell (fst st) r i (fst v),
                          set_cell (fst (snd st)) r i (fst (snd v)),
                          set_cell (snd (snd st)) r i (snd (snd v))), rs'))"
  unfolding trial_cell_def trial_pvalues_def
  by (simp add: and_then_def Let_def split_beta split: sum.splits)

lemma get_train_test_data_stream:
  assumes "get_train_test_data n d use_t_in_e k rs = Inr (r, rs')"
  shows "doubles rs' = doubles rs \<and> permutations rs' = permutations rs"
proof -
  obtain x_train t_train y_train e_train y_0_train y_1_train
      x_test t_test y_test e_test y_0_test y_1_test true_ate where
    r: "r = (x_train, t_train, y_train, e_train, y_0_train, y_1_train,
             x_test, t_test, y_test, e_test, y_0_test, y_1_test, true_ate)"
    by (metis prod.exhaust)
  obtain u1 u2 u3 u4 rs1 where u: "get_u n d rs = ((u1, u2, u3, u4), rs1)"
    by (metis prod.exhaust)
  obtain theta1 theta2 theta3 theta4 theta5 theta6 rs2 where
    theta: "get_theta d use_t_in_e k rs1 = ((theta1, theta2, theta3, theta4, theta5, theta6), rs2)"
    by (metis prod.exhaust)
  have rs1: "doubles rs1 = doubles rs" "permutations rs1 = permutations rs"
    using get_u_stream [of n d rs] unfolding u by simp_all
  have rs2: "doubles rs2 = doubles rs1" "permutations rs2 = permutations rs1"
    using get_theta_stream [of d use_t_in_e k rs1] unfolding theta by simp_all
  show ?thesis
  proof (rule get_train_test_data_Inr [OF assms [unfolded r] u theta])
    fix x1 x2 x3 t e y y_0 y_1 rs3
    assume data: "get_data u1 u2 u3 u4 theta1 theta2 theta3 theta4 theta5 theta6 n d use_t_in_e k rs2
       = Inr ((x1, x2, x3, t, e, y, y_0, y_1), rs3)"
      and rs': "rs' = rs3\<lparr>pos := pos rs3 + 1\<rparr>"
    from get_data_stream [OF data] rs1 rs2 rs'
    show "doubles rs' = doubles rs \<and> permutations rs' = permutations rs" by simp
  qed
qed


lemma select_columns_simps [simp]:
  "nrows (select_columns A idx) = nrows A" "ncols (select_columns A idx) = length idx"
  by (simp_all add: select_columns_def)

lemma column_array_simps [simp]:
  "nrows (column_array xs) = length xs" "ncols (column_array xs) = 1"
  by (simp_all add: column_array_def)

lemma select_groups_ok:
  assumes "set groups \<subseteq> set (map fst (frame_columns x))"
  shows "\<exists>f. select_groups x groups = Inr f \<and> nrows (frame_values f) = nrows (frame_values x)"
  using assms by (auto simp: select_groups_def Let_def list_all_iff)

lemma group_labels:
  assumes "0 < d"
  shows "{''x1'', ''x2'', ''x3''} \<subseteq> set (map fst
           (zip (replicate 1 ''x1'' @ replicate d ''x2'' @ replicate d ''x3'')
                (map str [0..<2 * d + 1])))"
proof -
  have "map fst (zip (replicate 1 ''x1'' @ replicate d ''x2'' @ replicate d ''x3'')
                (map str [0..<2 * d + 1])) =
        replicate 1 ''x1'' @ replicate d ''x2'' @ replicate d ''x3''"
    by (rule map_fst_zip) simp
  with assms show ?thesis by (simp only: set_append set_replicate_conv_if) simp
qed

lemma trial_pvalues_total:
  assumes n: "2 \<le> n" and k: "k = 3" and d: "0 < d"
    and unit: "\<forall>p. doubles rs p < 1"
    and rcot: "\<And>e y z. \<exists>p. RCoT c e y z = Inr p"
    and scaler: "\<And>X. nrows (fit_transform c X) = nrows X"
  shows "\<exists>v rs'. trial_pvalues c n use_t_in_e k d rs = Inr (v, rs') \<and> (\<forall>p. doubles rs' p < 1)"
proof -
  from get_train_test_data_total [OF n k unit]
  obtain x_train t_train y_train e_train y_0_train y_1_train
      x_test t_test y_test e_test y_0_test y_1_test true_ate rs' where
    run: "get_train_test_data n d use_t_in_e k rs =
       Inr ((x_train, t_train, y_train, e_train, y_0_train, y_1_train,
             x_test, t_test, y_test, e_test, y_0_test, y_1_test, true_ate), rs')"
    by (metis prod.exhaust)
  obtain u1 u2 u3 u4 rs1 where u: "get_u n d rs = ((u1, u2, u3, u4), rs1)"
    by (metis prod.exhaust)
  obtain theta1 theta2 theta3 theta4 theta5 theta6 rs2 where
    theta: "get_theta d use_t_in_e k rs1 = ((theta1, theta2, theta3, theta4, theta5, theta6), rs2)"
    by (metis prod.exhaust)
  from get_train_test_data_stream [OF run] unit have unit': "\<forall>p. doubles rs' p < 1" by simp
  obtain m where rows: "nrows (frame_values x_train) = m" "length t_train = m"
    and cols: "frame_columns x_train =
      zip (replicate 1 ''x1'' @ replicate d ''x2'' @ replicate d ''x3'') (map str [0..<2 * d + 1])"
  proof (rule get_train_test_data_Inr [OF run u theta])
    fix x1 x2 x3 t e y y_0 y_1 rs3
    assume "frame_values x_train = take_rows (hstack (hstack x1 x2) x3) (train_indices rs3 n)"
      "t_train = map (\<lambda>r. entry t r 0) (train_indices rs3 n)"
      "frame_columns x_train =
        zip (replicate 1 ''x1'' @ replicate d ''x2'' @ replicate d ''x3'') (map str [0..<2 * d + 1])"
    then show thesis by (intro that [of "length (train_indices rs3 n)"]) simp_all
  qed
  from group_labels [OF d] have groups: "set [''x2''] \<subseteq> set (map fst (frame_columns x_train))"
    "set [''x3''] \<subseteq> set (map fst (frame_columns x_train))"
    unfolding cols by simp_all
  from select_groups_ok [OF groups(1)] obtain x2f where
    x2f: "select_groups x_train [''x2''] = Inr x2f" "nrows (frame_values x2f) = m"
    using rows by auto
  from select_groups_ok [OF groups(2)] obtain x3f where
    x3f: "select_groups x_train [''x3''] = Inr x3f" "nrows (frame_values x3f) = m"
    using rows by auto
  let ?x2_n = "fit_transform c (frame_values x2f)"
  let ?x3_n = "fit_transform c (frame_values x3f)"
  let ?y_n = "fit_transform c (column_array y_train)"
  let ?t = "as_float (column_array t_train)"
  let ?e = "column_array e_train"
  from rcot obtain p1 where p1: "RCoT c ?e ?y_n ?t = Inr p1" by blast
  from rcot obtain p2 where p2: "RCoT c ?e ?y_n (hstack ?x3_n ?t) = Inr p2" by blast
  from rcot obtain p3 where p3: "RCoT c ?e ?y_n (hstack (hstack ?x2_n ?x3_n) ?t) = Inr p3" by blast
  have "trial_pvalues c n use_t_in_e k d rs = Inr ((p1, p2, p3), rs')"
    unfolding trial_pvalues_def
    by (simp add: run x2f x3f p1 p2 p3 scaler rows Let_def)
  with unit' show ?thesis by blast
qed


subsection \<open>Summaries and files\<close>

lemma reshape_row_Inr: "reshape_row v c = Inr w \<longleftrightarrow> nrows v * ncols v = c \<and> w = v"
  by (auto simp: reshape_row_def)

lemma np_div_scalar_simps [simp]:
  "nrows (np_div_scalar A c) = nrows A" "ncols (np_div_scalar A c) = ncols A"
  "entry (np_div_scalar A c) i j = entry A i j / c"
  by (simp_all add: np_div_scalar_def)

lemma np_abs_simps [simp]:
  "nrows (np_abs A) = nrows A" "ncols (np_abs A) = ncols A"
  "entry (np_abs A) i j = \<bar>entry A i j\<bar>"
  by (simp_all add: np_abs_def)

lemma np_std_axis0_simps [simp]:
  "nrows (np_std_axis0 M) = 1" "ncols (np_std_axis0 M) = ncols M"
  by (simp_all add: np_std_axis0_def)

lemma population_std_upt:
  "population_std (map f [0..<n]) =
     sqrt ((\<Sum>k<n. (f k - (\<Sum>l<n. f l) / real n) ^ 2) / real n)"
  by (simp add: population_std_def interv_sum_list_conv_sum_set_nat lessThan_atLeast0 comp_def)

lemma np_std_axis0_entry:
  "entry (np_std_axis0 M) i j = population_std (column_of M j)"
  by (simp add: np_std_axis0_def np_mean_axis0_def column_of_def population_std_upt)

lemma main_Inr:
  assumes "main c nr no use_t_in_e ne rs = Inr ((files, printed), rs')"
  obtains pvalue_empty pvalue_x3 pvalue_x2x3 where
    "outer_loop (trial_cell c no use_t_in_e ne) [0..<nr] [2, 7, 12]
       (np_zeros nr 3, np_zeros nr 3, np_zeros nr 3) rs
     = Inr ((pvalue_empty, pvalue_x3, pvalue_x2x3), rs')"
    "files = [(''syn-entner/pvalue_empty.csv'', np_savetxt pvalue_empty '',''),
              (''syn-entner/pvalue_x3.csv'', np_savetxt pvalue_x3 '',''),
              (''syn-entner/pvalue_x2x3.csv'', np_savetxt pvalue_x2x3 '','')]"
    "printed = [np_mean_axis0 pvalue_empty, np_mean_axis0 pvalue_x3, np_mean_axis0 pvalue_x2x3,
                np_div_scalar (np_std_axis0 pvalue_empty) (sqrt (real nr)),
                np_div_scalar (np_std_axis0 pvalue_x3) (sqrt (real nr)),
                np_div_scalar (np_std_axis0 pvalue_x2x3) (sqrt (real nr))]"
  using assms unfolding main_def
  by (auto simp: Let_def and_then_Inr reshape_row_Inr numeral_3_eq_3 [symmetric])

lemma main_ok:
  assumes "outer_loop (trial_cell c no use_t_in_e ne) [0..<nr] [2, 7, 12]
       (np_zeros nr 3, np_zeros nr 3, np_zeros nr 3) rs
     = Inr ((pvalue_empty, pvalue_x3, pvalue_x2x3), rs')"
    and "ncols pvalue_empty = 3" "ncols pvalue_x3 = 3" "ncols pvalue_x2x3 = 3"
  shows "\<exists>files printed. main c nr no use_t_in_e ne rs = Inr ((files, printed), rs')"
  using assms unfolding main_def
  by (simp add: Let_def reshape_row_def numeral_3_eq_3 [symmetric])


subsection \<open>The cells of \<^verbatim>\<open>synthetic_high_dimension.py\<close>\<close>

lemma trial_cell_hd_writes:
  "trial_cell_hd c number_observations use_t_in_e number_environments r i d st rs =
     and_then (trial_effects c number_observations use_t_in_e number_environments d rs)
       (\<lambda>(v, rs'). Inr ((set_cell (fst st) r i (fst v),
                          set_cell (fst (snd st)) r i (fst (snd v)),
                          set_cell (fst (snd (snd st))) r i (fst (snd (snd v))),
                          set_cell (fst (snd (snd (snd st)))) r i (fst (snd (snd (snd v)))),
                          set_cell (snd (snd (snd (snd st)))) r i (snd (snd (snd (snd v))))), rs'))"
  unfolding trial_cell_hd_def trial_effects_def
  by (simp add: and_then_def Let_def split_beta split: sum.splits)

lemma get_effect_total:
  assumes "\<And>X t y. \<exists>m. std_fit c X t y = Inr m"
    and "\<And>m X t. \<exists>p. std_estimate_population_outcome c m X t = Inr p"
    and "\<And>m a b. \<exists>v. std_estimate_effect c m a b = Inr v"
  shows "\<exists>v. get_effect c x_train t_train y_train x_test t_test = Inr v"
proof -
  from assms(1) obtain m where "std_fit c (frame_values x_train) t_train y_train = Inr m"
    by blast
  moreover from assms(2) obtain p where
    "std_estimate_population_outcome c m (frame_values x_test) t_test = Inr p" by blast
  moreover from assms(3) obtain v where "std_estimate_effect c m (snd p) (fst p) = Inr v"
    by blast
  ultimately show ?thesis by (simp add: get_effect_def)
qed

lemma select_names_ok:
  assumes "set names \<subseteq> set (frame_columns x)"
  shows "\<exists>f. select_names x names = Inr f"
  using assms by (auto simp: select_names_def Let_def list_all_iff)

lemma droplevel_columns:
  "frame_columns (droplevel \<lparr>frame_columns = zip gs ns, frame_values = V\<rparr>) = map snd (zip gs ns)"
  by (simp add: droplevel_def)


lemma trial_effects_total:
  assumes n: "2 \<le> n" and k: "k = 3" and d: "0 < d"
    and unit: "\<forall>p. doubles rs p < 1"
    and fit: "\<And>X t y. \<exists>m. std_fit c X t y = Inr m"
    and pop: "\<And>m X t. \<exists>p. std_estimate_population_outcome c m X t = Inr p"
    and eff: "\<And>m a b. \<exists>v. std_estimate_effect c m a b = Inr v"
    and irm: "\<And>X t y e k arm names.
                \<exists>sel. get_irm_features c X t y e k arm names = Inr sel \<and> set sel \<subseteq> set names"
  shows "\<exists>v rs'. trial_effects c n use_t_in_e k d rs = Inr (v, rs') \<and> (\<forall>p. doubles rs' p < 1)"
proof -
  from get_train_test_data_total [OF n k unit]
  obtain x_train t_train y_train e_train y_0_train y_1_train
      x_test t_test y_test e_test y_0_test y_1_test true_ate rs' where
    run: "get_train_test_data n d use_t_in_e k rs =
       Inr ((x_train, t_train, y_train, e_train, y_0_train, y_1_train,
             x_test, t_test, y_test, e_test, y_0_test, y_1_test, true_ate), rs')"
    by (metis prod.exhaust)
  obtain u1 u2 u3 u4 rs1 where u: "get_u n d rs = ((u1, u2, u3, u4), rs1)"
    by (metis prod.exhaust)
  obtain theta1 theta2 theta3 theta4 theta5 theta6 rs2 where
    theta: "get_theta d use_t_in_e k rs1 = ((theta1, theta2, theta3, theta4, theta5, theta6), rs2)"
    by (metis prod.exhaust)
  from get_train_test_data_stream [OF run] unit have unit': "\<forall>p. doubles rs' p < 1" by simp
  let ?cols = "zip (replicate 1 ''x1'' @ replicate d ''x2'' @ replicate d ''x3'')
                 (map str [0..<2 * d + 1])"
  have cols: "frame_columns x_train = ?cols" "frame_columns x_test = ?cols"
    by (rule get_train_test_data_Inr [OF run u theta], assumption)+
  from group_labels [OF d] have groups:
    "set [''x2''] \<subseteq> set (map fst ?cols)"
    "set [''x1'', ''x2'', ''x3''] \<subseteq> set (map fst ?cols)"
    "set [''x2'', ''x3''] \<subseteq> set (map fst ?cols)"
    by simp_all
  from select_groups_ok [of "[''x2'']" x_train] groups(1) obtain a1 where
    a1: "select_groups x_train [''x2''] = Inr a1" unfolding cols by blast
  from select_groups_ok [of "[''x2'']" x_test] groups(1) obtain a2 where
    a2: "select_groups x_test [''x2''] = Inr a2" unfolding cols by blast
  from get_effect_total [of c, OF fit pop eff] obtain oracle_effect where
    oracle_effect: "get_effect c a1 t_train y_train a2 t_test = Inr oracle_effect" by blast
  from select_groups_ok [of "[''x1'', ''x2'', ''x3'']" x_train] groups(2) obtain b1 where
    b1: "select_groups x_train [''x1'', ''x2'', ''x3''] = Inr b1" unfolding cols by blast
  from select_groups_ok [of "[''x1'', ''x2'', ''x3'']" x_test] groups(2) obtain b2 where
    b2: "select_groups x_test [''x1'', ''x2'', ''x3''] = Inr b2" unfolding cols by blast
  from get_effect_total [of c, OF fit pop eff] obtain baseline where
    baseline: "get_effect c b1 t_train y_train b2 t_test = Inr baseline" by blast
  from select_groups_ok [of "[''x2'', ''x3'']" x_train] groups(3) obtain c1 where
    c1: "select_groups x_train [''x2'', ''x3''] = Inr c1" unfolding cols by blast
  let ?names = "tl (frame_columns (droplevel x_train))"
  from irm obtain control where
    control: "get_irm_features c (frame_values c1) t_train y_train e_train k 0 ?names = Inr control"
    and control_names: "set control \<subseteq> set ?names" by blast
  from irm obtain treatment where
    treatment: "get_irm_features c (frame_values c1) t_train y_train e_train k 1 ?names
                = Inr treatment"
    and treatment_names: "set treatment \<subseteq> set ?names" by blast
  have same: "frame_columns (droplevel x_test) = frame_columns (droplevel x_train)"
    by (simp add: droplevel_def cols)
  have names: "set ?names \<subseteq> set (frame_columns (droplevel x_train))"
    by (cases "frame_columns (droplevel x_train)") auto
  from select_names_ok [of control "droplevel x_train"] control_names names obtain d1 where
    d1: "select_names (droplevel x_train) control = Inr d1" by blast
  from select_names_ok [of control "droplevel x_test"] control_names names same obtain d2 where
    d2: "select_names (droplevel x_test) control = Inr d2" by auto
  from get_effect_total [of c, OF fit pop eff] obtain irm_control where
    irm_control: "get_effect c d1 t_train y_train d2 t_test = Inr irm_control" by blast
  from select_names_ok [of treatment "droplevel x_train"] treatment_names names obtain e1 where
    e1: "select_names (droplevel x_train) treatment = Inr e1" by blast
  from select_names_ok [of treatment "droplevel x_test"] treatment_names names same obtain e2 where
    e2: "select_names (droplevel x_test) treatment = Inr e2" by auto
  from get_effect_total [of c, OF fit pop eff] obtain irm_treatment where
    irm_treatment: "get_effect c e1 t_train y_train e2 t_test = Inr irm_treatment" by blast
  have "trial_effects c n use_t_in_e k d rs =
      Inr ((true_ate, oracle_effect, baseline, irm_control, irm_treatment), rs')"
    unfolding trial_effects_def get_train_test_data_hd_eq
    by (simp add: run a1 a2 oracle_effect b1 b2 baseline c1 control
        treatment [unfolded One_nat_def] d1 d2 irm_control
        e1 e2 irm_treatment Let_def)
  with unit' show ?thesis by blast
qed


lemma absolute_error_column:
  assumes "has_shape A nr 3" "has_shape B nr 3"
  shows "column_of (np_abs (elementwise (\<lambda>a b. a - b) A B)) j =
           map (\<lambda>r. \<bar>entry A r j - entry B r j\<bar>) [0..<nr]"
  using assms by (auto simp: column_of_def has_shape_def broadcast_at_def)

lemma main_hd_Inr:
  assumes "main_hd c nr no use_t_in_e ne rs = Inr ((files, avg, std), rs')"
  obtains effect_true effect_oracle effect_baseline effect_irm_control effect_irm_treatment
  where
    "outer_loop (trial_cell_hd c no use_t_in_e ne) [0..<nr] [12, 22, 32]
       (np_zeros nr 3, np_zeros nr 3, np_zeros nr 3, np_zeros nr 3, np_zeros nr 3) rs
     = Inr ((effect_true, effect_oracle, effect_baseline, effect_irm_control,
             effect_irm_treatment), rs')"
    "files = [(''synthetic_high_dimension/effect_true.csv'', np_savetxt effect_true '',''),
              (''synthetic_high_dimension/effect_baseline.csv'', np_savetxt effect_baseline '',''),
              (''synthetic_high_dimension/effect_irm_control.csv'',
                 np_savetxt effect_irm_control '',''),
              (''synthetic_high_dimension/effect_irm_treatment.csv'',
                 np_savetxt effect_irm_treatment '','')]"
    "std = [np_div_scalar (np_std_axis0 (np_abs (elementwise (\<lambda>a b. a - b) effect_baseline effect_true)))
              (sqrt (real nr)),
            np_div_scalar (np_std_axis0 (np_abs (elementwise (\<lambda>a b. a - b) effect_oracle effect_true)))
              (sqrt (real nr)),
            np_div_scalar (np_std_axis0 (np_abs (elementwise (\<lambda>a b. a - b) effect_irm_control effect_true)))
              (sqrt (real nr)),
            np_div_scalar (np_std_axis0 (np_abs (elementwise (\<lambda>a b. a - b) effect_irm_treatment effect_true)))
              (sqrt (real nr))]"
  using assms unfolding main_hd_def
  by (auto simp: Let_def and_then_Inr reshape_row_Inr np_sub_Inr numeral_3_eq_3 [symmetric]
      simp del: np_sub_ok)

lemma main_hd_ok:
  assumes "outer_loop (trial_cell_hd c no use_t_in_e ne) [0..<nr] [12, 22, 32]
       (np_zeros nr 3, np_zeros nr 3, np_zeros nr 3, np_zeros nr 3, np_zeros nr 3) rs
     = Inr ((effect_true, effect_oracle, effect_baseline, effect_irm_control,
             effect_irm_treatment), rs')"
    and "has_shape effect_true nr 3" "has_shape effect_oracle nr 3"
      "has_shape effect_baseline nr 3" "has_shape effect_irm_control nr 3"
      "has_shape effect_irm_treatment nr 3"
  shows "\<exists>files avg std. main_hd c nr no use_t_in_e ne rs = Inr ((files, avg, std), rs')"
  using assms unfolding main_hd_def
  by (simp add: Let_def reshape_row_def has_shape_def numeral_3_eq_3 [symmetric])


subsection \<open>The result matrices\<close>

lemma trials_in_order: "concat (map (\<lambda>r. grid) [0..<nr]) = concat (replicate nr grid)"
  by (simp add: map_replicate_const)

lemma pvalue_matrices:
  assumes run: "outer_loop (trial_cell c no use_t_in_e ne) [0..<nr] grid
       (np_zeros nr (length grid), np_zeros nr (length grid), np_zeros nr (length grid)) rs
     = Inr ((pvalue_empty, pvalue_x3, pvalue_x2x3), rs')"
  shows "\<exists>vs. run_trials (trial_pvalues c no use_t_in_e ne) (concat (replicate nr grid)) rs
               = Inr (vs, rs') \<and>
           has_shape pvalue_empty nr (length grid) \<and> has_shape pvalue_x3 nr (length grid) \<and>
           has_shape pvalue_x2x3 nr (length grid) \<and>
           (\<forall>r i. r < nr \<and> i < length grid \<longrightarrow>
              (entry pvalue_empty r i, entry pvalue_x3 r i, entry pvalue_x2x3 r i)
              = vs ! (r * length grid + i))"
proof -
  let ?put = "\<lambda>r i v st. (set_cell (fst st) r i (fst v),
                          set_cell (fst (snd st)) r i (fst (snd v)),
                          set_cell (snd (snd st)) r i (snd (snd v)))"
  let ?trial = "trial_pvalues c no use_t_in_e ne"
  note loop = outer_loop_run [where put = ?put and trial = ?trial, OF trial_cell_writes _ run]
  from loop [where p = fst and q = fst] obtain vs where
    vs: "run_trials ?trial (concat (replicate nr grid)) rs = Inr (vs, rs')"
    and m1: "nrows pvalue_empty = nr" "ncols pvalue_empty = length grid"
      "\<And>r i. r < nr \<Longrightarrow> i < length grid \<Longrightarrow> entry pvalue_empty r i = fst (vs ! (r * length grid + i))"
    by (auto simp: trials_in_order)
  from loop [where p = "\<lambda>st. fst (snd st)" and q = "\<lambda>v. fst (snd v)"] vs have
    m2: "nrows pvalue_x3 = nr" "ncols pvalue_x3 = length grid"
      "\<And>r i. r < nr \<Longrightarrow> i < length grid \<Longrightarrow>
         entry pvalue_x3 r i = fst (snd (vs ! (r * length grid + i)))"
    by (auto simp: trials_in_order)
  from loop [where p = "\<lambda>st. snd (snd st)" and q = "\<lambda>v. snd (snd v)"] vs have
    m3: "nrows pvalue_x2x3 = nr" "ncols pvalue_x2x3 = length grid"
      "\<And>r i. r < nr \<Longrightarrow> i < length grid \<Longrightarrow>
         entry pvalue_x2x3 r i = snd (snd (vs ! (r * length grid + i)))"
    by (auto simp: trials_in_order)
  show ?thesis
    by (intro exI [of _ vs] conjI allI impI vs)
      (simp_all add: has_shape_def m1 m2 m3 prod_eq_iff)
qed

lemma pvalue_matrices_main:
  assumes run: "outer_loop (trial_cell c no use_t_in_e ne) [0..<nr] [2, 7, 12]
       (np_zeros nr 3, np_zeros nr 3, np_zeros nr 3) rs
     = Inr ((pvalue_empty, pvalue_x3, pvalue_x2x3), rs')"
  shows "\<exists>vs. run_trials (trial_pvalues c no use_t_in_e ne) (concat (replicate nr [2, 7, 12])) rs
               = Inr (vs, rs') \<and>
           has_shape pvalue_empty nr 3 \<and> has_shape pvalue_x3 nr 3 \<and>
           has_shape pvalue_x2x3 nr 3 \<and>
           (\<forall>r i. r < nr \<and> i < 3 \<longrightarrow>
              (entry pvalue_empty r i, entry pvalue_x3 r i, entry pvalue_x2x3 r i)
              = vs ! (r * 3 + i))"
proof -
  have three: "length [2::nat, 7, 12] = 3" by simp
  show ?thesis
    by (rule pvalue_matrices [of c no use_t_in_e ne nr "[2, 7, 12]", unfolded three, OF run])
qed

lemma main_total:
  assumes n: "2 \<le> no" and k: "ne = 3"
    and unit: "\<forall>p. doubles rs p < 1"
    and rcot: "\<And>e y z. \<exists>p. RCoT c e y z = Inr p"
    and scaler: "\<And>X. nrows (fit_transform c X) = nrows X"
  shows "\<exists>files printed rs'. main c nr no use_t_in_e ne rs = Inr ((files, printed), rs')"
proof -
  let ?put = "\<lambda>r i v st. (set_cell (fst st) r i (fst v),
                          set_cell (fst (snd st)) r i (fst (snd v)),
                          set_cell (snd (snd st)) r i (snd (snd v)))"
  have trial: "\<exists>v rs'. trial_pvalues c no use_t_in_e ne d rs = Inr (v, rs') \<and> (\<forall>p. doubles rs' p < 1)"
    if "d \<in> set [2, 7, 12]" "\<forall>p. doubles rs p < 1" for d rs
    using that by (intro trial_pvalues_total n k rcot scaler) auto
  from outer_loop_total [where put = ?put and good = "\<lambda>rs. \<forall>p. doubles rs p < 1"
      and trial = "trial_pvalues c no use_t_in_e ne" and grid = "[2, 7, 12]",
      OF trial_cell_writes trial unit]
  obtain pvalue_empty pvalue_x3 pvalue_x2x3 rs' where
    run: "outer_loop (trial_cell c no use_t_in_e ne) [0..<nr] [2, 7, 12]
       (np_zeros nr 3, np_zeros nr 3, np_zeros nr 3) rs
     = Inr ((pvalue_empty, pvalue_x3, pvalue_x2x3), rs')"
    by (metis prod.exhaust)
  from pvalue_matrices_main [OF run]
  have "ncols pvalue_empty = 3" "ncols pvalue_x3 = 3" "ncols pvalue_x2x3 = 3"
    by (auto simp: has_shape_def)
  from main_ok [OF run this] show ?thesis by blast
qed


lemma effect_matrices:
  assumes run: "outer_loop (trial_cell_hd c no use_t_in_e ne) [0..<nr] grid
       (np_zeros nr (length grid), np_zeros nr (length grid), np_zeros nr (length grid),
        np_zeros nr (length grid), np_zeros nr (length grid)) rs
     = Inr ((effect_true, effect_oracle, effect_baseline, effect_irm_control,
             effect_irm_treatment), rs')"
  shows "\<exists>vs. run_trials (trial_effects c no use_t_in_e ne) (concat (replicate nr grid)) rs
               = Inr (vs, rs') \<and>
           has_shape effect_true nr (length grid) \<and> has_shape effect_oracle nr (length grid) \<and>
           has_shape effect_baseline nr (length grid) \<and>
           has_shape effect_irm_control nr (length grid) \<and>
           has_shape effect_irm_treatment nr (length grid) \<and>
           (\<forall>r i. r < nr \<and> i < length grid \<longrightarrow>
              (entry effect_true r i, entry effect_oracle r i, entry effect_baseline r i,
               entry effect_irm_control r i, entry effect_irm_treatment r i)
              = vs ! (r * length grid + i))"
proof -
  let ?put = "\<lambda>r i v st. (set_cell (fst st) r i (fst v),
                          set_cell (fst (snd st)) r i (fst (snd v)),
                          set_cell (fst (snd (snd st))) r i (fst (snd (snd v))),
                          set_cell (fst (snd (snd (snd st)))) r i (fst (snd (snd (snd v)))),
                          set_cell (snd (snd (snd (snd st)))) r i (snd (snd (snd (snd v)))))"
  let ?trial = "trial_effects c no use_t_in_e ne"
  note loop = outer_loop_run [where put = ?put and trial = ?trial, OF trial_cell_hd_writes _ run]
  from loop [where p = fst and q = fst] obtain vs where
    vs: "run_trials ?trial (concat (replicate nr grid)) rs = Inr (vs, rs')"
    and m1: "nrows effect_true = nr" "ncols effect_true = length grid"
      "\<And>r i. r < nr \<Longrightarrow> i < length grid \<Longrightarrow> entry effect_true r i = fst (vs ! (r * length grid + i))"
    by (auto simp: trials_in_order)
  from loop [where p = "\<lambda>st. fst (snd st)" and q = "\<lambda>v. fst (snd v)"] vs have
    m2: "nrows effect_oracle = nr" "ncols effect_oracle = length grid"
      "\<And>r i. r < nr \<Longrightarrow> i < length grid \<Longrightarrow>
         entry effect_oracle r i = fst (snd (vs ! (r * length grid + i)))"
    by (auto simp: trials_in_order)
  from loop [where p = "\<lambda>st. fst (snd (snd st))" and q = "\<lambda>v. fst (snd (snd v))"] vs have
    m3: "nrows effect_baseline = nr" "ncols effect_baseline = length grid"
      "\<And>r i. r < nr \<Longrightarrow> i < length grid \<Longrightarrow>
         entry effect_baseline r i = fst (snd (snd (vs ! (r * length grid + i))))"
    by (auto simp: trials_in_order)
  from loop [where p = "\<lambda>st. fst (snd (snd (snd st)))" and q = "\<lambda>v. fst (snd (snd (snd v)))"] vs
  have m4: "nrows effect_irm_control = nr" "ncols effect_irm_control = length grid"
      "\<And>r i. r < nr \<Longrightarrow> i < length grid \<Longrightarrow>
         entry effect_irm_control r i = fst (snd (snd (snd (vs ! (r * length grid + i)))))"
    by (auto simp: trials_in_order)
  from loop [where p = "\<lambda>st. snd (snd (snd (snd st)))" and q = "\<lambda>v. snd (snd (snd (snd v)))"] vs
  have m5: "nrows effect_irm_treatment = nr" "ncols effect_irm_treatment = length grid"
      "\<And>r i. r < nr \<Longrightarrow> i < length grid \<Longrightarrow>
         entry effect_irm_treatment r i = snd (snd (snd (snd (vs ! (r * length grid + i)))))"
    by (auto simp: trials_in_order)
  show ?thesis
    by (intro exI [of _ vs] conjI allI impI vs)
      (simp_all add: has_shape_def m1 m2 m3 m4 m5 prod_eq_iff)
qed

lemma effect_matrices_main:
  assumes run: "outer_loop (trial_cell_hd c no use_t_in_e ne) [0..<nr] [12, 22, 32]
       (np_zeros nr 3, np_zeros nr 3, np_zeros nr 3, np_zeros nr 3, np_zeros nr 3) rs
     = Inr ((effect_true, effect_oracle, effect_baseline, effect_irm_control,
             effect_irm_treatment), rs')"
  shows "\<exists>vs. run_trials (trial_effects c no use_t_in_e ne) (concat (replicate nr [12, 22, 32])) rs
               = Inr (vs, rs') \<and>
           has_shape effect_true nr 3 \<and> has_shape effect_oracle nr 3 \<and>
           has_shape effect_baseline nr 3 \<and> has_shape effect_irm_control nr 3 \<and>
           has_shape effect_irm_treatment nr 3 \<and>
           (\<forall>r i. r < nr \<and> i < 3 \<longrightarrow>
              (entry effect_true r i, entry effect_oracle r i, entry effect_baseline r i,
               entry effect_irm_control r i, entry effect_irm_treatment r i)
              = vs ! (r * 3 + i))"
proof -
  have three: "length [12::nat, 22, 32] = 3" by simp
  show ?thesis
    by (rule effect_matrices [of c no use_t_in_e ne nr "[12, 22, 32]", unfolded three, OF run])
qed

lemma main_hd_total:
  assumes n: "2 \<le> no" and k: "ne = 3"
    and unit: "\<forall>p. doubles rs p < 1"
    and fit: "\<And>X t y. \<exists>m. std_fit c X t y = Inr m"
    and pop: "\<And>m X t. \<exists>p. std_estimate_population_outcome c m X t = Inr p"
    and eff: "\<And>m a b. \<exists>v. std_estimate_effect c m a b = Inr v"
    and irm: "\<And>X t y e k arm names.
                \<exists>sel. get_irm_features c X t y e k arm names = Inr sel \<and> set sel \<subseteq> set names"
  shows "\<exists>files avg std rs'. main_hd c nr no use_t_in_e ne rs = Inr ((files, avg, std), rs')"
proof -
  let ?put = "\<lambda>r i v st. (set_cell (fst st) r i (fst v),
                          set_cell (fst (snd st)) r i (fst (snd v)),
                          set_cell (fst (snd (snd st))) r i (fst (snd (snd v))),
                          set_cell (fst (snd (snd (snd st)))) r i (fst (snd (snd (snd v)))),
                          set_cell (snd (snd (snd (snd st)))) r i (snd (snd (snd (snd v)))))"
  have trial: "\<exists>v rs'. trial_effects c no use_t_in_e ne d rs = Inr (v, rs') \<and> (\<forall>p. doubles rs' p < 1)"
    if "d \<in> set [12, 22, 32]" "\<forall>p. doubles rs p < 1" for d rs
    using that by (intro trial_effects_total n k fit pop eff irm) auto
  from outer_loop_total [where put = ?put and good = "\<lambda>rs. \<forall>p. doubles rs p < 1"
      and trial = "trial_effects c no use_t_in_e ne" and grid = "[12, 22, 32]",
      OF trial_cell_hd_writes trial unit]
  obtain effect_true effect_oracle effect_baseline effect_irm_control effect_irm_treatment rs'
  where
    run: "outer_loop (trial_cell_hd c no use_t_in_e ne) [0..<nr] [12, 22, 32]
       (np_zeros nr 3, np_zeros nr 3, np_zeros nr 3, np_zeros nr 3, np_zeros nr 3) rs
     = Inr ((effect_true, effect_oracle, effect_baseline, effect_irm_control,
             effect_irm_treatment), rs')"
    by (metis prod.exhaust)
  from effect_matrices_main [OF run]
  have "has_shape effect_true nr 3" "has_shape effect_oracle nr 3"
      "has_shape effect_baseline nr 3" "has_shape effect_irm_control nr 3"
      "has_shape effect_irm_treatment nr 3"
    by auto
  from main_hd_ok [OF run this] show ?thesis by blast
qed

subsection \<open>What a run leaves behind\<close>

lemma example_main_returns:
  "\<exists>files printed rs'.
     main example_collaborators nr 2 use_t_in_e 3 (constant_stream (1 / 2) 0)
     = Inr ((files, printed), rs')"
  by (rule main_total) (simp_all add: example_collaborators_def constant_stream_def)

lemma example_main_hd_returns:
  "\<exists>files avg std rs'.
     main_hd example_estimators nr 2 use_t_in_e 3 (constant_stream (1 / 2) 0)
     = Inr ((files, avg, std), rs')"
  by (rule main_hd_total) (simp_all add: example_estimators_def constant_stream_def)

lemma main_summary:
  assumes run: "main c nr no use_t_in_e ne rs = Inr ((files, printed), rs')"
  shows "\<exists>pvalue_empty pvalue_x3 pvalue_x2x3 vs.
      outer_loop (trial_cell c no use_t_in_e ne) [0..<nr] [2, 7, 12]
        (np_zeros nr 3, np_zeros nr 3, np_zeros nr 3) rs
      = Inr ((pvalue_empty, pvalue_x3, pvalue_x2x3), rs') \<and>
      run_trials (trial_pvalues c no use_t_in_e ne) (concat (replicate nr [2, 7, 12])) rs
      = Inr (vs, rs') \<and>
      has_shape pvalue_empty nr 3 \<and> has_shape pvalue_x3 nr 3 \<and> has_shape pvalue_x2x3 nr 3 \<and>
      (\<forall>r i. r < nr \<and> i < 3 \<longrightarrow>
         (entry pvalue_empty r i, entry pvalue_x3 r i, entry pvalue_x2x3 r i) = vs ! (r * 3 + i)) \<and>
      (\<forall>j. entry (printed ! 3) 0 j = population_std (column_of pvalue_empty j) / sqrt (real nr) \<and>
           entry (printed ! 4) 0 j = population_std (column_of pvalue_x3 j) / sqrt (real nr) \<and>
           entry (printed ! 5) 0 j = population_std (column_of pvalue_x2x3 j) / sqrt (real nr))"
proof (rule main_Inr [OF run])
  fix pvalue_empty pvalue_x3 pvalue_x2x3
  assume loop: "outer_loop (trial_cell c no use_t_in_e ne) [0..<nr] [2, 7, 12]
        (np_zeros nr 3, np_zeros nr 3, np_zeros nr 3) rs
      = Inr ((pvalue_empty, pvalue_x3, pvalue_x2x3), rs')"
    and printed: "printed =
      [np_mean_axis0 pvalue_empty, np_mean_axis0 pvalue_x3, np_mean_axis0 pvalue_x2x3,
       np_div_scalar (np_std_axis0 pvalue_empty) (sqrt (real nr)),
       np_div_scalar (np_std_axis0 pvalue_x3) (sqrt (real nr)),
       np_div_scalar (np_std_axis0 pvalue_x2x3) (sqrt (real nr))]"
  from pvalue_matrices_main [OF loop] obtain vs where
    vs: "run_trials (trial_pvalues c no use_t_in_e ne) (concat (replicate nr [2, 7, 12])) rs
      = Inr (vs, rs')"
    and shapes: "has_shape pvalue_empty nr 3" "has_shape pvalue_x3 nr 3" "has_shape pvalue_x2x3 nr 3"
    and cells: "\<forall>r i. r < nr \<and> i < 3 \<longrightarrow>
         (entry pvalue_empty r i, entry pvalue_x3 r i, entry pvalue_x2x3 r i) = vs ! (r * 3 + i)"
    by blast
  have "entry (printed ! 3) 0 j = population_std (column_of pvalue_empty j) / sqrt (real nr) \<and>
        entry (printed ! 4) 0 j = population_std (column_of pvalue_x3 j) / sqrt (real nr) \<and>
        entry (printed ! 5) 0 j = population_std (column_of pvalue_x2x3 j) / sqrt (real nr)" for j
    unfolding printed by (simp add: np_std_axis0_entry)
  with loop vs shapes cells show ?thesis by blast
qed


lemma main_hd_summary:
  assumes run: "main_hd c nr no use_t_in_e ne rs = Inr ((files, avg, std), rs')"
  shows "\<exists>effect_true effect_oracle effect_baseline effect_irm_control effect_irm_treatment vs.
      outer_loop (trial_cell_hd c no use_t_in_e ne) [0..<nr] [12, 22, 32]
        (np_zeros nr 3, np_zeros nr 3, np_zeros nr 3, np_zeros nr 3, np_zeros nr 3) rs
      = Inr ((effect_true, effect_oracle, effect_baseline, effect_irm_control,
              effect_irm_treatment), rs') \<and>
      run_trials (trial_effects c no use_t_in_e ne) (concat (replicate nr [12, 22, 32])) rs
      = Inr (vs, rs') \<and>
      has_shape effect_true nr 3 \<and> has_shape effect_oracle nr 3 \<and>
      has_shape effect_baseline nr 3 \<and> has_shape effect_irm_control nr 3 \<and>
      has_shape effect_irm_treatment nr 3 \<and>
      (\<forall>r i. r < nr \<and> i < 3 \<longrightarrow>
         (entry effect_true r i, entry effect_oracle r i, entry effect_baseline r i,
          entry effect_irm_control r i, entry effect_irm_treatment r i) = vs ! (r * 3 + i)) \<and>
      (\<forall>j. entry (std ! 0) 0 j =
             population_std (map (\<lambda>r. \<bar>entry effect_baseline r j - entry effect_true r j\<bar>) [0..<nr])
             / sqrt (real nr) \<and>
           entry (std ! 1) 0 j =
             population_std (map (\<lambda>r. \<bar>entry effect_oracle r j - entry effect_true r j\<bar>) [0..<nr])
             / sqrt (real nr) \<and>
           entry (std ! 2) 0 j =
             population_std (map (\<lambda>r. \<bar>entry effect_irm_control r j - entry effect_true r j\<bar>) [0..<nr])
             / sqrt (real nr) \<and>
           entry (std ! 3) 0 j =
             population_std (map (\<lambda>r. \<bar>entry effect_irm_treatment r j - entry effect_true r j\<bar>) [0..<nr])
             / sqrt (real nr))"
proof (rule main_hd_Inr [OF run])
  fix effect_true effect_oracle effect_baseline effect_irm_control effect_irm_treatment
  assume loop: "outer_loop (trial_cell_hd c no use_t_in_e ne) [0..<nr] [12, 22, 32]
        (np_zeros nr 3, np_zeros nr 3, np_zeros nr 3, np_zeros nr 3, np_zeros nr 3) rs
      = Inr ((effect_true, effect_oracle, effect_baseline, effect_irm_control,
              effect_irm_treatment), rs')"
    and std: "std =
      [np_div_scalar (np_std_axis0 (np_abs (elementwise (\<lambda>a b. a - b) effect_baseline effect_true)))
         (sqrt (real nr)),
       np_div_scalar (np_std_axis0 (np_abs (elementwise (\<lambda>a b. a - b) effect_oracle effect_true)))
         (sqrt (real nr)),
       np_div_scalar (np_std_axis0 (np_abs (elementwise (\<lambda>a b. a - b) effect_irm_control effect_true)))
         (sqrt (real nr)),
       np_div_scalar (np_std_axis0 (np_abs (elementwise (\<lambda>a b. a - b) effect_irm_treatment effect_true)))
         (sqrt (real nr))]"
  from effect_matrices_main [OF loop] obtain vs where
    vs: "run_trials (trial_effects c no use_t_in_e ne) (concat (replicate nr [12, 22, 32])) rs
      = Inr (vs, rs')"
    and shapes: "has_shape effect_true nr 3" "has_shape effect_oracle nr 3"
      "has_shape effect_baseline nr 3" "has_shape effect_irm_control nr 3"
      "has_shape effect_irm_treatment nr 3"
    and cells: "\<forall>r i. r < nr \<and> i < 3 \<longrightarrow>
         (entry effect_true r i, entry effect_oracle r i, entry effect_baseline r i,
          entry effect_irm_control r i, entry effect_irm_treatment r i) = vs ! (r * 3 + i)"
    by blast
  have errors: "entry (std ! 0) 0 j =
             population_std (map (\<lambda>r. \<bar>entry effect_baseline r j - entry effect_true r j\<bar>) [0..<nr])
             / sqrt (real nr) \<and>
           entry (std ! 1) 0 j =
             population_std (map (\<lambda>r. \<bar>entry effect_oracle r j - entry effect_true r j\<bar>) [0..<nr])
             / sqrt (real nr) \<and>
           entry (std ! 2) 0 j =
             population_std (map (\<lambda>r. \<bar>entry effect_irm_control r j - entry effect_true r j\<bar>) [0..<nr])
             / sqrt (real nr) \<and>
           entry (std ! 3) 0 j =
             population_std (map (\<lambda>r. \<bar>entry effect_irm_treatment r j - entry effect_true r j\<bar>) [0..<nr])
             / sqrt (real nr)" for j
    unfolding std
    by (simp add: np_std_axis0_entry absolute_error_column [OF _ shapes(1)] shapes)
  from errors have "\<forall>j. entry (std ! 0) 0 j =
             population_std (map (\<lambda>r. \<bar>entry effect_baseline r j - entry effect_true r j\<bar>) [0..<nr])
             / sqrt (real nr) \<and>
           entry (std ! 1) 0 j =
             population_std (map (\<lambda>r. \<bar>entry effect_oracle r j - entry effect_true r j\<bar>) [0..<nr])
             / sqrt (real nr) \<and>
           entry (std ! 2) 0 j =
             population_std (map (\<lambda>r. \<bar>entry effect_irm_control r j - entry effect_true r j\<bar>) [0..<nr])
             / sqrt (real nr) \<and>
           entry (std ! 3) 0 j =
             population_std (map (\<lambda>r. \<bar>entry effect_irm_treatment r j - entry effect_true r j\<bar>) [0..<nr])
             / sqrt (real nr)" ..
  with loop vs shapes cells show ?thesis
    by (intro exI [of _ effect_true] exI [of _ effect_oracle] exI [of _ effect_baseline]
        exI [of _ effect_irm_control] exI [of _ effect_irm_treatment] exI [of _ vs] conjI)
qed

lemma main_files:
  assumes run: "main c nr no use_t_in_e ne rs = Inr ((files, printed), rs')"
  shows "\<exists>pvalue_empty pvalue_x3 pvalue_x2x3.
      outer_loop (trial_cell c no use_t_in_e ne) [0..<nr] [2, 7, 12]
        (np_zeros nr 3, np_zeros nr 3, np_zeros nr 3) rs
      = Inr ((pvalue_empty, pvalue_x3, pvalue_x2x3), rs') \<and>
      files =
        [(''syn-entner/pvalue_empty.csv'',
          \<lparr>csv_header = [], csv_delimiter = '','',
           csv_rows = map (\<lambda>r. map (entry pvalue_empty r) [0..<3]) [0..<nr]\<rparr>),
         (''syn-entner/pvalue_x3.csv'',
          \<lparr>csv_header = [], csv_delimiter = '','',
           csv_rows = map (\<lambda>r. map (entry pvalue_x3 r) [0..<3]) [0..<nr]\<rparr>),
         (''syn-entner/pvalue_x2x3.csv'',
          \<lparr>csv_header = [], csv_delimiter = '','',
           csv_rows = map (\<lambda>r. map (entry pvalue_x2x3 r) [0..<3]) [0..<nr]\<rparr>)]"
proof (rule main_Inr [OF run])
  fix pvalue_empty pvalue_x3 pvalue_x2x3
  assume loop: "outer_loop (trial_cell c no use_t_in_e ne) [0..<nr] [2, 7, 12]
        (np_zeros nr 3, np_zeros nr 3, np_zeros nr 3) rs
      = Inr ((pvalue_empty, pvalue_x3, pvalue_x2x3), rs')"
    and files: "files = [(''syn-entner/pvalue_empty.csv'', np_savetxt pvalue_empty '',''),
              (''syn-entner/pvalue_x3.csv'', np_savetxt pvalue_x3 '',''),
              (''syn-entner/pvalue_x2x3.csv'', np_savetxt pvalue_x2x3 '','')]"
  from pvalue_matrices_main [OF loop]
  have shapes: "has_shape pvalue_empty nr 3" "has_shape pvalue_x3 nr 3" "has_shape pvalue_x2x3 nr 3"
    by blast+
  have "np_savetxt M '','' =
      \<lparr>csv_header = [], csv_delimiter = '','',
       csv_rows = map (\<lambda>r. map (entry M r) [0..<3]) [0..<nr]\<rparr>" if "has_shape M nr 3" for M
    using that by (simp add: np_savetxt_def has_shape_def row_of_def)
  with shapes files loop show ?thesis by simp
qed

lemma main_hd_files:
  assumes run: "main_hd c nr no use_t_in_e ne rs = Inr ((files, avg, std), rs')"
  shows "\<exists>effect_true effect_oracle effect_baseline effect_irm_control effect_irm_treatment.
      outer_loop (trial_cell_hd c no use_t_in_e ne) [0..<nr] [12, 22, 32]
        (np_zeros nr 3, np_zeros nr 3, np_zeros nr 3, np_zeros nr 3, np_zeros nr 3) rs
      = Inr ((effect_true, effect_oracle, effect_baseline, effect_irm_control,
              effect_irm_treatment), rs') \<and>
      files =
        [(''synthetic_high_dimension/effect_true.csv'',
          \<lparr>csv_header = [], csv_delimiter = '','',
           csv_rows = map (\<lambda>r. map (entry effect_true r) [0..<3]) [0..<nr]\<rparr>),
         (''synthetic_high_dimension/effect_baseline.csv'',
          \<lparr>csv_header = [], csv_delimiter = '','',
           csv_rows = map (\<lambda>r. map (entry effect_baseline r) [0..<3]) [0..<nr]\<rparr>),
         (''synthetic_high_dimension/effect_irm_control.csv'',
          \<lparr>csv_header = [], csv_delimiter = '','',
           csv_rows = map (\<lambda>r. map (entry effect_irm_control r) [0..<3]) [0..<nr]\<rparr>),
         (''synthetic_high_dimension/effect_irm_treatment.csv'',
          \<lparr>csv_header = [], csv_delimiter = '','',
           csv_rows = map (\<lambda>r. map (entry effect_irm_treatment r) [0..<3]) [0..<nr]\<rparr>)]"
proof (rule main_hd_Inr [OF run])
  fix effect_true effect_oracle effect_baseline effect_irm_control effect_irm_treatment
  assume loop: "outer_loop (trial_cell_hd c no use_t_in_e ne) [0..<nr] [12, 22, 32]
        (np_zeros nr 3, np_zeros nr 3, np_zeros nr 3, np_zeros nr 3, np_zeros nr 3) rs
      = Inr ((effect_true, effect_oracle, effect_baseline, effect_irm_control,
              effect_irm_treatment), rs')"
    and files: "files =
      [(''synthetic_high_dimension/effect_true.csv'', np_savetxt effect_true '',''),
       (''synthetic_high_dimension/effect_baseline.csv'', np_savetxt effect_baseline '',''),
       (''synthetic_high_dimension/effect_irm_control.csv'', np_savetxt effect_irm_control '',''),
       (''synthetic_high_dimension/effect_irm_treatment.csv'',
          np_savetxt effect_irm_treatment '','')]"
  from effect_matrices_main [OF loop]
  have shapes: "has_shape effect_true nr 3" "has_shape effect_baseline nr 3"
    "has_shape effect_irm_control nr 3" "has_shape effect_irm_treatment nr 3"
    by blast+
  have "np_savetxt M '','' =
      \<lparr>csv_header = [], csv_delimiter = '','',
       csv_rows = map (\<lambda>r. map (entry M r) [0..<3]) [0..<nr]\<rparr>" if "has_shape M nr 3" for M
    using that by (simp add: np_savetxt_def has_shape_def row_of_def)
  with shapes files loop show ?thesis by simp
qed

subsection \<open>Stream positions and a run with two different repetitions\<close>


text \<open>
  The state on which the trial number \<open>k\<close> of a run starts: the initial one for the
  first trial, and one on which something has been drawn already for every later trial.
\<close>

lemma run_trials_nth:
  assumes step: "\<And>d s v s'. trial d s = Inr (v, s') \<Longrightarrow> doubles s' = doubles s \<and> 0 < pos s'"
    and run: "run_trials trial ds rs = Inr (vs, rs')" and k: "k < length ds"
  shows "\<exists>s s'. trial (ds ! k) s = Inr (vs ! k, s') \<and> doubles s = doubles rs \<and>
                (if k = 0 then s = rs else 0 < pos s)"
  using run k
proof (induction ds arbitrary: rs vs k)
  case Nil
  then show ?case by simp
next
  case (Cons d ds)
  from Cons.prems(1) obtain v rs1 vs1 where
    first: "trial d rs = Inr (v, rs1)"
    and rest: "run_trials trial ds rs1 = Inr (vs1, rs')"
    and vs: "vs = v # vs1"
    by (auto simp: and_then_Inr)
  show ?case
  proof (cases k)
    case 0
    with first vs show ?thesis by auto
  next
    case (Suc k')
    with Cons.prems(2) have "k' < length ds" by simp
    from Cons.IH [OF rest this] obtain s s' where
      s: "trial (ds ! k') s = Inr (vs1 ! k', s')" "doubles s = doubles rs1"
        "if k' = 0 then s = rs1 else 0 < pos s"
      by blast
    from step [OF first] have "doubles rs1 = doubles rs" "0 < pos rs1" by simp_all
    with s have "doubles s = doubles rs" "0 < pos s" by (auto split: if_splits)
    with s(1) Suc vs show ?thesis by auto
  qed
qed

lemma true_ate_of_stream:
  assumes run: "get_train_test_data n d use_t_in_e k rs =
      Inr ((x_train, t_train, y_train, e_train, y_0_train, y_1_train,
            x_test, t_test, y_test, e_test, y_0_test, y_1_test, true_ate), rs')"
  shows "true_ate =
     np_round (1 + doubles rs (pos rs + n * (3 * d + 1) + (d + 1) + (2 * d + 1) * d + 2 * d * d
                               + 2 * d)) 6"
    and "0 < pos rs'"
proof -
  obtain u1 u2 u3 u4 rs1 where u: "get_u n d rs = ((u1, u2, u3, u4), rs1)"
    by (metis prod.exhaust)
  obtain theta1 theta2 theta3 theta4 theta5 theta6 rs2 where
    theta: "get_theta d use_t_in_e k rs1 = ((theta1, theta2, theta3, theta4, theta5, theta6), rs2)"
    by (metis prod.exhaust)
  have rs1: "doubles rs1 = doubles rs" "pos rs1 = pos rs + n * (3 * d + 1)"
    using u by (auto simp: get_u_def Let_def split_beta random_uniform_def algebra_simps)
  have "entry theta4 (2 * d) 0 =
      1 + doubles rs1 (pos rs1 + (d + 1) + (2 * d + 1) * d + 2 * d * d + 2 * d)"
    using theta
    by (auto simp: get_theta_def Let_def split_beta random_uniform_def algebra_simps
        split: if_splits)
  with true_ate_is_coefficient [OF run u theta] rs1
  show "true_ate =
     np_round (1 + doubles rs (pos rs + n * (3 * d + 1) + (d + 1) + (2 * d + 1) * d + 2 * d * d
                               + 2 * d)) 6"
    by (simp add: add.assoc)
  show "0 < pos rs'"
    by (rule get_train_test_data_Inr [OF run u theta]) simp
qed

lemma get_effect_example [simp]:
  "get_effect example_estimators x_train t_train y_train x_test t_test = Inr 1"
  by (simp add: get_effect_def example_estimators_def)

lemma trial_effects_example:
  assumes "trial_effects example_estimators n use_t_in_e k d rs = Inr (v, rs')"
  shows "v = (np_round (1 + doubles rs (pos rs + n * (3 * d + 1) + (d + 1) + (2 * d + 1) * d
                                       + 2 * d * d + 2 * d)) 6, 1, 1, 1, 1)"
    and "doubles rs' = doubles rs" and "0 < pos rs'"
proof -
  from assms obtain x_train t_train y_train e_train y_0_train y_1_train
      x_test t_test y_test e_test y_0_test y_1_test true_ate where
    run: "get_train_test_data n d use_t_in_e k rs =
       Inr ((x_train, t_train, y_train, e_train, y_0_train, y_1_train,
             x_test, t_test, y_test, e_test, y_0_test, y_1_test, true_ate), rs')"
    and v: "v = (true_ate, 1, 1, 1, 1)"
    unfolding trial_effects_def get_train_test_data_hd_eq
    by (auto simp: and_then_Inr Let_def)
  from true_ate_of_stream [OF run] v
  show "v = (np_round (1 + doubles rs (pos rs + n * (3 * d + 1) + (d + 1) + (2 * d + 1) * d
                                       + 2 * d * d + 2 * d)) 6, 1, 1, 1, 1)"
    and "0 < pos rs'" by simp_all
  from get_train_test_data_stream [OF run] show "doubles rs' = doubles rs" by simp
qed

lemma np_round_quarters: "np_round (5 / 4) 6 = 5 / 4" "np_round (7 / 4) 6 = 7 / 4"
  by (simp_all add: np_round_def rint_def)

lemma population_std_pair:
  "population_std [a, b] = sqrt (((a - (a + b) / 2)\<^sup>2 + (b - (a + b) / 2)\<^sup>2) / 2)"
  by (simp add: population_std_def)

section \<open>The claims\<close>

text \<open>
  C2, as amended. For at least 10 observations and dimension at least 1, when
  \<open>number_environments\<close> is 3, the simulator, given the latents and coefficients that
  \<open>get_u\<close> and \<open>get_theta\<close> produce (from a stream whose unit samples lie in
  \<open>[0, 1)\<close>), returns \<open>x1\<close> of shape \<open>(n, 1)\<close>, \<open>x2\<close> and \<open>x3\<close> of shape
  \<open>(n, d)\<close>, and \<open>t\<close>, \<open>e\<close>, \<open>y\<close>, \<open>y_0\<close>, \<open>y_1\<close> of shape \<open>(n, 1)\<close>.
\<close>

theorem get_data_returns_shapes:
  assumes "10 \<le> n" and "1 \<le> d" and "number_environments = 3"
    and "\<forall>p. 0 \<le> doubles rs0 p \<and> doubles rs0 p < 1"
    and "get_u n d rs0 = ((u1, u2, u3, u4), rs1)"
    and "get_theta d use_t_in_e number_environments rs1
         = ((theta1, theta2, theta3, theta4, theta5, theta6), rs2)"
  shows "\<exists>x1 x2 x3 t e y y_0 y_1 rs3.
           get_data u1 u2 u3 u4 theta1 theta2 theta3 theta4 theta5 theta6
             n d use_t_in_e number_environments rs2
           = Inr ((x1, x2, x3, t, e, y, y_0, y_1), rs3) \<and>
           has_shape x1 n 1 \<and> has_shape x2 n d \<and> has_shape x3 n d \<and> has_shape t n 1 \<and>
           has_shape e n 1 \<and> has_shape y n 1 \<and> has_shape y_0 n 1 \<and> has_shape y_1 n 1"
proof -
  have "doubles rs2 = doubles rs0"
    using get_theta_stream(1) [of d use_t_in_e number_environments rs1]
      get_u_stream(1) [of n d rs0] by (simp add: assms(5,6))
  with assms(3,4) have "n = 0 \<or> number_environments = 3 \<and> (\<forall>q. doubles rs2 q < 1)"
    by simp
  from get_data_total [OF get_u_shapes [OF assms(5)] get_theta_shapes [OF assms(6)] this]
  obtain x1 x2 x3 t e y y_0 y_1 rs3 where
    run: "get_data u1 u2 u3 u4 theta1 theta2 theta3 theta4 theta5 theta6
            n d use_t_in_e number_environments rs2 = Inr ((x1, x2, x3, t, e, y, y_0, y_1), rs3)"
    by (metis prod.exhaust)
  from get_data_shapes [OF get_u_shapes [OF assms(5)] get_theta_shapes [OF assms(6)] run] run
  show ?thesis by blast
qed

theorem get_data_returns_shapes_witness:
  "(case get_u 10 2 (constant_stream (1 / 2) 0) of ((u1, u2, u3, u4), rs1) \<Rightarrow>
    case get_theta 2 1 3 rs1 of ((theta1, theta2, theta3, theta4, theta5, theta6), rs2) \<Rightarrow>
      \<exists>x1 x2 x3 t e y y_0 y_1 rs3.
        get_data u1 u2 u3 u4 theta1 theta2 theta3 theta4 theta5 theta6 10 2 1 3 rs2
        = Inr ((x1, x2, x3, t, e, y, y_0, y_1), rs3) \<and>
        has_shape x1 10 1 \<and> has_shape x2 10 2 \<and> has_shape x3 10 2 \<and> has_shape t 10 1 \<and>
        has_shape e 10 1 \<and> has_shape y 10 1 \<and> has_shape y_0 10 1 \<and> has_shape y_1 10 1)"
proof -
  obtain u1 u2 u3 u4 rs1 where u: "get_u 10 2 (constant_stream (1 / 2) 0) = ((u1, u2, u3, u4), rs1)"
    by (metis prod.exhaust)
  obtain theta1 theta2 theta3 theta4 theta5 theta6 rs2 where
    theta: "get_theta 2 1 3 rs1 = ((theta1, theta2, theta3, theta4, theta5, theta6), rs2)"
    by (metis prod.exhaust)
  have unit: "\<forall>p. 0 \<le> doubles (constant_stream (1 / 2) 0) p \<and>
      doubles (constant_stream (1 / 2) 0) p < 1"
    by (simp add: constant_stream_def)
  have n: "(10::nat) \<le> 10" and d: "(1::nat) \<le> 2" by simp_all
  from get_data_returns_shapes [OF n d refl unit u theta] show ?thesis
    by (simp add: u theta)
qed

text \<open>
  C2 as stated fails: with 10 observations, dimension 1 and arrays of the right shapes,
  but 2 environments, the simulator raises at the first categorical draw and returns
  nothing.
\<close>

theorem get_data_two_environments_counterexample:
  "get_data (np_ones 10 1) (np_ones 10 1) (np_ones 10 1) (np_ones 10 1)
     (np_ones 2 1) (np_ones 3 1) (np_ones 2 1) (np_ones 3 1) (np_ones 2 1) (np_ones 1 3)
     10 1 0 2 (constant_stream (1 / 2) 0)
   = Inl ChoiceSizeMismatch"
proof -
  have "latent_shapes 10 1 (np_ones 10 1) (np_ones 10 1) (np_ones 10 1) (np_ones 10 1)"
    by (simp add: latent_shapes_def has_shape_def)
  moreover have "coefficient_shapes 1 0 (np_ones 2 1) (np_ones 3 1) (np_ones 2 1)
      (np_ones 3 1) (np_ones 2 1) (np_ones 1 3)"
    by (simp add: coefficient_shapes_def has_shape_def)
  ultimately show ?thesis
    using get_data_fails [of 10 1 _ _ _ _ 0 _ _ _ _ _ _ 2] by simp
qed




text \<open>
  C4. Whenever the simulator returns, for an environment count \<open>k \<ge> 1\<close>, every entry
  of \<open>e\<close> is an integer in \<open>[0, k)\<close> and every entry of \<open>t\<close> is the integer 0 or 1;
  both arrays have integer entries by their type, and \<open>e\<close> has one row per observation.
\<close>

theorem labels_are_integers_in_range:
  assumes "get_data u1 u2 u3 u4 theta1 theta2 theta3 theta4 theta5 theta6
             n d use_t_in_e number_environments rs
           = Inr ((x1, x2, x3, (t :: int ndarray), (e :: int ndarray), y, y_0, y_1), rs')"
    and "1 \<le> number_environments"
  shows "has_shape e n 1 \<and> 0 \<le> entry e i j \<and> entry e i j < number_environments \<and>
         entry t i j \<in> {0, 1}"
  using get_data_environment [OF assms, of i j] get_data_treatment [OF assms(1), of i j]
  by simp

theorem labels_are_integers_in_range_witness:
  "\<exists>x1 x2 x3 t e y y_0 y_1 rs'.
     get_data (np_ones 2 1) (np_ones 2 1) (np_ones 2 1) (np_ones 2 1)
       (np_ones 2 1) (np_ones 3 1) (np_ones 2 1) (np_ones 3 1) (np_ones 2 1) (np_ones 2 3)
       2 1 1 3 (constant_stream (1 / 2) 0)
     = Inr ((x1, x2, x3, t, e, y, y_0, y_1), rs') \<and>
     has_shape e 2 1 \<and> 0 \<le> entry e 1 0 \<and> entry e 1 0 < 3 \<and> entry t 1 0 \<in> {0, 1}"
proof -
  let ?run = "get_data (np_ones 2 1) (np_ones 2 1) (np_ones 2 1) (np_ones 2 1)
       (np_ones 2 1) (np_ones 3 1) (np_ones 2 1) (np_ones 3 1) (np_ones 2 1) (np_ones 2 3)
       2 1 1 3 (constant_stream (1 / 2) 0)"
  have "\<exists>r. ?run = Inr r"
    by (rule get_data_total)
      (simp_all add: latent_shapes_def coefficient_shapes_def has_shape_def constant_stream_def)
  then obtain x1 x2 x3 t e y y_0 y_1 rs' where
    run: "?run = Inr ((x1, x2, x3, t, e, y, y_0, y_1), rs')"
    by (metis prod.exhaust)
  from labels_are_integers_in_range [OF run, of 1 0] run show ?thesis by simp
qed

text \<open>
  C9, as amended. With at least one observation and an environment count \<open>k\<close> other
  than 3, the simulator fails at the first categorical draw, for inputs made by \<open>get_u\<close>
  and \<open>get_theta\<close> and for either value of \<open>use_t_in_e\<close>: \<open>theta6\<close> has 3 columns
  whatever \<open>k\<close> is, so the probability vector has length 3 while the choice set has
  \<open>max k 0\<close> elements.
\<close>

theorem other_environment_counts_fail:
  assumes "0 < n" and "number_environments \<noteq> 3"
    and "get_u n d rs0 = ((u1, u2, u3, u4), rs1)"
    and "get_theta d use_t_in_e number_environments rs1
         = ((theta1, theta2, theta3, theta4, theta5, theta6), rs2)"
  shows "ncols theta6 = 3 \<and> length (np_arange number_environments) \<noteq> 3 \<and>
         get_data u1 u2 u3 u4 theta1 theta2 theta3 theta4 theta5 theta6
           n d use_t_in_e number_environments rs
         = Inl (if number_environments \<le> 0 then ChoiceEmptyPopulation else ChoiceSizeMismatch)"
proof -
  from get_theta_shapes [OF assms(4)] have "ncols theta6 = 3"
    by (simp add: coefficient_shapes_def has_shape_def)
  moreover have "length (np_arange number_environments) \<noteq> 3"
    using assms(2) by simp
  ultimately show ?thesis
    using get_data_fails [OF get_u_shapes [OF assms(3)] get_theta_shapes [OF assms(4)] assms(1,2)]
    by simp
qed

theorem other_environment_counts_fail_witness:
  "(case get_u 5 2 (constant_stream (1 / 2) 0) of ((u1, u2, u3, u4), rs1) \<Rightarrow>
    case get_theta 2 1 4 rs1 of ((theta1, theta2, theta3, theta4, theta5, theta6), rs2) \<Rightarrow>
      ncols theta6 = 3 \<and>
      get_data u1 u2 u3 u4 theta1 theta2 theta3 theta4 theta5 theta6 5 2 1 4 rs2
      = Inl ChoiceSizeMismatch)"
proof -
  obtain u1 u2 u3 u4 rs1 where u: "get_u 5 2 (constant_stream (1 / 2) 0) = ((u1, u2, u3, u4), rs1)"
    by (metis prod.exhaust)
  obtain theta1 theta2 theta3 theta4 theta5 theta6 rs2 where
    theta: "get_theta 2 1 4 rs1 = ((theta1, theta2, theta3, theta4, theta5, theta6), rs2)"
    by (metis prod.exhaust)
  from other_environment_counts_fail [OF _ _ u theta, of rs2] show ?thesis
    by (simp add: u theta)
qed

text \<open>
  C9 as stated fails when there is no observation: the loop over the rows never runs, no
  categorical draw is made, and the simulator returns (empty arrays) although the
  environment count is 2.
\<close>

theorem no_observation_counterexample:
  "\<not> isl (get_data (np_ones 0 1) (np_ones 0 1) (np_ones 0 1) (np_ones 0 1)
     (np_ones 2 1) (np_ones 3 1) (np_ones 2 1) (np_ones 3 1) (np_ones 2 1) (np_ones 1 3)
     0 1 0 2 (constant_stream (1 / 2) 0))"
proof -
  have "\<exists>r. get_data (np_ones 0 1) (np_ones 0 1) (np_ones 0 1) (np_ones 0 1)
     (np_ones 2 1) (np_ones 3 1) (np_ones 2 1) (np_ones 3 1) (np_ones 2 1) (np_ones 1 3)
     0 1 0 2 (constant_stream (1 / 2) 0) = Inr r"
    by (rule get_data_total) (simp_all add: latent_shapes_def coefficient_shapes_def has_shape_def)
  then show ?thesis by auto
qed



text \<open>
  C8. The four functions of the data-generation core are the same functions in both
  scripts: for all arguments and every state of the random stream,
  \<^verbatim>\<open>get_u\<close>, \<^verbatim>\<open>get_theta\<close>, \<^verbatim>\<open>get_data\<close> and \<^verbatim>\<open>get_train_test_data\<close> of
  \<^verbatim>\<open>synthetic_high_dimension.py\<close> return what those of \<^verbatim>\<open>syn-entner.py\<close> return,
  results, failures and final stream state alike.
\<close>

theorem generators_of_both_scripts_agree:
  "get_u_hd n d rs = get_u n d rs \<and>
   get_theta_hd d use_t_in_e k rs = get_theta d use_t_in_e k rs \<and>
   get_data_hd u1 u2 u3 u4 theta1 theta2 theta3 theta4 theta5 theta6 n d use_t_in_e k rs
     = get_data u1 u2 u3 u4 theta1 theta2 theta3 theta4 theta5 theta6 n d use_t_in_e k rs \<and>
   get_train_test_data_hd n d use_t_in_e k rs = get_train_test_data n d use_t_in_e k rs"
  by (simp only: get_u_hd_eq get_theta_hd_eq get_data_hd_eq get_train_test_data_hd_eq)

text \<open>
  C6, as amended. For at least one repetition, whenever a run of either script completes:
  every result matrix has the shape (repetitions, length of the dimension grid), with the
  grid of three dimensions each script fixes; the cell \<open>(r, i)\<close> of each matrix holds the
  output of the trial number \<open>3 r + i\<close> of the run, the trials being made one after the
  other in the order of the loops; and every reported standard error is, column by
  column, a population standard deviation (denominator: the number of repetitions)
  divided by the square root of the number of repetitions. \<^verbatim>\<open>syn-entner.py\<close>
  reports it for the columns of its three result matrices;
  \<^verbatim>\<open>synthetic_high_dimension.py\<close> reports it for the columns of the absolute
  differences between the matrix of an estimate and the matrix of the true effects, for
  its four estimates, and reports none for the matrix of the true effects.
\<close>

theorem result_matrices_and_standard_errors:
  assumes "1 \<le> nr"
  shows
   "(main c nr no use_t_in_e ne rs = Inr ((files, printed), rs') \<longrightarrow>
      (\<exists>pvalue_empty pvalue_x3 pvalue_x2x3 vs.
        outer_loop (trial_cell c no use_t_in_e ne) [0..<nr] [2, 7, 12]
          (np_zeros nr 3, np_zeros nr 3, np_zeros nr 3) rs
        = Inr ((pvalue_empty, pvalue_x3, pvalue_x2x3), rs') \<and>
        run_trials (trial_pvalues c no use_t_in_e ne) (concat (replicate nr [2, 7, 12])) rs
        = Inr (vs, rs') \<and>
        has_shape pvalue_empty nr 3 \<and> has_shape pvalue_x3 nr 3 \<and> has_shape pvalue_x2x3 nr 3 \<and>
        (\<forall>r i. r < nr \<and> i < 3 \<longrightarrow>
           (entry pvalue_empty r i, entry pvalue_x3 r i, entry pvalue_x2x3 r i)
           = vs ! (r * 3 + i)) \<and>
        (\<forall>j. entry (printed ! 3) 0 j = population_std (column_of pvalue_empty j) / sqrt (real nr) \<and>
             entry (printed ! 4) 0 j = population_std (column_of pvalue_x3 j) / sqrt (real nr) \<and>
             entry (printed ! 5) 0 j = population_std (column_of pvalue_x2x3 j) / sqrt (real nr))))
    \<and>
    (main_hd c_hd nr no_hd use_t_in_e_hd ne_hd rs_hd = Inr ((files_hd, avg, std), rs_hd') \<longrightarrow>
      (\<exists>effect_true effect_oracle effect_baseline effect_irm_control effect_irm_treatment vs.
        outer_loop (trial_cell_hd c_hd no_hd use_t_in_e_hd ne_hd) [0..<nr] [12, 22, 32]
          (np_zeros nr 3, np_zeros nr 3, np_zeros nr 3, np_zeros nr 3, np_zeros nr 3) rs_hd
        = Inr ((effect_true, effect_oracle, effect_baseline, effect_irm_control,
                effect_irm_treatment), rs_hd') \<and>
        run_trials (trial_effects c_hd no_hd use_t_in_e_hd ne_hd)
          (concat (replicate nr [12, 22, 32])) rs_hd
        = Inr (vs, rs_hd') \<and>
        has_shape effect_true nr 3 \<and> has_shape effect_oracle nr 3 \<and>
        has_shape effect_baseline nr 3 \<and> has_shape effect_irm_control nr 3 \<and>
        has_shape effect_irm_treatment nr 3 \<and>
        (\<forall>r i. r < nr \<and> i < 3 \<longrightarrow>
           (entry effect_true r i, entry effect_oracle r i, entry effect_baseline r i,
            entry effect_irm_control r i, entry effect_irm_treatment r i) = vs ! (r * 3 + i)) \<and>
        (\<forall>j. entry (std ! 0) 0 j =
               population_std (map (\<lambda>r. \<bar>entry effect_baseline r j - entry effect_true r j\<bar>) [0..<nr])
               / sqrt (real nr) \<and>
             entry (std ! 1) 0 j =
               population_std (map (\<lambda>r. \<bar>entry effect_oracle r j - entry effect_true r j\<bar>) [0..<nr])
               / sqrt (real nr) \<and>
             entry (std ! 2) 0 j =
               population_std (map (\<lambda>r. \<bar>entry effect_irm_control r j - entry effect_true r j\<bar>) [0..<nr])
               / sqrt (real nr) \<and>
             entry (std ! 3) 0 j =
               population_std (map (\<lambda>r. \<bar>entry effect_irm_treatment r j - entry effect_true r j\<bar>) [0..<nr])
               / sqrt (real nr))))"
  by (intro conjI impI main_summary main_hd_summary)

theorem result_matrices_and_standard_errors_witness:
  "\<exists>files printed rs' files_hd avg std rs_hd'.
     main example_collaborators 2 2 0 3 (constant_stream (1 / 2) 0) = Inr ((files, printed), rs') \<and>
     main_hd example_estimators 2 2 0 3 (constant_stream (1 / 2) 0)
       = Inr ((files_hd, avg, std), rs_hd') \<and>
     (\<exists>pvalue_empty pvalue_x3 pvalue_x2x3.
        outer_loop (trial_cell example_collaborators 2 0 3) [0..<2] [2, 7, 12]
          (np_zeros 2 3, np_zeros 2 3, np_zeros 2 3) (constant_stream (1 / 2) 0)
        = Inr ((pvalue_empty, pvalue_x3, pvalue_x2x3), rs') \<and>
        has_shape pvalue_x3 2 3 \<and>
        entry (printed ! 4) 0 2 = population_std (column_of pvalue_x3 2) / sqrt 2) \<and>
     (\<exists>effect_true effect_oracle effect_baseline effect_irm_control effect_irm_treatment.
        outer_loop (trial_cell_hd example_estimators 2 0 3) [0..<2] [12, 22, 32]
          (np_zeros 2 3, np_zeros 2 3, np_zeros 2 3, np_zeros 2 3, np_zeros 2 3)
          (constant_stream (1 / 2) 0)
        = Inr ((effect_true, effect_oracle, effect_baseline, effect_irm_control,
                effect_irm_treatment), rs_hd') \<and>
        has_shape effect_oracle 2 3 \<and>
        entry (std ! 1) 0 2 =
          population_std (map (\<lambda>r. \<bar>entry effect_oracle r 2 - entry effect_true r 2\<bar>) [0..<2])
          / sqrt 2)"
proof -
  from example_main_returns [of 2 0] obtain files printed rs' where
    run: "main example_collaborators 2 2 0 3 (constant_stream (1 / 2) 0)
          = Inr ((files, printed), rs')"
    by blast
  from example_main_hd_returns [of 2 0] obtain files_hd avg std rs_hd' where
    run_hd: "main_hd example_estimators 2 2 0 3 (constant_stream (1 / 2) 0)
             = Inr ((files_hd, avg, std), rs_hd')"
    by blast
  have two: "(1::nat) \<le> 2" by simp
  note both = result_matrices_and_standard_errors [OF two,
      of example_collaborators 2 0 3 "constant_stream (1 / 2) 0" files printed rs'
         example_estimators 2 0 3 "constant_stream (1 / 2) 0" files_hd avg std rs_hd']
  from both [THEN conjunct1, rule_format, OF run]
  have first: "\<exists>pvalue_empty pvalue_x3 pvalue_x2x3.
        outer_loop (trial_cell example_collaborators 2 0 3) [0..<2] [2, 7, 12]
          (np_zeros 2 3, np_zeros 2 3, np_zeros 2 3) (constant_stream (1 / 2) 0)
        = Inr ((pvalue_empty, pvalue_x3, pvalue_x2x3), rs') \<and>
        has_shape pvalue_x3 2 3 \<and>
        entry (printed ! 4) 0 2 = population_std (column_of pvalue_x3 2) / sqrt 2"
    by (elim exE conjE) (intro exI conjI, assumption, assumption, simp)
  from both [THEN conjunct2, rule_format, OF run_hd]
  have second: "\<exists>effect_true effect_oracle effect_baseline effect_irm_control effect_irm_treatment.
        outer_loop (trial_cell_hd example_estimators 2 0 3) [0..<2] [12, 22, 32]
          (np_zeros 2 3, np_zeros 2 3, np_zeros 2 3, np_zeros 2 3, np_zeros 2 3)
          (constant_stream (1 / 2) 0)
        = Inr ((effect_true, effect_oracle, effect_baseline, effect_irm_control,
                effect_irm_treatment), rs_hd') \<and>
        has_shape effect_oracle 2 3 \<and>
        entry (std ! 1) 0 2 =
          population_std (map (\<lambda>r. \<bar>entry effect_oracle r 2 - entry effect_true r 2\<bar>) [0..<2])
          / sqrt 2"
    by (elim exE conjE) (intro exI conjI, assumption, assumption, simp)
  from run run_hd first second show ?thesis by blast
qed

text \<open>
  C6 as stated fails for \<^verbatim>\<open>synthetic_high_dimension.py\<close>. Two repetitions with two
  observations and three environments; the estimator reports the effect 1 for every
  dataset, and the stream is such that the treatment coefficient of the first trial is
  \<open>5/4\<close> and that of every later trial \<open>7/4\<close>. Column 0 of the result matrix of the
  baseline effects, as the run saves it, is \<open>[1, 1]\<close>, with population standard
  deviation 0, but the standard error reported for it is that of the absolute errors
  \<open>[1/4, 3/4]\<close>, which is \<open>(1/4) / sqrt 2\<close>.
\<close>

theorem standard_error_of_absolute_errors_counterexample:
  "(case main_hd example_estimators 2 2 0 3 (spiked_stream 699 (1 / 4) (3 / 4)) of
      Inl err \<Rightarrow> False
    | Inr ((files, avg, std), rs') \<Rightarrow>
        fst (files ! 1) = ''synthetic_high_dimension/effect_baseline.csv'' \<and>
        map (\<lambda>row. row ! 0) (csv_rows (snd (files ! 1))) = [1, 1] \<and>
        population_std [1, 1] / sqrt 2 = 0 \<and>
        entry (std ! 0) 0 0 = 1 / (4 * sqrt 2) \<and>
        entry (std ! 0) 0 0 \<noteq> population_std [1, 1] / sqrt 2)"
proof -
  let ?rs = "spiked_stream 699 (1 / 4) (3 / 4)"
  let ?ds = "concat (replicate 2 [12, 22, 32 :: nat])"
  have "\<exists>files avg std rs'. main_hd example_estimators 2 2 0 3 ?rs = Inr ((files, avg, std), rs')"
    by (rule main_hd_total) (simp_all add: example_estimators_def spiked_stream_def)
  then obtain files avg std rs' where
    run: "main_hd example_estimators 2 2 0 3 ?rs = Inr ((files, avg, std), rs')"
    by blast
  from main_hd_summary [OF run] obtain effect_true effect_oracle effect_baseline
      effect_irm_control effect_irm_treatment vs where
    loop: "outer_loop (trial_cell_hd example_estimators 2 0 3) [0..<2] [12, 22, 32]
        (np_zeros 2 3, np_zeros 2 3, np_zeros 2 3, np_zeros 2 3, np_zeros 2 3) ?rs
      = Inr ((effect_true, effect_oracle, effect_baseline, effect_irm_control,
              effect_irm_treatment), rs')"
    and vs: "run_trials (trial_effects example_estimators 2 0 3) ?ds ?rs = Inr (vs, rs')"
    and cells: "\<forall>r i. r < 2 \<and> i < 3 \<longrightarrow>
         (entry effect_true r i, entry effect_oracle r i, entry effect_baseline r i,
          entry effect_irm_control r i, entry effect_irm_treatment r i) = vs ! (r * 3 + i)"
    and std: "\<forall>j. entry (std ! 0) 0 j =
             population_std (map (\<lambda>r. \<bar>entry effect_baseline r j - entry effect_true r j\<bar>) [0..<2])
             / sqrt (real 2) \<and>
           entry (std ! 1) 0 j =
             population_std (map (\<lambda>r. \<bar>entry effect_oracle r j - entry effect_true r j\<bar>) [0..<2])
             / sqrt (real 2) \<and>
           entry (std ! 2) 0 j =
             population_std (map (\<lambda>r. \<bar>entry effect_irm_control r j - entry effect_true r j\<bar>) [0..<2])
             / sqrt (real 2) \<and>
           entry (std ! 3) 0 j =
             population_std (map (\<lambda>r. \<bar>entry effect_irm_treatment r j - entry effect_true r j\<bar>) [0..<2])
             / sqrt (real 2)"
    by blast
  have ds: "?ds = [12, 22, 32, 12, 22, 32]" by (simp add: numeral_2_eq_2)
  have nth: "\<exists>s s'. trial_effects example_estimators 2 0 3 (?ds ! k) s = Inr (vs ! k, s') \<and>
      doubles s = doubles ?rs \<and> (if k = 0 then s = ?rs else 0 < pos s)" if "k < length ?ds" for k
    by (rule run_trials_nth [OF _ vs that]) (auto dest: trial_effects_example(2,3))
  from nth [of 0] obtain s0' where
    "trial_effects example_estimators 2 0 3 12 ?rs = Inr (vs ! 0, s0')"
    by (auto simp: ds)
  from trial_effects_example(1) [OF this]
  have "vs ! 0 = (np_round (5 / 4) 6, 1, 1, 1, 1)"
    by (simp add: spiked_stream_def)
  then have v0: "vs ! 0 = (5 / 4, 1, 1, 1, 1)"
    by (simp only: np_round_quarters)
  from nth [of 3] obtain s3 s3' where
    "trial_effects example_estimators 2 0 3 12 s3 = Inr (vs ! 3, s3')"
    and s3: "doubles s3 = doubles ?rs" "0 < pos s3"
    by (auto simp: ds)
  from trial_effects_example(1) [OF this(1)] s3
  have "vs ! 3 = (np_round (7 / 4) 6, 1, 1, 1, 1)"
    by (simp add: spiked_stream_def)
  then have v3: "vs ! 3 = (7 / 4, 1, 1, 1, 1)"
    by (simp only: np_round_quarters)
  from cells [rule_format, of 0 0] v0
  have row0: "entry effect_true 0 0 = 5 / 4" "entry effect_baseline 0 0 = 1" by simp_all
  from cells [rule_format, of "Suc 0" 0] v3
  have row1: "entry effect_true (Suc 0) 0 = 7 / 4" "entry effect_baseline (Suc 0) 0 = 1"
    by simp_all
  have upt2: "[0..<2] = [0, Suc 0]" by (simp add: numeral_2_eq_2)
  have quarter: "sqrt (1 / 16) = 1 / 4"
    by (rule real_sqrt_unique) (simp_all add: power2_eq_square)
  from std [rule_format, of 0]
  have "entry (std ! 0) 0 0 = population_std [1 / 4, 3 / 4] / sqrt 2"
    by (simp add: upt2 row0 row1)
  also have "population_std [1 / 4, 3 / 4] = 1 / 4"
    unfolding population_std_pair by (simp add: power2_eq_square quarter)
  finally have reported: "entry (std ! 0) 0 0 = 1 / (4 * sqrt 2)" by simp
  have zero: "population_std [1, 1] / sqrt 2 = 0"
    unfolding population_std_pair by simp
  from main_hd_files [OF run] loop
  have files: "fst (files ! 1) = ''synthetic_high_dimension/effect_baseline.csv''"
    "csv_rows (snd (files ! 1)) = map (\<lambda>r. map (entry effect_baseline r) [0..<3]) [0..<2]"
    by auto
  have column: "map (\<lambda>row. row ! 0) (csv_rows (snd (files ! 1))) = [1, 1]"
    unfolding files(2) by (simp add: upt2 row0 row1 upt_rec)
  from reported zero have "entry (std ! 0) 0 0 \<noteq> population_std [1, 1] / sqrt 2" by simp
  with files(1) column zero reported show ?thesis
    unfolding run by simp
qed

text \<open>
  C7, evaluated on the code. When a run of \<^verbatim>\<open>syn-entner.py\<close> completes it has written
  three files, one per result matrix, each without header, with the delimiter \<open>,\<close> and
  with the rows of its matrix. When a run of \<^verbatim>\<open>synthetic_high_dimension.py\<close>
  completes it has written four files, for four of its five result matrices: no file is
  written for \<open>effect_oracle\<close>.
\<close>

theorem persisted_result_files:
   "(main c nr no use_t_in_e ne rs = Inr ((files, printed), rs') \<longrightarrow>
      (\<exists>pvalue_empty pvalue_x3 pvalue_x2x3.
        outer_loop (trial_cell c no use_t_in_e ne) [0..<nr] [2, 7, 12]
          (np_zeros nr 3, np_zeros nr 3, np_zeros nr 3) rs
        = Inr ((pvalue_empty, pvalue_x3, pvalue_x2x3), rs') \<and>
        files =
          [(''syn-entner/pvalue_empty.csv'',
            \<lparr>csv_header = [], csv_delimiter = '','',
             csv_rows = map (\<lambda>r. map (entry pvalue_empty r) [0..<3]) [0..<nr]\<rparr>),
           (''syn-entner/pvalue_x3.csv'',
            \<lparr>csv_header = [], csv_delimiter = '','',
             csv_rows = map (\<lambda>r. map (entry pvalue_x3 r) [0..<3]) [0..<nr]\<rparr>),
           (''syn-entner/pvalue_x2x3.csv'',
            \<lparr>csv_header = [], csv_delimiter = '','',
             csv_rows = map (\<lambda>r. map (entry pvalue_x2x3 r) [0..<3]) [0..<nr]\<rparr>)]))
    \<and>
    (main_hd c_hd nr_hd no_hd use_t_in_e_hd ne_hd rs_hd = Inr ((files_hd, avg, std), rs_hd') \<longrightarrow>
      (\<exists>effect_true effect_oracle effect_baseline effect_irm_control effect_irm_treatment.
        outer_loop (trial_cell_hd c_hd no_hd use_t_in_e_hd ne_hd) [0..<nr_hd] [12, 22, 32]
          (np_zeros nr_hd 3, np_zeros nr_hd 3, np_zeros nr_hd 3, np_zeros nr_hd 3,
           np_zeros nr_hd 3) rs_hd
        = Inr ((effect_true, effect_oracle, effect_baseline, effect_irm_control,
                effect_irm_treatment), rs_hd') \<and>
        files_hd =
          [(''synthetic_high_dimension/effect_true.csv'',
            \<lparr>csv_header = [], csv_delimiter = '','',
             csv_rows = map (\<lambda>r. map (entry effect_true r) [0..<3]) [0..<nr_hd]\<rparr>),
           (''synthetic_high_dimension/effect_baseline.csv'',
            \<lparr>csv_header = [], csv_delimiter = '','',
             csv_rows = map (\<lambda>r. map (entry effect_baseline r) [0..<3]) [0..<nr_hd]\<rparr>),
           (''synthetic_high_dimension/effect_irm_control.csv'',
            \<lparr>csv_header = [], csv_delimiter = '','',
             csv_rows = map (\<lambda>r. map (entry effect_irm_control r) [0..<3]) [0..<nr_hd]\<rparr>),
           (''synthetic_high_dimension/effect_irm_treatment.csv'',
            \<lparr>csv_header = [], csv_delimiter = '','',
             csv_rows = map (\<lambda>r. map (entry effect_irm_treatment r) [0..<3]) [0..<nr_hd]\<rparr>)] \<and>
        length files_hd = 4 \<and>
        ''synthetic_high_dimension/effect_oracle.csv'' \<notin> set (map fst files_hd)))"
proof (intro conjI impI)
  assume "main c nr no use_t_in_e ne rs = Inr ((files, printed), rs')"
  then show "\<exists>pvalue_empty pvalue_x3 pvalue_x2x3.
        outer_loop (trial_cell c no use_t_in_e ne) [0..<nr] [2, 7, 12]
          (np_zeros nr 3, np_zeros nr 3, np_zeros nr 3) rs
        = Inr ((pvalue_empty, pvalue_x3, pvalue_x2x3), rs') \<and>
        files =
          [(''syn-entner/pvalue_empty.csv'',
            \<lparr>csv_header = [], csv_delimiter = '','',
             csv_rows = map (\<lambda>r. map (entry pvalue_empty r) [0..<3]) [0..<nr]\<rparr>),
           (''syn-entner/pvalue_x3.csv'',
            \<lparr>csv_header = [], csv_delimiter = '','',
             csv_rows = map (\<lambda>r. map (entry pvalue_x3 r) [0..<3]) [0..<nr]\<rparr>),
           (''syn-entner/pvalue_x2x3.csv'',
            \<lparr>csv_header = [], csv_delimiter = '','',
             csv_rows = map (\<lambda>r. map (entry pvalue_x2x3 r) [0..<3]) [0..<nr]\<rparr>)]"
    by (rule main_files)
next
  assume "main_hd c_hd nr_hd no_hd use_t_in_e_hd ne_hd rs_hd = Inr ((files_hd, avg, std), rs_hd')"
  from main_hd_files [OF this] show
    "\<exists>effect_true effect_oracle effect_baseline effect_irm_control effect_irm_treatment.
        outer_loop (trial_cell_hd c_hd no_hd use_t_in_e_hd ne_hd) [0..<nr_hd] [12, 22, 32]
          (np_zeros nr_hd 3, np_zeros nr_hd 3, np_zeros nr_hd 3, np_zeros nr_hd 3,
           np_zeros nr_hd 3) rs_hd
        = Inr ((effect_true, effect_oracle, effect_baseline, effect_irm_control,
                effect_irm_treatment), rs_hd') \<and>
        files_hd =
          [(''synthetic_high_dimension/effect_true.csv'',
            \<lparr>csv_header = [], csv_delimiter = '','',
             csv_rows = map (\<lambda>r. map (entry effect_true r) [0..<3]) [0..<nr_hd]\<rparr>),
           (''synthetic_high_dimension/effect_baseline.csv'',
            \<lparr>csv_header = [], csv_delimiter = '','',
             csv_rows = map (\<lambda>r. map (entry effect_baseline r) [0..<3]) [0..<nr_hd]\<rparr>),
           (''synthetic_high_dimension/effect_irm_control.csv'',
            \<lparr>csv_header = [], csv_delimiter = '','',
             csv_rows = map (\<lambda>r. map (entry effect_irm_control r) [0..<3]) [0..<nr_hd]\<rparr>),
           (''synthetic_high_dimension/effect_irm_treatment.csv'',
            \<lparr>csv_header = [], csv_delimiter = '','',
             csv_rows = map (\<lambda>r. map (entry effect_irm_treatment r) [0..<3]) [0..<nr_hd]\<rparr>)] \<and>
        length files_hd = 4 \<and>
        ''synthetic_high_dimension/effect_oracle.csv'' \<notin> set (map fst files_hd)"
    by (elim exE conjE) (intro exI conjI, assumption, assumption, simp_all)
qed

theorem persisted_result_files_witness:
  "\<exists>files printed rs' files_hd avg std rs_hd'.
     main example_collaborators 1 2 1 3 (constant_stream (1 / 2) 0) = Inr ((files, printed), rs') \<and>
     main_hd example_estimators 1 2 1 3 (constant_stream (1 / 2) 0)
       = Inr ((files_hd, avg, std), rs_hd') \<and>
     map fst files =
       [''syn-entner/pvalue_empty.csv'', ''syn-entner/pvalue_x3.csv'',
        ''syn-entner/pvalue_x2x3.csv''] \<and>
     map fst files_hd =
       [''synthetic_high_dimension/effect_true.csv'',
        ''synthetic_high_dimension/effect_baseline.csv'',
        ''synthetic_high_dimension/effect_irm_control.csv'',
        ''synthetic_high_dimension/effect_irm_treatment.csv'']"
proof -
  from example_main_returns [of 1 1] obtain files printed rs' where
    run: "main example_collaborators 1 2 1 3 (constant_stream (1 / 2) 0)
          = Inr ((files, printed), rs')"
    by blast
  from example_main_hd_returns [of 1 1] obtain files_hd avg std rs_hd' where
    run_hd: "main_hd example_estimators 1 2 1 3 (constant_stream (1 / 2) 0)
             = Inr ((files_hd, avg, std), rs_hd')"
    by blast
  note both = persisted_result_files
     [of example_collaborators 1 2 1 3 "constant_stream (1 / 2) 0" files printed rs'
         example_estimators 1 2 1 3 "constant_stream (1 / 2) 0" files_hd avg std rs_hd']
  from both [THEN conjunct1, rule_format, OF run]
  have first: "map fst files =
       [''syn-entner/pvalue_empty.csv'', ''syn-entner/pvalue_x3.csv'',
        ''syn-entner/pvalue_x2x3.csv'']"
    by auto
  from both [THEN conjunct2, rule_format, OF run_hd]
  have second: "map fst files_hd =
       [''synthetic_high_dimension/effect_true.csv'',
        ''synthetic_high_dimension/effect_baseline.csv'',
        ''synthetic_high_dimension/effect_irm_control.csv'',
        ''synthetic_high_dimension/effect_irm_treatment.csv'']"
    by auto
  from run run_hd first second show ?thesis
    by (intro exI [of _ files] exI [of _ printed] exI [of _ rs'] exI [of _ files_hd]
        exI [of _ avg] exI [of _ std] exI [of _ rs_hd'] conjI)
qed

end
